theory Spec2Isabelle
  imports Main
begin

section \<open>The Google Drive image client of docflu\<close>

text \<open>
  A shallow embedding of \<^verbatim>\<open>lib/core/gdocs/google-drive-client.js\<close> (class
  \<^verbatim>\<open>GoogleDriveClient\<close>). The class talks to three outside parties: the Drive API,
  the local file system and the state manager. Every call to one of them is written to a
  trace, and what the outside party answers is read from an oracle record, so that the
  theorems hold for every behaviour of the outside world.
\<close>

subsection \<open>Strings and paths (the Node library functions the client calls)\<close>

text \<open>
  \<^verbatim>\<open>String.prototype.toLowerCase\<close> on the ASCII letters. The tables of the client hold
  ASCII keys only, and no character outside ASCII lower-cases to one of their letters.
\<close>

definition lower_char :: "char \<Rightarrow> char" where
  "lower_char c =
     (case map_of (zip ''ABCDEFGHIJKLMNOPQRSTUVWXYZ'' ''abcdefghijklmnopqrstuvwxyz'') c of
        Some l \<Rightarrow> l
      | None \<Rightarrow> c)"

definition toLowerCase :: "string \<Rightarrow> string" where
  "toLowerCase s = map lower_char s"

text \<open>
  The last component of a POSIX path: trailing slashes are dropped, then everything after
  the last remaining slash is kept.
\<close>

definition last_component :: "string \<Rightarrow> string" where
  "last_component p =
     rev (takeWhile (\<lambda>c. c \<noteq> CHR ''/'') (dropWhile (\<lambda>c. c = CHR ''/'') (rev p)))"

text \<open>
  \<^verbatim>\<open>path.extname\<close> of Node (POSIX): the text from the last dot of the last component
  on; empty when that component has no dot, when its only dot is its first character
  (\<^verbatim>\<open>path.extname('.index')\<close> is \<^verbatim>\<open>''\<close>), or when it is \<^verbatim>\<open>..\<close>.
\<close>

definition extname :: "string \<Rightarrow> string" where
  "extname p =
     (let b = last_component p;
          r = takeWhile (\<lambda>c. c \<noteq> CHR ''.'') (rev b);
          stem = take (length b - length r - 1) b
      in if CHR ''.'' \<notin> set b \<or> stem = [] \<or> b = ''..'' then [] else CHR ''.'' # rev r)"

text \<open>\<^verbatim>\<open>path.basename(p)\<close> and \<^verbatim>\<open>path.basename(p, ext)\<close> of Node (POSIX).\<close>

definition basename :: "string \<Rightarrow> string" where
  "basename p = last_component p"

definition basename_ext :: "string \<Rightarrow> string \<Rightarrow> string" where
  "basename_ext p ext =
     (let b = last_component p in
      if ext \<noteq> [] \<and> p = ext then []
      else if ext \<noteq> [] \<and> length ext < length b \<and> drop (length b - length ext) b = ext
        then take (length b - length ext) b
      else b)"

text \<open>
  \<^verbatim>\<open>path.normalize\<close> of Node (POSIX). The path is cut at its slashes; empty segments and
  \<^verbatim>\<open>.\<close> are dropped, \<^verbatim>\<open>..\<close> removes the segment before it (above the start of a relative
  path it is kept, above the root it is dropped); a leading and a trailing slash are kept.
\<close>

fun split_slash :: "string \<Rightarrow> string list" where
  "split_slash [] = [[]]"
| "split_slash (c # cs) =
     (if c = CHR ''/'' then [] # split_slash cs
      else (case split_slash cs of [] \<Rightarrow> [[c]] | s # ss \<Rightarrow> (c # s) # ss))"

fun normalize_segments :: "bool \<Rightarrow> string list \<Rightarrow> string list \<Rightarrow> string list" where
  "normalize_segments allowAboveRoot res [] = rev res"
| "normalize_segments allowAboveRoot res (s # ss) =
     (if s = [] \<or> s = ''.'' then normalize_segments allowAboveRoot res ss
      else if s = ''..'' then
        (case res of
           [] \<Rightarrow> normalize_segments allowAboveRoot (if allowAboveRoot then [''..''] else []) ss
         | t # ts \<Rightarrow>
             if t = ''..''
             then normalize_segments allowAboveRoot (if allowAboveRoot then ''..'' # res else res) ss
             else normalize_segments allowAboveRoot ts ss)
      else normalize_segments allowAboveRoot (s # res) ss)"

fun join_slash :: "string list \<Rightarrow> string" where
  "join_slash [] = []"
| "join_slash [s] = s"
| "join_slash (s # ss) = s @ ''/'' @ join_slash ss"

definition path_normalize :: "string \<Rightarrow> string" where
  "path_normalize p =
     (if p = [] then ''.''
      else
        let isAbsolute = (hd p = CHR ''/'');
            trailingSeparator = (last p = CHR ''/'');
            q = join_slash (normalize_segments (\<not> isAbsolute) [] (split_slash p))
        in if q = [] then (if isAbsolute then ''/'' else if trailingSeparator then ''./'' else ''.'')
           else (if isAbsolute then ''/'' else []) @ q @ (if trailingSeparator then ''/'' else []))"

text \<open>
  \<^verbatim>\<open>path.join\<close> of Node (POSIX): the non-empty arguments joined by a slash, then
  normalised; \<^verbatim>\<open>.\<close> when there is none.
\<close>

definition path_join :: "string list \<Rightarrow> string" where
  "path_join args =
     (let parts = filter (\<lambda>a. a \<noteq> []) args in
      if parts = [] then ''.'' else path_normalize (join_slash parts))"

text \<open>\<^verbatim>\<open>String.prototype.endsWith\<close> and \<^verbatim>\<open>substring(0, n)\<close>.\<close>

definition endsWith :: "string \<Rightarrow> string \<Rightarrow> bool" where
  "endsWith s suffix = (length suffix \<le> length s \<and> drop (length s - length suffix) s = suffix)"

definition substring0 :: "nat \<Rightarrow> string \<Rightarrow> string" where
  "substring0 n s = take n s"

subsection \<open>Property lookup in an object literal\<close>

text \<open>
  \<^verbatim>\<open>table[key]\<close> on an object literal finds the literal's own properties first and then
  the properties every object inherits from \<^verbatim>\<open>Object.prototype\<close>; these are functions
  (or, for \<^verbatim>\<open>__proto__\<close>, the prototype object), all of them truthy.
\<close>

definition object_prototype_keys :: "string list" where
  "object_prototype_keys =
     [''constructor'', ''__defineGetter__'', ''__defineSetter__'', ''hasOwnProperty'',
      ''__lookupGetter__'', ''__lookupSetter__'', ''isPrototypeOf'', ''propertyIsEnumerable'',
      ''toString'', ''valueOf'', ''__proto__'', ''toLocaleString'']"

datatype js_value = JStr string | JInherited string

definition js_get :: "(string \<times> string) list \<Rightarrow> string \<Rightarrow> js_value option" where
  "js_get table k =
     (case map_of table k of
        Some v \<Rightarrow> Some (JStr v)
      | None \<Rightarrow> if k \<in> set object_prototype_keys then Some (JInherited k) else None)"

text \<open>
  The value as a template literal renders it: \<^verbatim>\<open>__proto__\<close> is the prototype object,
  \<^verbatim>\<open>constructor\<close> is the function \<^verbatim>\<open>Object\<close>, every other inherited property is a
  native function of its own name.
\<close>

definition js_to_string :: "js_value \<Rightarrow> string" where
  "js_to_string v =
     (case v of
        JStr s \<Rightarrow> s
      | JInherited k \<Rightarrow>
          if k = ''__proto__'' then ''[object Object]''
          else if k = ''constructor'' then ''function Object() { [native code] }''
          else ''function '' @ k @ ''() { [native code] }'')"

definition truthy :: "js_value \<Rightarrow> bool" where
  "truthy v = (case v of JStr s \<Rightarrow> s \<noteq> [] | JInherited k \<Rightarrow> True)"

subsection \<open>getMimeType and getExtensionFromMimeType\<close>

definition mimeTypes :: "(string \<times> string) list" where
  "mimeTypes =
     [(''.jpg'', ''image/jpeg''),
      (''.jpeg'', ''image/jpeg''),
      (''.png'', ''image/png''),
      (''.gif'', ''image/gif''),
      (''.svg'', ''image/svg+xml''),
      (''.webp'', ''image/webp''),
      (''.bmp'', ''image/bmp''),
      (''.tiff'', ''image/tiff'')]"

text \<open>
  \<^verbatim>\<open>mimeTypes[ext] || 'image/jpeg'\<close>. The key is an extension, so it is empty or starts
  with a dot; no inherited property has such a name, which is why the result is always a
  string (lemma \<open>getMimeType_value\<close> below reads it off the table).
\<close>

definition getMimeType_value :: "string \<Rightarrow> js_value" where
  "getMimeType_value filePath =
     (let ext = toLowerCase (extname filePath) in
      case js_get mimeTypes ext of
        Some v \<Rightarrow> if truthy v then v else JStr ''image/jpeg''
      | None \<Rightarrow> JStr ''image/jpeg'')"

definition getMimeType :: "string \<Rightarrow> string" where
  "getMimeType filePath = js_to_string (getMimeType_value filePath)"

definition extensions :: "(string \<times> string) list" where
  "extensions =
     [(''image/jpeg'', ''.jpg''),
      (''image/png'', ''.png''),
      (''image/gif'', ''.gif''),
      (''image/svg+xml'', ''.svg''),
      (''image/webp'', ''.webp''),
      (''image/bmp'', ''.bmp''),
      (''image/tiff'', ''.tiff'')]"

text \<open>
  \<^verbatim>\<open>extensions[mimeType] || '.jpg'\<close>. The argument is the \<^verbatim>\<open>content-type\<close> header of a
  response, \<open>None\<close> when the response has none (the key is then \<^verbatim>\<open>'undefined'\<close>).
\<close>

definition getExtensionFromMimeType :: "string option \<Rightarrow> js_value" where
  "getExtensionFromMimeType mimeType =
     (let key = (case mimeType of None \<Rightarrow> ''undefined'' | Some m \<Rightarrow> m) in
      case js_get extensions key of
        Some v \<Rightarrow> if truthy v then v else JStr ''.jpg''
      | None \<Rightarrow> JStr ''.jpg'')"

subsection \<open>Data\<close>

text \<open>A thrown JavaScript \<^verbatim>\<open>Error\<close>, with its message.\<close>

datatype error = Error string

fun message :: "error \<Rightarrow> string" where
  "message (Error m) = m"

text \<open>
  \<^verbatim>\<open>uploadResult\<close>: what an upload records in the session cache and in the persistent
  state. \<^verbatim>\<open>originalUrl\<close> is set by \<^verbatim>\<open>uploadRemoteImage\<close> only.
\<close>

record upload_result =
  url :: string
  fileId :: string
  fileName :: string
  originalUrl :: "string option"
  size_field :: string
  hash :: string
  webViewLink :: string
  uploadedAt :: string

text \<open>The object the two upload methods return: \<^verbatim>\<open>{ ...uploadResult, cached }\<close>.\<close>

record upload_return =
  result :: upload_result
  cached :: bool

text \<open>
  \<^verbatim>\<open>state.googleDrive\<close>, the namespace of the persistent state the client reads and
  writes. A field that is \<^verbatim>\<open>undefined\<close> or \<^verbatim>\<open>null\<close> is \<open>None\<close>; a missing
  \<^verbatim>\<open>uploadedImages\<close> is the empty map.
\<close>

record google_drive_state =
  gd_imageFolderId :: "string option"
  gd_imageFolderName :: "string option"
  gd_createdAt :: "string option"
  gd_uploadedImages :: "string \<rightharpoonup> upload_result"

definition empty_google_drive :: google_drive_state where
  "empty_google_drive =
     \<lparr>gd_imageFolderId = None, gd_imageFolderName = None, gd_createdAt = None,
      gd_uploadedImages = Map.empty\<rparr>"

text \<open>\<^verbatim>\<open>{ ...currentState.googleDrive }\<close>: spreading \<^verbatim>\<open>undefined\<close> gives no property.\<close>

definition spread :: "google_drive_state option \<Rightarrow> google_drive_state" where
  "spread g = (case g of None \<Rightarrow> empty_google_drive | Some s \<Rightarrow> s)"

text \<open>\<^verbatim>\<open>state.googleDrive?.imageFolderId\<close> and \<^verbatim>\<open>state.googleDrive?.uploadedImages?.[h]\<close>.\<close>

definition state_imageFolderId :: "google_drive_state option \<Rightarrow> string option" where
  "state_imageFolderId g = (case g of None \<Rightarrow> None | Some s \<Rightarrow> gd_imageFolderId s)"

definition state_uploadedImage :: "google_drive_state option \<Rightarrow> string \<Rightarrow> upload_result option" where
  "state_uploadedImage g h = (case g of None \<Rightarrow> None | Some s \<Rightarrow> gd_uploadedImages s h)"

text \<open>
  The argument of \<^verbatim>\<open>drive.files.create\<close>: \<^verbatim>\<open>resource.name\<close>, \<^verbatim>\<open>resource.parents\<close>
  (\<open>None\<close> for a \<^verbatim>\<open>null\<close> folder id), \<^verbatim>\<open>resource.mimeType\<close> (given for the folder only)
  and \<^verbatim>\<open>media\<close> (given for an upload only: its MIME type and the path of the file
  whose read stream is its body). \<^verbatim>\<open>file.data\<close> of its answer is a \<open>drive_file\<close>.
\<close>

record create_request =
  rq_name :: string
  rq_parents :: "string option list"
  rq_mimeType :: "string option"
  rq_media :: "(string \<times> string) option"

record drive_file =
  df_id :: string
  df_size :: string
  df_webViewLink :: string

text \<open>The answer of \<^verbatim>\<open>axios.get\<close>: the \<^verbatim>\<open>content-type\<close> header and the body.\<close>

record http_response =
  content_type :: "string option"
  body :: string

subsection \<open>Calls to the outside world\<close>

text \<open>
  One event per call the client makes, in the order of the calls. \<^verbatim>\<open>console.warn\<close> is an
  event too; \<^verbatim>\<open>console.log\<close> and \<^verbatim>\<open>console.error\<close> are left out.
\<close>

datatype event =
    LoadState
  | UpdateState google_drive_state
  | FilesGet string
  | FilesCreate create_request
  | PermissionsCreate string string string
  | AxiosGet string
  | EnsureDir string
  | ReadFile string
  | WriteFile string
  | PathExists string
  | Remove string
  | RequireSharp
  | SharpToFile string string
  | Warn string

text \<open>
  What the outside world answers. Every answer may depend on all calls made so far (the
  trace), so one oracle describes a Drive whose files come and go, a network that fails
  at some moment, and so on. \<open>sha256\<close> is the hex digest of \<^verbatim>\<open>crypto\<close>,
  \<open>url_pathname\<close> is \<^verbatim>\<open>new URL(u).pathname\<close> (\<open>None\<close> when the constructor throws),
  \<open>fs_error\<close> says whether a file system call throws, \<open>sharp_png\<close> is the SVG
  conversion (an error, or the PNG bytes it writes, or \<open>None\<close> if it resolves without
  writing), \<open>date_now\<close> and \<open>date_iso\<close> are \<^verbatim>\<open>Date.now()\<close> in decimal and
  \<^verbatim>\<open>new Date().toISOString()\<close>, \<open>yellow\<close> is \<^verbatim>\<open>chalk.yellow\<close> (the text between the
  colour codes of the terminal, or the text itself when colours are off).
\<close>

record env =
  sha256 :: "string \<Rightarrow> string"
  files_get :: "event list \<Rightarrow> string \<Rightarrow> error + bool"
  files_create :: "event list \<Rightarrow> create_request \<Rightarrow> error + drive_file"
  permissions_create :: "event list \<Rightarrow> string \<Rightarrow> error option"
  http_get :: "event list \<Rightarrow> string \<Rightarrow> error + http_response"
  url_pathname :: "string \<Rightarrow> string option"
  fs_error :: "event list \<Rightarrow> event \<Rightarrow> error option"
  sharp_installed :: bool
  sharp_png :: "event list \<Rightarrow> string \<Rightarrow> error + string option"
  date_now :: "event list \<Rightarrow> string"
  date_iso :: "event list \<Rightarrow> string"
  yellow :: "string \<Rightarrow> string"

text \<open>
  The client object (\<^verbatim>\<open>this.projectRoot\<close>, \<^verbatim>\<open>this.imageFolderId\<close>,
  \<^verbatim>\<open>this.uploadedImages\<close>), the snapshot the state manager holds (\<open>persisted\<close> is its
  \<^verbatim>\<open>googleDrive\<close> namespace), the local files with their contents, and the trace.
\<close>

record world =
  projectRoot :: string
  imageFolderId :: "string option"
  uploadedImages :: "string \<rightharpoonup> upload_result"
  persisted :: "google_drive_state option"
  disk :: "string \<rightharpoonup> string"
  trace :: "event list"

text \<open>
  An \<^verbatim>\<open>async\<close> method: it runs in a world and ends with a value or a thrown error, in a
  changed world. \<open>bindE\<close> is \<^verbatim>\<open>await\<close> followed by the rest of the method,
  \<open>try_catch\<close> is \<^verbatim>\<open>try { } catch (error) { }\<close>.
\<close>

type_synonym 'a io = "world \<Rightarrow> (error + 'a) \<times> world"

definition ret :: "'a \<Rightarrow> 'a io" where
  "ret x w = (Inr x, w)"

definition throw :: "error \<Rightarrow> 'a io" where
  "throw e w = (Inl e, w)"

definition bindE :: "'a io \<Rightarrow> ('a \<Rightarrow> 'b io) \<Rightarrow> 'b io" where
  "bindE m f w = (case m w of (Inl e, w') \<Rightarrow> (Inl e, w') | (Inr x, w') \<Rightarrow> f x w')"

definition try_catch :: "'a io \<Rightarrow> (error \<Rightarrow> 'a io) \<Rightarrow> 'a io" where
  "try_catch m h w = (case m w of (Inl e, w') \<Rightarrow> h e w' | (Inr x, w') \<Rightarrow> (Inr x, w'))"

definition gets :: "(world \<Rightarrow> 'a) \<Rightarrow> 'a io" where
  "gets f w = (Inr (f w), w)"

definition modify :: "(world \<Rightarrow> world) \<Rightarrow> unit io" where
  "modify f w = (Inr (), f w)"

definition emit :: "event \<Rightarrow> world \<Rightarrow> world" where
  "emit e w = w\<lparr>trace := trace w @ [e]\<rparr>"

definition warn :: "string \<Rightarrow> unit io" where
  "warn msg w = (Inr (), emit (Warn msg) w)"

definition drive_files_get :: "env \<Rightarrow> string \<Rightarrow> bool io" where
  "drive_files_get env fid w = (files_get env (trace w) fid, emit (FilesGet fid) w)"

definition drive_files_create :: "env \<Rightarrow> create_request \<Rightarrow> drive_file io" where
  "drive_files_create env rq w = (files_create env (trace w) rq, emit (FilesCreate rq) w)"

text \<open>\<^verbatim>\<open>drive.permissions.create\<close> with \<^verbatim>\<open>{ role: 'reader', type: 'anyone' }\<close>.\<close>

definition drive_permissions_create :: "env \<Rightarrow> string \<Rightarrow> unit io" where
  "drive_permissions_create env fid w =
     ((case permissions_create env (trace w) fid of Some e \<Rightarrow> Inl e | None \<Rightarrow> Inr ()),
      emit (PermissionsCreate fid ''reader'' ''anyone'') w)"

definition axios_get :: "env \<Rightarrow> string \<Rightarrow> http_response io" where
  "axios_get env u w = (http_get env (trace w) u, emit (AxiosGet u) w)"

definition fs_ensureDir :: "env \<Rightarrow> string \<Rightarrow> unit io" where
  "fs_ensureDir env d w =
     ((case fs_error env (trace w) (EnsureDir d) of Some e \<Rightarrow> Inl e | None \<Rightarrow> Inr ()),
      emit (EnsureDir d) w)"

definition fs_readFile :: "env \<Rightarrow> string \<Rightarrow> string io" where
  "fs_readFile env p w =
     ((case fs_error env (trace w) (ReadFile p) of
         Some e \<Rightarrow> Inl e
       | None \<Rightarrow> (case disk w p of None \<Rightarrow> Inl (Error ''ENOENT'') | Some b \<Rightarrow> Inr b)),
      emit (ReadFile p) w)"

text \<open>
  \<^verbatim>\<open>fs.createWriteStream(p)\<close>, piping the response into it, and the promise that waits for
  \<^verbatim>\<open>finish\<close> or \<^verbatim>\<open>error\<close>.
\<close>

definition fs_writeFile :: "env \<Rightarrow> string \<Rightarrow> string \<Rightarrow> unit io" where
  "fs_writeFile env p content w =
     (case fs_error env (trace w) (WriteFile p) of
        Some e \<Rightarrow> (Inl e, emit (WriteFile p) w)
      | None \<Rightarrow> (Inr (), (emit (WriteFile p) w)\<lparr>disk := (disk w)(p \<mapsto> content)\<rparr>))"

definition fs_pathExists :: "string \<Rightarrow> bool io" where
  "fs_pathExists p w = (Inr (disk w p \<noteq> None), emit (PathExists p) w)"

definition fs_remove :: "env \<Rightarrow> string \<Rightarrow> unit io" where
  "fs_remove env p w =
     (case fs_error env (trace w) (Remove p) of
        Some e \<Rightarrow> (Inl e, emit (Remove p) w)
      | None \<Rightarrow> (Inr (), (emit (Remove p) w)\<lparr>disk := (disk w)(p := None)\<rparr>))"

definition require_sharp :: "env \<Rightarrow> unit io" where
  "require_sharp env w =
     ((if sharp_installed env then Inr () else Inl (Error ''Cannot find module sharp'')),
      emit RequireSharp w)"

text \<open>\<^verbatim>\<open>sharp(src).png(...).resize(...).toFile(dst)\<close>.\<close>

definition sharp_toFile :: "env \<Rightarrow> string \<Rightarrow> string \<Rightarrow> unit io" where
  "sharp_toFile env src dst w =
     (case sharp_png env (trace w) src of
        Inl e \<Rightarrow> (Inl e, emit (SharpToFile src dst) w)
      | Inr None \<Rightarrow> (Inr (), emit (SharpToFile src dst) w)
      | Inr (Some png) \<Rightarrow> (Inr (), (emit (SharpToFile src dst) w)\<lparr>disk := (disk w)(dst \<mapsto> png)\<rparr>))"

subsection \<open>The state manager\<close>

text \<open>
  Modelled from the spec: the state manager (\<^verbatim>\<open>stateManager.loadState\<close>,
  \<^verbatim>\<open>stateManager.updateState\<close>) is not part of the sources at hand. Section 4.1 of the
  specification: \<^verbatim>\<open>load\<close> returns the snapshot, \<^verbatim>\<open>update(partial)\<close> performs a deep
  merge of the given partial structure into the persisted state and is durable
  immediately. In the merge a property the partial structure gives replaces the persisted
  one, objects are merged property by property, and a property it does not give stays.
\<close>

definition merge_field :: "'a option \<Rightarrow> 'a option \<Rightarrow> 'a option" where
  "merge_field old new = (case new of None \<Rightarrow> old | Some v \<Rightarrow> Some v)"

definition merge_result :: "upload_result option \<Rightarrow> upload_result \<Rightarrow> upload_result" where
  "merge_result old new =
     (case old of
        None \<Rightarrow> new
      | Some r \<Rightarrow> new\<lparr>originalUrl := merge_field (originalUrl r) (originalUrl new)\<rparr>)"

definition deep_merge :: "google_drive_state option \<Rightarrow> google_drive_state \<Rightarrow> google_drive_state" where
  "deep_merge old partial =
     \<lparr>gd_imageFolderId = merge_field (state_imageFolderId old) (gd_imageFolderId partial),
      gd_imageFolderName = merge_field (gd_imageFolderName (spread old)) (gd_imageFolderName partial),
      gd_createdAt = merge_field (gd_createdAt (spread old)) (gd_createdAt partial),
      gd_uploadedImages =
        (\<lambda>h. case gd_uploadedImages partial h of
               None \<Rightarrow> state_uploadedImage old h
             | Some r \<Rightarrow> Some (merge_result (state_uploadedImage old h) r))\<rparr>"

definition loadState :: "google_drive_state option io" where
  "loadState w = (Inr (persisted w), emit LoadState w)"

definition updateState :: "google_drive_state \<Rightarrow> unit io" where
  "updateState partial w =
     (Inr (), (emit (UpdateState partial) w)\<lparr>persisted := Some (deep_merge (persisted w) partial)\<rparr>)"

subsection \<open>Paths, requests and records the methods build\<close>

text \<open>
  \<^verbatim>\<open>path.join(this.projectRoot, '.docusaurus', 'temp')\<close>, the directory both the
  conversion and the download write to, and the path of the PNG the conversion writes for
  an image: \<^verbatim>\<open>path.join(tempDir, `${path.basename(imagePath, ext)}.png`)\<close> with
  \<^verbatim>\<open>ext = path.extname(imagePath).toLowerCase()\<close>.
\<close>

definition temp_dir :: "string \<Rightarrow> string" where
  "temp_dir root = path_join [root, ''.docusaurus'', ''temp'']"

definition png_path :: "string \<Rightarrow> string \<Rightarrow> string" where
  "png_path root imagePath =
     path_join [temp_dir root,
                basename_ext imagePath (toLowerCase (extname imagePath)) @ ''.png'']"

text \<open>
  The arguments of the three \<^verbatim>\<open>console.warn\<close> calls. Each text starts with the warning
  sign U+26A0 U+FE0F, written here as its six UTF-8 bytes, and is passed through
  \<^verbatim>\<open>chalk.yellow\<close>.
\<close>

definition warning_sign :: string where
  "warning_sign = [CHR 0xE2, CHR 0x9A, CHR 0xA0, CHR 0xEF, CHR 0xB8, CHR 0x8F]"

definition sharp_missing_warning :: "env \<Rightarrow> string" where
  "sharp_missing_warning env =
     yellow env (warning_sign @ '' Sharp package not available, uploading SVG as-is (may not display properly in Google Docs)'')"

definition conversion_failed_warning :: "env \<Rightarrow> error \<Rightarrow> string" where
  "conversion_failed_warning env e =
     yellow env (warning_sign @ '' SVG conversion failed: '' @ message e @ '', uploading original'')"

definition cleanup_failed_warning :: "env \<Rightarrow> error \<Rightarrow> string" where
  "cleanup_failed_warning env e =
     yellow env (warning_sign @ '' Failed to cleanup temp files: '' @ message e)"

text \<open>
  The temporary file of a download,
  \<^verbatim>\<open>path.join(tempDir, `remote-${urlHash.substring(0, 8)}${extension}`)\<close>, and the content
  type \<open>uploadRemoteImage\<close> passes to the conversion:
  \<^verbatim>\<open>isSvgFromUrl ? 'image/svg+xml' : contentType\<close> with
  \<^verbatim>\<open>isSvgFromUrl = urlPath.endsWith('.svg') || extension === '.svg'\<close>.
\<close>

definition temp_file_path :: "string \<Rightarrow> string \<Rightarrow> js_value \<Rightarrow> string" where
  "temp_file_path root urlHash extension =
     path_join [temp_dir root, ''remote-'' @ substring0 8 urlHash @ js_to_string extension]"

definition conversion_type :: "string \<Rightarrow> js_value \<Rightarrow> string option \<Rightarrow> string option" where
  "conversion_type urlPath extension contentType =
     (if endsWith urlPath ''.svg'' \<or> extension = JStr ''.svg''
      then Some ''image/svg+xml'' else contentType)"

text \<open>
  The argument of the \<^verbatim>\<open>files.create\<close> call that creates the folder,
  \<^verbatim>\<open>{ name: folderName, mimeType: 'application/vnd.google-apps.folder', parents: ['root'] }\<close>,
  and of the \<^verbatim>\<open>updateState\<close> call that records it:
  \<^verbatim>\<open>{ ...currentState.googleDrive, imageFolderId, imageFolderName, createdAt,
  uploadedImages: currentState.googleDrive?.uploadedImages || {} }\<close>.
\<close>

definition folder_request :: "string \<Rightarrow> create_request" where
  "folder_request folderName =
     \<lparr>rq_name = folderName, rq_parents = [Some ''root''],
      rq_mimeType = Some ''application/vnd.google-apps.folder'', rq_media = None\<rparr>"

definition folder_record ::
  "google_drive_state option \<Rightarrow> string \<Rightarrow> string \<Rightarrow> string \<Rightarrow> google_drive_state" where
  "folder_record currentState folderId folderName createdAt =
     (spread currentState)
       \<lparr>gd_imageFolderId := Some folderId,
        gd_imageFolderName := Some folderName,
        gd_createdAt := Some createdAt,
        gd_uploadedImages := gd_uploadedImages (spread currentState)\<rparr>"

text \<open>
  The argument of a \<^verbatim>\<open>files.create\<close> call that uploads a file:
  \<^verbatim>\<open>fileMetadata = { name, parents: [this.imageFolderId] }\<close> and
  \<^verbatim>\<open>media = { mimeType, body: fs.createReadStream(processedImagePath) }\<close>.
\<close>

definition file_request :: "string \<Rightarrow> string option \<Rightarrow> string \<Rightarrow> string \<Rightarrow> create_request" where
  "file_request name folderId mimeType processedImagePath =
     \<lparr>rq_name = name, rq_parents = [folderId], rq_mimeType = None,
      rq_media = Some (mimeType, processedImagePath)\<rparr>"

text \<open>
  The argument of the \<^verbatim>\<open>updateState\<close> call that records an upload:
  \<^verbatim>\<open>{ ...currentState.googleDrive, imageFolderId: this.imageFolderId, uploadedImages:
  { ...currentState.googleDrive?.uploadedImages, [hash]: uploadResult } }\<close>.
\<close>

definition upload_record ::
  "google_drive_state option \<Rightarrow> string option \<Rightarrow> string \<Rightarrow> upload_result \<Rightarrow> google_drive_state" where
  "upload_record currentState folderId h uploadResult =
     (spread currentState)
       \<lparr>gd_imageFolderId := folderId,
        gd_uploadedImages := (gd_uploadedImages (spread currentState))(h \<mapsto> uploadResult)\<rparr>"

definition public_url :: "string \<Rightarrow> string" where
  "public_url file_id = ''https://drive.google.com/uc?export=download&id='' @ file_id"

subsection \<open>ensureImageFolder\<close>

text \<open>
  \<^verbatim>\<open>if (this.imageFolderId)\<close> holds for a non-empty string only. The inner block answers
  with the recorded id when the folder is live (the method returns it), and with \<open>None\<close>
  when the method goes on to create a folder.
\<close>

definition ensureImageFolder :: "env \<Rightarrow> string io" where
  "ensureImageFolder env =
     bindE loadState (\<lambda>state.
     bindE (modify (\<lambda>w. w\<lparr>imageFolderId := state_imageFolderId state\<rparr>)) (\<lambda>_.
     bindE (case state_imageFolderId state of
              None \<Rightarrow> ret None
            | Some fid \<Rightarrow>
                if fid = [] then ret None
                else try_catch
                  (bindE (drive_files_get env fid) (\<lambda>trashed.
                     if \<not> trashed then ret (Some fid)
                     else bindE (modify (\<lambda>w. w\<lparr>imageFolderId := None\<rparr>)) (\<lambda>_. ret None)))
                  (\<lambda>error. bindE (modify (\<lambda>w. w\<lparr>imageFolderId := None\<rparr>)) (\<lambda>_. ret None)))
       (\<lambda>live.
     case live of
       Some fid \<Rightarrow> ret fid
     | None \<Rightarrow>
         bindE (gets (\<lambda>w. date_now env (trace w))) (\<lambda>now.
         let folderName = ''docflu-files-'' @ now in
         bindE (drive_files_create env (folder_request folderName)) (\<lambda>folder.
         bindE (modify (\<lambda>w. w\<lparr>imageFolderId := Some (df_id folder)\<rparr>)) (\<lambda>_.
         bindE (drive_permissions_create env (df_id folder)) (\<lambda>_.
         bindE loadState (\<lambda>currentState.
         bindE (gets (\<lambda>w. date_iso env (trace w))) (\<lambda>isoString.
         bindE (updateState (folder_record currentState (df_id folder) folderName isoString)) (\<lambda>_.
         ret (df_id folder)))))))))))"

subsection \<open>convertImageForGoogleDocs\<close>

text \<open>
  The inner \<^verbatim>\<open>try\<close> around \<^verbatim>\<open>require('sharp')\<close> answers whether sharp was loaded; when
  it was not, the method has warned and returns the original path.
\<close>

definition convertImageForGoogleDocs :: "env \<Rightarrow> string \<Rightarrow> string option \<Rightarrow> string io" where
  "convertImageForGoogleDocs env imagePath contentType =
     (let ext = toLowerCase (extname imagePath);
          isSvg = (ext = ''.svg'' \<or> contentType = Some ''image/svg+xml'')
      in
      if \<not> isSvg then ret imagePath
      else try_catch
        (bindE (try_catch
                  (bindE (require_sharp env) (\<lambda>_. ret True))
                  (\<lambda>error.
                     bindE (warn (sharp_missing_warning env)) (\<lambda>_. ret False))) (\<lambda>sharp.
         if \<not> sharp then ret imagePath
         else
           bindE (gets projectRoot) (\<lambda>root.
           let tempDir = temp_dir root in
           bindE (fs_ensureDir env tempDir) (\<lambda>_.
           let pngPath = png_path root imagePath in
           bindE (sharp_toFile env imagePath pngPath) (\<lambda>_.
           bindE (fs_pathExists pngPath) (\<lambda>exists.
           if exists then ret pngPath
           else throw (Error ''PNG conversion failed'')))))))
        (\<lambda>error.
           bindE (warn (conversion_failed_warning env error)) (\<lambda>_. ret imagePath)))"

subsection \<open>uploadImage\<close>

text \<open>
  The check of the persistent state answers with the object to return when the recorded
  file is live, and with \<open>None\<close> when the method goes on to upload: no entry, a trashed
  file, or a \<^verbatim>\<open>files.get\<close> that throws (the empty \<^verbatim>\<open>catch\<close>).
\<close>

definition adopt_recorded ::
  "env \<Rightarrow> string \<Rightarrow> google_drive_state option \<Rightarrow> upload_return option io" where
  "adopt_recorded env h state =
     (case state_uploadedImage state h of
        None \<Rightarrow> ret None
      | Some uploadedImage \<Rightarrow>
          try_catch
            (bindE (drive_files_get env (fileId uploadedImage)) (\<lambda>trashed.
               if \<not> trashed then
                 bindE (modify (\<lambda>w. w\<lparr>uploadedImages := (uploadedImages w)(h \<mapsto> uploadedImage)\<rparr>)) (\<lambda>_.
                 ret (Some \<lparr>result = uploadedImage, cached = True\<rparr>))
               else ret None))
            (\<lambda>error. ret None))"

text \<open>
  \<^verbatim>\<open>if (!imageHash) { ... }\<close>: a hash the caller gives is used as it is; a missing or
  empty one is replaced by the digest of the bytes of the processed file.
\<close>

definition image_hash :: "env \<Rightarrow> string \<Rightarrow> string option \<Rightarrow> string io" where
  "image_hash env processedImagePath imageHash0 =
     (case imageHash0 of
        Some h \<Rightarrow>
          if h \<noteq> [] then ret h
          else bindE (fs_readFile env processedImagePath) (\<lambda>imageBuffer.
               ret (sha256 env imageBuffer))
      | None \<Rightarrow>
          bindE (fs_readFile env processedImagePath) (\<lambda>imageBuffer.
          ret (sha256 env imageBuffer)))"

definition uploadImage :: "env \<Rightarrow> string \<Rightarrow> string option \<Rightarrow> upload_return io" where
  "uploadImage env imagePath imageHash0 =
     bindE (convertImageForGoogleDocs env imagePath None) (\<lambda>processedImagePath.
     bindE (image_hash env processedImagePath imageHash0) (\<lambda>imageHash.
     bindE (gets uploadedImages) (\<lambda>session.
     case session imageHash of
       Some cachedResult \<Rightarrow> ret \<lparr>result = cachedResult, cached = True\<rparr>
     | None \<Rightarrow>
         bindE loadState (\<lambda>state.
         bindE (adopt_recorded env imageHash state) (\<lambda>adopted.
         case adopted of
           Some r \<Rightarrow> ret r
         | None \<Rightarrow>
             let fileName = substring0 8 imageHash @ ''-'' @ basename processedImagePath;
                 mimeType = getMimeType processedImagePath in
             bindE (gets imageFolderId) (\<lambda>folderId.
             bindE (drive_files_create env
                      (file_request fileName folderId mimeType processedImagePath)) (\<lambda>file.
             bindE (drive_permissions_create env (df_id file)) (\<lambda>_.
             let publicUrl = public_url (df_id file) in
             bindE (gets (\<lambda>w. date_iso env (trace w))) (\<lambda>isoString.
             let uploadResult =
                   \<lparr>url = publicUrl, fileId = df_id file, fileName = fileName,
                    originalUrl = None, size_field = df_size file, hash = imageHash,
                    webViewLink = df_webViewLink file, uploadedAt = isoString\<rparr> in
             bindE (modify (\<lambda>w. w\<lparr>uploadedImages := (uploadedImages w)(imageHash \<mapsto> uploadResult)\<rparr>)) (\<lambda>_.
             bindE loadState (\<lambda>currentState.
             bindE (gets imageFolderId) (\<lambda>folderId'.
             bindE (updateState (upload_record currentState folderId' imageHash uploadResult)) (\<lambda>_.
             ret \<lparr>result = uploadResult, cached = False\<rparr>)))))))))))))"

subsection \<open>uploadRemoteImage\<close>

text \<open>
  \<^verbatim>\<open>this.getExtensionFromMimeType(contentType) || path.extname(new URL(imageUrl).pathname)
  || '.jpg'\<close>: the later operands are evaluated only when the earlier one is falsy.
\<close>

definition remote_extension :: "env \<Rightarrow> string \<Rightarrow> string option \<Rightarrow> js_value io" where
  "remote_extension env imageUrl contentType =
     (let e1 = getExtensionFromMimeType contentType in
      if truthy e1 then ret e1
      else (case url_pathname env imageUrl of
              None \<Rightarrow> throw (Error ''Invalid URL'')
            | Some p \<Rightarrow> if extname p \<noteq> [] then ret (JStr (extname p)) else ret (JStr ''.jpg'')))"

text \<open>The \<^verbatim>\<open>try\<close> block that removes the temporary files, and its \<^verbatim>\<open>catch\<close>.\<close>

definition cleanup_temp :: "env \<Rightarrow> string \<Rightarrow> string \<Rightarrow> unit io" where
  "cleanup_temp env tempFilePath processedImagePath =
     try_catch
       (bindE (fs_pathExists tempFilePath) (\<lambda>exists1.
        bindE (if exists1 then fs_remove env tempFilePath else ret ()) (\<lambda>_.
        if processedImagePath \<noteq> tempFilePath then
          bindE (fs_pathExists processedImagePath) (\<lambda>exists2.
          if exists2 then fs_remove env processedImagePath else ret ())
        else ret ())))
       (\<lambda>cleanupError. warn (cleanup_failed_warning env cleanupError))"

definition uploadRemoteImage :: "env \<Rightarrow> string \<Rightarrow> upload_return io" where
  "uploadRemoteImage env imageUrl =
     (let urlHash = sha256 env imageUrl in
      bindE (gets uploadedImages) (\<lambda>session.
      case session urlHash of
        Some cachedResult \<Rightarrow> ret \<lparr>result = cachedResult, cached = True\<rparr>
      | None \<Rightarrow>
          bindE loadState (\<lambda>state.
          bindE (adopt_recorded env urlHash state) (\<lambda>adopted.
          case adopted of
            Some r \<Rightarrow> ret r
          | None \<Rightarrow>
              bindE (gets projectRoot) (\<lambda>root.
              let tempDir = temp_dir root in
              bindE (fs_ensureDir env tempDir) (\<lambda>_.
              bindE (axios_get env imageUrl) (\<lambda>response.
              let contentType = content_type response in
              bindE (remote_extension env imageUrl contentType) (\<lambda>extension.
              let tempFilePath = temp_file_path root urlHash extension in
              bindE (fs_writeFile env tempFilePath (body response)) (\<lambda>_.
              bindE (case url_pathname env imageUrl of
                       None \<Rightarrow> throw (Error ''Invalid URL'')
                     | Some p \<Rightarrow> ret (toLowerCase p)) (\<lambda>urlPath.
              bindE (convertImageForGoogleDocs env tempFilePath
                       (conversion_type urlPath extension contentType))
                (\<lambda>processedImagePath.
              let finalFileName = ''remote-'' @ substring0 8 urlHash @ extname processedImagePath;
                  finalMimeType = getMimeType processedImagePath in
              bindE (gets imageFolderId) (\<lambda>folderId.
              bindE (drive_files_create env
                       (file_request finalFileName folderId finalMimeType processedImagePath))
                (\<lambda>file.
              bindE (drive_permissions_create env (df_id file)) (\<lambda>_.
              let publicUrl = public_url (df_id file) in
              bindE (gets (\<lambda>w. date_iso env (trace w))) (\<lambda>isoString.
              let uploadResult =
                    \<lparr>url = publicUrl, fileId = df_id file, fileName = finalFileName,
                     originalUrl = Some imageUrl, size_field = df_size file, hash = urlHash,
                     webViewLink = df_webViewLink file, uploadedAt = isoString\<rparr> in
              bindE (cleanup_temp env tempFilePath processedImagePath) (\<lambda>_.
              bindE (modify (\<lambda>w. w\<lparr>uploadedImages := (uploadedImages w)(urlHash \<mapsto> uploadResult)\<rparr>)) (\<lambda>_.
              bindE loadState (\<lambda>currentState.
              bindE (gets imageFolderId) (\<lambda>folderId'.
              bindE (updateState (upload_record currentState folderId' urlHash uploadResult)) (\<lambda>_.
              ret \<lparr>result = uploadResult, cached = False\<rparr>))))))))))))))))))))"

subsection \<open>Names used in the statements\<close>

text \<open>Whether the conversion converts at all.\<close>

definition is_svg :: "string \<Rightarrow> string option \<Rightarrow> bool" where
  "is_svg p ct = (toLowerCase (extname p) = ''.svg'' \<or> ct = Some ''image/svg+xml'')"

text \<open>
  The key under which \<open>uploadImage\<close> looks an image up in the session cache and in the
  persistent state: the hash the caller gives, or the digest of the bytes of the processed
  file; \<open>None\<close> when that file cannot be read. \<open>uploadRemoteImage\<close> uses the digest of
  the URL.
\<close>

definition upload_key :: "env \<Rightarrow> string \<Rightarrow> string option \<Rightarrow> world \<Rightarrow> string option" where
  "upload_key env imagePath imageHash0 w =
     (case convertImageForGoogleDocs env imagePath None w of
        (Inl e, wa) \<Rightarrow> None
      | (Inr processedImagePath, wa) \<Rightarrow>
          (case image_hash env processedImagePath imageHash0 wa of
             (Inl e, wb) \<Rightarrow> None
           | (Inr h, wb) \<Rightarrow> Some h))"

text \<open>The name of a new folder, \<^verbatim>\<open>`docflu-files-${Date.now()}`\<close>.\<close>

definition folder_name :: "env \<Rightarrow> event list \<Rightarrow> string" where
  "folder_name env tr = ''docflu-files-'' @ date_now env tr"

text \<open>The creation of the folder, from the world \<open>wc\<close> in which it starts.\<close>

definition create_folder_run :: "env \<Rightarrow> world \<Rightarrow> world \<Rightarrow> (error + string) \<times> world" where
  "create_folder_run env w wc =
     (let tr = trace wc; rq = folder_request (folder_name env tr) in
      case files_create env tr rq of
        Inl e \<Rightarrow> (Inl e, wc\<lparr>trace := tr @ [FilesCreate rq]\<rparr>)
      | Inr folder \<Rightarrow>
          (case permissions_create env (tr @ [FilesCreate rq]) (df_id folder) of
             Some e \<Rightarrow>
               (Inl e, wc\<lparr>trace := tr @ [FilesCreate rq,
                                 PermissionsCreate (df_id folder) ''reader'' ''anyone''],
                         imageFolderId := Some (df_id folder)\<rparr>)
           | None \<Rightarrow>
               (let partial = folder_record (persisted w) (df_id folder) (folder_name env tr)
                      (date_iso env (tr @ [FilesCreate rq,
                                 PermissionsCreate (df_id folder) ''reader'' ''anyone'', LoadState]))
                in (Inr (df_id folder),
                    wc\<lparr>trace := tr @ [FilesCreate rq,
                                 PermissionsCreate (df_id folder) ''reader'' ''anyone'',
                                 LoadState, UpdateState partial],
                      imageFolderId := Some (df_id folder),
                      persisted := Some (deep_merge (persisted w) partial)\<rparr>))))"

text \<open>The requests of the two upload methods, from the key and the processed file.\<close>

definition local_request :: "string \<Rightarrow> string \<Rightarrow> string option \<Rightarrow> create_request" where
  "local_request h processedImagePath folderId =
     file_request (substring0 8 h @ ''-'' @ basename processedImagePath) folderId
       (getMimeType processedImagePath) processedImagePath"

definition remote_request :: "string \<Rightarrow> string \<Rightarrow> string option \<Rightarrow> create_request" where
  "remote_request h processedImagePath folderId =
     file_request (''remote-'' @ substring0 8 h @ extname processedImagePath) folderId
       (getMimeType processedImagePath) processedImagePath"

subsection \<open>Reading the trace\<close>

text \<open>The calls made between two worlds of one run.\<close>

definition new_events :: "world \<Rightarrow> world \<Rightarrow> event list" where
  "new_events w w' = drop (length (trace w)) (trace w')"

fun is_files_create :: "event \<Rightarrow> bool" where
  "is_files_create (FilesCreate rq) = True"
| "is_files_create _ = False"

text \<open>
  Calls to a backend: the Drive API, the state manager and the download. The other events
  are local (the file system, sharp, the console).
\<close>

fun is_backend_call :: "event \<Rightarrow> bool" where
  "is_backend_call LoadState = True"
| "is_backend_call (UpdateState g) = True"
| "is_backend_call (FilesGet fid) = True"
| "is_backend_call (FilesCreate rq) = True"
| "is_backend_call (PermissionsCreate fid r t) = True"
| "is_backend_call (AxiosGet u) = True"
| "is_backend_call _ = False"

text \<open>
  The ids of the files the Drive created in answer to the \<^verbatim>\<open>files.create\<close> calls among
  \<open>evs\<close>, made after the calls \<open>pre\<close>: each call is answered by the oracle at the trace
  of that moment.
\<close>

fun created_ids :: "env \<Rightarrow> event list \<Rightarrow> event list \<Rightarrow> string list" where
  "created_ids env pre [] = []"
| "created_ids env pre (FilesCreate rq # evs) =
     (case files_create env pre rq of Inl e \<Rightarrow> [] | Inr f \<Rightarrow> [df_id f])
       @ created_ids env (pre @ [FilesCreate rq]) evs"
| "created_ids env pre (e # evs) = created_ids env (pre @ [e]) evs"

text \<open>
  What the Drive answered to the \<^verbatim>\<open>files.get\<close> calls among \<open>evs\<close>, made after the calls
  \<open>pre\<close>.
\<close>

fun files_get_answers :: "env \<Rightarrow> event list \<Rightarrow> event list \<Rightarrow> (error + bool) list" where
  "files_get_answers env pre [] = []"
| "files_get_answers env pre (FilesGet fid # evs) =
     files_get env pre fid # files_get_answers env (pre @ [FilesGet fid]) evs"
| "files_get_answers env pre (e # evs) = files_get_answers env (pre @ [e]) evs"

text \<open>
  The files written by a download (\<^verbatim>\<open>fs.createWriteStream\<close>) and the files handed to
  the Drive as the body of an upload, among the calls \<open>evs\<close>.
\<close>

fun written :: "event list \<Rightarrow> string list" where
  "written [] = []"
| "written (WriteFile p # evs) = p # written evs"
| "written (e # evs) = written evs"

fun uploaded_paths :: "event list \<Rightarrow> string list" where
  "uploaded_paths [] = []"
| "uploaded_paths (FilesCreate rq # evs) =
     (case rq_media rq of None \<Rightarrow> [] | Some (m, p) \<Rightarrow> [p]) @ uploaded_paths evs"
| "uploaded_paths (e # evs) = uploaded_paths evs"

subsection \<open>A concrete world\<close>

text \<open>
  An outside world to run the methods in. \<open>demo_sha256\<close> gives the three inputs hashed in
  the examples below their SHA-256 digests; any other input gets a stand-in. The Drive of
  \<open>demo_env\<close> reports the file \<^verbatim>\<open>trashed-id\<close> as trashed, throws on \<^verbatim>\<open>deleted-id\<close>,
  reports every other file as live and accepts every upload; every download answers the
  same PNG bytes; sharp is not installed; colours are off.
\<close>

definition url_a :: string where
  "url_a = ''https://a.example/logo.png''"

definition url_b :: string where
  "url_b = ''https://b.example/logo.png''"

definition digest_a :: string where
  "digest_a = ''8c399ffff145311d0430bd5c51f091c7ccf90f20241c6851adec1c9bfd6c6604''"

definition digest_b :: string where
  "digest_b = ''65ea1f4b7b5a9a20e5a9aa4be90da1dff0395762eb31b7a418701c1d0dcd5863''"

definition digest_png :: string where
  "digest_png = ''796120837694d3f3f29259cfeb25091698c2a0aa87873658d840b4993ee889b3''"

definition demo_sha256 :: "string \<Rightarrow> string" where
  "demo_sha256 s =
     (if s = url_a then digest_a
      else if s = url_b then digest_b
      else if s = ''PNG'' then digest_png
      else ''sha256:'' @ s)"

definition demo_env :: env where
  "demo_env =
     \<lparr>sha256 = demo_sha256,
      files_get = (\<lambda>tr fid. if fid = ''trashed-id'' then Inr True
                             else if fid = ''deleted-id'' then Inl (Error ''File not found'')
                             else Inr False),
      files_create = (\<lambda>tr rq. Inr \<lparr>df_id = ''id-of-'' @ rq_name rq, df_size = ''3'',
                                      df_webViewLink = ''https://drive.google.com/file/d/view''\<rparr>),
      permissions_create = (\<lambda>tr fid. None),
      http_get = (\<lambda>tr u. Inr \<lparr>content_type = Some ''image/png'', body = ''PNG''\<rparr>),
      url_pathname = (\<lambda>u. Some ''/logo.png''),
      fs_error = (\<lambda>tr e. None),
      sharp_installed = False,
      sharp_png = (\<lambda>tr src. Inr (Some ''PNG'')),
      date_now = (\<lambda>tr. ''1700000000000''),
      date_iso = (\<lambda>tr. ''2023-11-14T22:13:20.000Z''),
      yellow = (\<lambda>text. text)\<rparr>"

definition logo_path :: string where
  "logo_path = ''/site/img/logo.png''"

definition demo_state :: google_drive_state where
  "demo_state =
     \<lparr>gd_imageFolderId = Some ''folder-1'', gd_imageFolderName = Some ''docflu-files-1'',
      gd_createdAt = Some ''2023-11-14T22:13:20.000Z'', gd_uploadedImages = Map.empty\<rparr>"

definition demo_world :: world where
  "demo_world =
     \<lparr>projectRoot = ''/site'', imageFolderId = Some ''folder-1'',
      uploadedImages = Map.empty, persisted = Some demo_state,
      disk = [logo_path \<mapsto> ''PNG''], trace = []\<rparr>"

text \<open>An earlier upload, as the cache and the state record it, under a given file id.\<close>

definition recorded :: "string \<Rightarrow> upload_result" where
  "recorded file_id =
     \<lparr>url = public_url file_id, fileId = file_id, fileName = ''logo.png'',
      originalUrl = None, size_field = ''3'', hash = digest_png,
      webViewLink = ''https://drive.google.com/file/d/view'',
      uploadedAt = ''2023-11-14T22:13:20.000Z''\<rparr>"

text \<open>The world with that upload in the session cache, or in the persistent state only.\<close>

definition cached_world :: "string \<Rightarrow> world" where
  "cached_world file_id =
     demo_world\<lparr>uploadedImages := [digest_png \<mapsto> recorded file_id, digest_a \<mapsto> recorded file_id]\<rparr>"

definition recorded_world :: "string \<Rightarrow> world" where
  "recorded_world file_id =
     demo_world\<lparr>persisted := Some (demo_state\<lparr>gd_uploadedImages :=
                     [digest_png \<mapsto> recorded file_id, digest_a \<mapsto> recorded file_id]\<rparr>)\<rparr>"

text \<open>An SVG source, and outside worlds in which its conversion fails in each way.\<close>

definition svg_path :: string where
  "svg_path = ''/site/img/diagram.svg''"

definition no_dir_env :: env where
  "no_dir_env = demo_env\<lparr>sharp_installed := True,
                         fs_error := (\<lambda>tr e. Some (Error ''EACCES: permission denied''))\<rparr>"

definition bad_svg_env :: env where
  "bad_svg_env = demo_env\<lparr>sharp_installed := True,
                          sharp_png := (\<lambda>tr src. Inl (Error ''Input file is missing''))\<rparr>"

definition no_output_env :: env where
  "no_output_env = demo_env\<lparr>sharp_installed := True, sharp_png := (\<lambda>tr src. Inr None)\<rparr>"

text \<open>
  A remote SVG: every download answers an SVG document with its content type, and the path
  of every URL ends in \<^verbatim>\<open>.svg\<close>. Sharp is not installed.
\<close>

definition svg_env :: env where
  "svg_env = demo_env\<lparr>http_get := (\<lambda>tr u. Inr \<lparr>content_type = Some ''image/svg+xml'',
                                                   body = ''<svg/>''\<rparr>),
                       url_pathname := (\<lambda>u. Some ''/diagram.svg'')\<rparr>"

text \<open>A Drive that refuses every upload.\<close>

definition quota_env :: env where
  "quota_env = demo_env\<lparr>files_create := (\<lambda>tr rq. Inl (Error ''User rate limit exceeded''))\<rparr>"

text \<open>A file system on which every removal fails.\<close>

fun is_remove :: "event \<Rightarrow> bool" where
  "is_remove (Remove p) = True"
| "is_remove _ = False"

definition no_remove_env :: env where
  "no_remove_env =
     demo_env\<lparr>fs_error := (\<lambda>tr ev. if is_remove ev
                               then Some (Error ''EPERM: operation not permitted'') else None)\<rparr>"



text \<open>
  Two uploads in one session: \<open>url_a\<close> first, then \<open>url_b\<close> in the world the first
  upload leaves. Both downloads answer the same bytes.
\<close>

definition first_remote :: "(error + upload_return) \<times> world" where
  "first_remote = uploadRemoteImage demo_env url_a demo_world"

definition second_remote :: "(error + upload_return) \<times> world" where
  "second_remote = uploadRemoteImage demo_env url_b (snd first_remote)"

section \<open>Properties\<close>

subsection \<open>The MIME tables\<close>

lemma lower_char_fixed_all:
  "\<forall>c \<in> set ''abcdefghijklmnopqrstuvwxyz.''. lower_char c = c"
  by (simp add: lower_char_def)

lemma lower_char_fixed:
  "c \<in> set ''abcdefghijklmnopqrstuvwxyz.'' \<Longrightarrow> lower_char c = c"
  using lower_char_fixed_all by blast

lemma toLowerCase_fixed:
  "set s \<subseteq> set ''abcdefghijklmnopqrstuvwxyz.'' \<Longrightarrow> toLowerCase s = s"
  unfolding toLowerCase_def by (rule map_idI) (use lower_char_fixed in blast)


lemma toLowerCase_ext:
  "e \<in> set (map fst mimeTypes) \<Longrightarrow> toLowerCase e = e"
  by (rule toLowerCase_fixed) (auto simp: mimeTypes_def)

lemma extname_shape: "extname p = [] \<or> (\<exists>r. extname p = CHR ''.'' # r)"
  by (simp add: extname_def Let_def)

lemma extname_not_inherited: "toLowerCase (extname p) \<notin> set object_prototype_keys"
  using extname_shape[of p]
  by (auto simp: object_prototype_keys_def toLowerCase_def lower_char_fixed)

lemma getMimeType_table:
  "getMimeType p = (case map_of mimeTypes (toLowerCase (extname p)) of Some m \<Rightarrow> m | None \<Rightarrow> ''image/jpeg'')"
proof (cases "map_of mimeTypes (toLowerCase (extname p))")
  case None
  then show ?thesis
    using extname_not_inherited[of p]
    by (simp add: getMimeType_def getMimeType_value_def js_get_def js_to_string_def)
next
  case (Some m)
  then have "m \<in> set (map snd mimeTypes)"
    by (metis map_of_SomeD set_zip_rightD zip_map_fst_snd)
  then have "m \<noteq> []" by (auto simp: mimeTypes_def)
  with Some show ?thesis
    by (simp add: getMimeType_def getMimeType_value_def js_get_def js_to_string_def truthy_def)
qed

lemma extension_of_supported:
  assumes "m \<in> set (map fst extensions)"
  shows "\<exists>e. getExtensionFromMimeType (Some m) = JStr e \<and> map_of mimeTypes e = Some m"
proof -
  from assms obtain e where e: "map_of extensions m = Some e"
    by (metis domD dom_map_of_conv_image_fst list.set_map)
  then have "(m, e) \<in> set extensions" by (rule map_of_SomeD)
  then have "e \<noteq> [] \<and> map_of mimeTypes e = Some m"
    by (auto simp: extensions_def mimeTypes_def)
  with e show ?thesis
    by (simp add: getExtensionFromMimeType_def js_get_def truthy_def)
qed

lemma mime_slash_not_inherited: "CHR ''/'' \<in> set m \<Longrightarrow> m \<notin> set object_prototype_keys"
  by (auto simp: object_prototype_keys_def)

lemma bare_extension_all:
  "\<forall>m \<in> set (map fst extensions).
     getMimeType (js_to_string (getExtensionFromMimeType (Some m))) = ''image/jpeg''"
  by (simp add: getMimeType_def getMimeType_value_def extname_def last_component_def
      toLowerCase_def js_get_def mimeTypes_def truthy_def js_to_string_def
      object_prototype_keys_def getExtensionFromMimeType_def extensions_def)

lemma inherited_extension:
  "m \<in> set object_prototype_keys \<Longrightarrow> getExtensionFromMimeType (Some m) = JInherited m"
  by (auto simp: object_prototype_keys_def getExtensionFromMimeType_def js_get_def truthy_def
      extensions_def)

text \<open>
  Claim C9, as amended. For every MIME type of the table \<open>extensions\<close>, the extension
  \<open>getExtensionFromMimeType\<close> gives for it is mapped back to the same MIME type by
  \<open>getMimeType\<close> on every file path that carries that extension. On the bare extension
  itself \<open>getMimeType\<close> gives \<^verbatim>\<open>image/jpeg\<close>, whatever the type (the argument of
  \<open>getMimeType\<close> is a file path, and \<^verbatim>\<open>path.extname\<close> of a bare \<^verbatim>\<open>.png\<close> is empty):
  the literal round trip gives the type back for \<^verbatim>\<open>image/jpeg\<close> only. A path whose
  lower-cased extension is not in \<open>mimeTypes\<close> gets \<^verbatim>\<open>image/jpeg\<close>. A MIME type
  outside \<open>extensions\<close> gets \<^verbatim>\<open>.jpg\<close> unless it is the name of a property inherited
  from \<^verbatim>\<open>Object.prototype\<close> (no string with a slash is, lemma
  \<open>mime_slash_not_inherited\<close>); such a name is outside the table and gets the inherited
  property. A missing content type gets \<^verbatim>\<open>.jpg\<close>. Both functions are total.
\<close>

theorem mime_tables:
  "(m \<in> set (map fst extensions) \<and> extname p = js_to_string (getExtensionFromMimeType (Some m))
      \<longrightarrow> getMimeType p = m)
   \<and> (m \<in> set (map fst extensions)
      \<longrightarrow> getMimeType (js_to_string (getExtensionFromMimeType (Some m))) = ''image/jpeg'')
   \<and> (toLowerCase (extname p) \<notin> set (map fst mimeTypes) \<longrightarrow> getMimeType p = ''image/jpeg'')
   \<and> (m \<notin> set (map fst extensions) \<and> m \<notin> set object_prototype_keys
      \<longrightarrow> getExtensionFromMimeType (Some m) = JStr ''.jpg'')
   \<and> (m \<in> set object_prototype_keys
      \<longrightarrow> m \<notin> set (map fst extensions) \<and> getExtensionFromMimeType (Some m) = JInherited m)
   \<and> getExtensionFromMimeType None = JStr ''.jpg''"
proof (intro conjI impI)
  assume a: "m \<in> set (map fst extensions) \<and> extname p = js_to_string (getExtensionFromMimeType (Some m))"
  then obtain e where e: "getExtensionFromMimeType (Some m) = JStr e" "map_of mimeTypes e = Some m"
    using extension_of_supported by blast
  then have "e \<in> set (map fst mimeTypes)"
    by (metis domI dom_map_of_conv_image_fst list.set_map)
  then have "toLowerCase e = e" by (rule toLowerCase_ext)
  with a e show "getMimeType p = m"
    by (simp add: getMimeType_table js_to_string_def)
next
  assume "m \<in> set (map fst extensions)"
  then show "getMimeType (js_to_string (getExtensionFromMimeType (Some m))) = ''image/jpeg''"
    using bare_extension_all by blast
next
  assume "toLowerCase (extname p) \<notin> set (map fst mimeTypes)"
  then have "map_of mimeTypes (toLowerCase (extname p)) = None"
    by (simp add: map_of_eq_None_iff)
  then show "getMimeType p = ''image/jpeg''"
    by (simp add: getMimeType_table)
next
  assume "m \<notin> set (map fst extensions) \<and> m \<notin> set object_prototype_keys"
  then have "map_of extensions m = None" "m \<notin> set object_prototype_keys"
    by (simp_all add: map_of_eq_None_iff)
  then show "getExtensionFromMimeType (Some m) = JStr ''.jpg''"
    by (simp add: getExtensionFromMimeType_def js_get_def)
next
  assume "m \<in> set object_prototype_keys"
  then show "m \<notin> set (map fst extensions)"
    by (auto simp: object_prototype_keys_def extensions_def)
next
  assume "m \<in> set object_prototype_keys"
  then show "getExtensionFromMimeType (Some m) = JInherited m"
    by (rule inherited_extension)
next
  show "getExtensionFromMimeType None = JStr ''.jpg''"
    by (simp add: getExtensionFromMimeType_def js_get_def extensions_def object_prototype_keys_def)
qed

theorem mime_tables_witness:
  "getMimeType ''/p/.docusaurus/temp/remote-12ab34cd.png'' = ''image/png''
   \<and> getMimeType (js_to_string (getExtensionFromMimeType (Some ''image/svg+xml''))) = ''image/jpeg''
   \<and> getMimeType ''diagram.xyz'' = ''image/jpeg''
   \<and> getExtensionFromMimeType (Some ''text/html'') = JStr ''.jpg''
   \<and> getExtensionFromMimeType (Some ''toString'') = JInherited ''toString''"
proof -
  have 1: "''image/png'' \<in> set (map fst extensions)
      \<and> extname ''/p/.docusaurus/temp/remote-12ab34cd.png'' = js_to_string (getExtensionFromMimeType (Some ''image/png''))"
    by (simp add: extensions_def extname_def last_component_def getExtensionFromMimeType_def
        js_get_def truthy_def js_to_string_def)
  have 2: "toLowerCase (extname ''diagram.xyz'') \<notin> set (map fst mimeTypes)"
    by (simp add: extname_def last_component_def toLowerCase_def lower_char_fixed mimeTypes_def)
  have 3: "''text/html'' \<notin> set (map fst extensions) \<and> ''text/html'' \<notin> set object_prototype_keys"
    by (simp add: extensions_def object_prototype_keys_def)
  have 4: "''image/svg+xml'' \<in> set (map fst extensions)"
    by (simp add: extensions_def)
  have 5: "''toString'' \<in> set object_prototype_keys"
    by (simp add: object_prototype_keys_def)
  have a: "getMimeType ''/p/.docusaurus/temp/remote-12ab34cd.png'' = ''image/png''"
    by (rule mime_tables[THEN conjunct1, THEN mp, OF 1])
  have b: "getMimeType (js_to_string (getExtensionFromMimeType (Some ''image/svg+xml''))) = ''image/jpeg''"
    by (rule mime_tables[THEN conjunct2, THEN conjunct1, THEN mp, OF 4])
  have c: "getMimeType ''diagram.xyz'' = ''image/jpeg''"
    by (rule mime_tables[THEN conjunct2, THEN conjunct2, THEN conjunct1, THEN mp, OF 2])
  have d: "getExtensionFromMimeType (Some ''text/html'') = JStr ''.jpg''"
    by (rule mime_tables[THEN conjunct2, THEN conjunct2, THEN conjunct2, THEN conjunct1, THEN mp, OF 3])
  have e: "getExtensionFromMimeType (Some ''toString'') = JInherited ''toString''"
    using mime_tables[THEN conjunct2, THEN conjunct2, THEN conjunct2, THEN conjunct2,
        THEN conjunct1, THEN mp, OF 5] by simp
  from a b c d e show ?thesis by (intro conjI)
qed

text \<open>
  Claim C9 as stated fails twice. The extension of \<^verbatim>\<open>image/png\<close> is \<^verbatim>\<open>.png\<close>, and
  \<open>getMimeType\<close> of the bare extension is the default \<^verbatim>\<open>image/jpeg\<close>, because
  \<^verbatim>\<open>path.extname('.png')\<close> is the empty string. And \<^verbatim>\<open>constructor\<close> is outside the
  table \<open>extensions\<close>, but \<open>getExtensionFromMimeType\<close> gives for it the inherited
  function \<^verbatim>\<open>Object\<close>, not \<^verbatim>\<open>.jpg\<close>.
\<close>

theorem mime_roundtrip_counterexample:
  "''image/png'' \<in> set (map fst extensions)
   \<and> getMimeType (js_to_string (getExtensionFromMimeType (Some ''image/png''))) = ''image/jpeg''
   \<and> getMimeType (js_to_string (getExtensionFromMimeType (Some ''image/png''))) \<noteq> ''image/png''
   \<and> ''constructor'' \<notin> set (map fst extensions)
   \<and> getExtensionFromMimeType (Some ''constructor'') \<noteq> JStr ''.jpg''
   \<and> js_to_string (getExtensionFromMimeType (Some ''constructor''))
       = ''function Object() { [native code] }''"
  by (simp add: getMimeType_def getMimeType_value_def extname_def last_component_def toLowerCase_def lower_char_def js_get_def mimeTypes_def truthy_def js_to_string_def object_prototype_keys_def getExtensionFromMimeType_def extensions_def)

subsection \<open>convertImageForGoogleDocs\<close>

lemmas io_defs = ret_def throw_def bindE_def try_catch_def gets_def modify_def emit_def warn_def
  drive_files_get_def drive_files_create_def drive_permissions_create_def axios_get_def
  fs_ensureDir_def fs_readFile_def fs_writeFile_def fs_pathExists_def fs_remove_def
  require_sharp_def sharp_toFile_def loadState_def updateState_def

lemmas convert_defs = convertImageForGoogleDocs_def is_svg_def Let_def

lemma convert_not_svg:
  "\<not> is_svg p ct \<Longrightarrow> convertImageForGoogleDocs env p ct w = (Inr p, w)"
  unfolding convert_defs by (simp add: io_defs)

lemma convert_sharp_missing:
  "is_svg p ct \<Longrightarrow> \<not> sharp_installed env \<Longrightarrow>
   convertImageForGoogleDocs env p ct w
     = (Inr p, w\<lparr>trace := trace w @ [RequireSharp, Warn (sharp_missing_warning env)]\<rparr>)"
  unfolding convert_defs by (simp add: io_defs)

lemma convert_ensureDir_throws:
  "is_svg p ct \<Longrightarrow> sharp_installed env \<Longrightarrow>
   fs_error env (trace w @ [RequireSharp]) (EnsureDir (temp_dir (projectRoot w))) = Some e \<Longrightarrow>
   convertImageForGoogleDocs env p ct w
     = (Inr p, w\<lparr>trace := trace w @ [RequireSharp, EnsureDir (temp_dir (projectRoot w)),
                                      Warn (conversion_failed_warning env e)]\<rparr>)"
  unfolding convert_defs by (simp add: io_defs)

lemma convert_sharp_throws:
  "is_svg p ct \<Longrightarrow> sharp_installed env \<Longrightarrow>
   fs_error env (trace w @ [RequireSharp]) (EnsureDir (temp_dir (projectRoot w))) = None \<Longrightarrow>
   sharp_png env (trace w @ [RequireSharp, EnsureDir (temp_dir (projectRoot w))]) p = Inl e \<Longrightarrow>
   convertImageForGoogleDocs env p ct w
     = (Inr p, w\<lparr>trace := trace w @ [RequireSharp, EnsureDir (temp_dir (projectRoot w)),
                                      SharpToFile p (png_path (projectRoot w) p),
                                      Warn (conversion_failed_warning env e)]\<rparr>)"
  unfolding convert_defs by (simp add: io_defs)

lemma convert_no_file:
  "is_svg p ct \<Longrightarrow> sharp_installed env \<Longrightarrow>
   fs_error env (trace w @ [RequireSharp]) (EnsureDir (temp_dir (projectRoot w))) = None \<Longrightarrow>
   sharp_png env (trace w @ [RequireSharp, EnsureDir (temp_dir (projectRoot w))]) p = Inr None \<Longrightarrow>
   disk w (png_path (projectRoot w) p) = None \<Longrightarrow>
   convertImageForGoogleDocs env p ct w
     = (Inr p, w\<lparr>trace := trace w @ [RequireSharp, EnsureDir (temp_dir (projectRoot w)),
                                      SharpToFile p (png_path (projectRoot w) p), PathExists (png_path (projectRoot w) p),
                                      Warn (conversion_failed_warning env (Error ''PNG conversion failed''))]\<rparr>)"
  unfolding convert_defs by (simp add: io_defs)

lemma convert_success:
  "is_svg p ct \<Longrightarrow> sharp_installed env \<Longrightarrow>
   fs_error env (trace w @ [RequireSharp]) (EnsureDir (temp_dir (projectRoot w))) = None \<Longrightarrow>
   sharp_png env (trace w @ [RequireSharp, EnsureDir (temp_dir (projectRoot w))]) p = Inr (Some png) \<Longrightarrow>
   convertImageForGoogleDocs env p ct w
     = (Inr (png_path (projectRoot w) p),
        w\<lparr>trace := trace w @ [RequireSharp, EnsureDir (temp_dir (projectRoot w)),
                               SharpToFile p (png_path (projectRoot w) p), PathExists (png_path (projectRoot w) p)],
          disk := (disk w)(png_path (projectRoot w) p \<mapsto> png)\<rparr>)"
  unfolding convert_defs by (simp add: io_defs)


lemma convert_found:
  "is_svg p ct \<Longrightarrow> sharp_installed env \<Longrightarrow>
   fs_error env (trace w @ [RequireSharp]) (EnsureDir (temp_dir (projectRoot w))) = None \<Longrightarrow>
   sharp_png env (trace w @ [RequireSharp, EnsureDir (temp_dir (projectRoot w))]) p = Inr None \<Longrightarrow>
   disk w (png_path (projectRoot w) p) = Some old \<Longrightarrow>
   convertImageForGoogleDocs env p ct w
     = (Inr (png_path (projectRoot w) p),
        w\<lparr>trace := trace w @ [RequireSharp, EnsureDir (temp_dir (projectRoot w)),
                               SharpToFile p (png_path (projectRoot w) p), PathExists (png_path (projectRoot w) p)]\<rparr>)"
  unfolding convert_defs by (simp add: io_defs)

lemma convert_cases [case_names plain no_sharp failed converted found]:
  obtains
    (plain) "\<not> is_svg p ct" "convertImageForGoogleDocs env p ct w = (Inr p, w)"
  | (no_sharp) "is_svg p ct" "\<not> sharp_installed env"
      "convertImageForGoogleDocs env p ct w
         = (Inr p, w\<lparr>trace := trace w @ [RequireSharp, Warn (sharp_missing_warning env)]\<rparr>)"
  | (failed) e evs where "is_svg p ct" "sharp_installed env"
      "convertImageForGoogleDocs env p ct w
         = (Inr p, w\<lparr>trace := trace w @ evs @ [Warn (conversion_failed_warning env e)]\<rparr>)"
      "filter is_backend_call evs = []" "written evs = []"
  | (converted) png where "is_svg p ct" "sharp_installed env"
      "convertImageForGoogleDocs env p ct w
         = (Inr (png_path (projectRoot w) p),
            w\<lparr>trace := trace w @ [RequireSharp, EnsureDir (temp_dir (projectRoot w)),
                                   SharpToFile p (png_path (projectRoot w) p), PathExists (png_path (projectRoot w) p)],
              disk := (disk w)(png_path (projectRoot w) p \<mapsto> png)\<rparr>)"
  | (found) "is_svg p ct" "sharp_installed env" "disk w (png_path (projectRoot w) p) \<noteq> None"
      "convertImageForGoogleDocs env p ct w
         = (Inr (png_path (projectRoot w) p),
            w\<lparr>trace := trace w @ [RequireSharp, EnsureDir (temp_dir (projectRoot w)),
                                   SharpToFile p (png_path (projectRoot w) p), PathExists (png_path (projectRoot w) p)]\<rparr>)"
proof (cases "is_svg p ct")
  case False
  then show ?thesis using plain convert_not_svg by blast
next
  case svg: True
  show ?thesis
  proof (cases "sharp_installed env")
    case False
    then show ?thesis using svg no_sharp convert_sharp_missing by blast
  next
    case sharp: True
    show ?thesis
    proof (cases "fs_error env (trace w @ [RequireSharp]) (EnsureDir (temp_dir (projectRoot w)))")
      case (Some e)
      have "convertImageForGoogleDocs env p ct w
         = (Inr p, w\<lparr>trace := trace w @ [RequireSharp, EnsureDir (temp_dir (projectRoot w))]
              @ [Warn (conversion_failed_warning env e)]\<rparr>)"
        using convert_ensureDir_throws[OF svg sharp Some] by simp
      then show ?thesis using failed[OF svg sharp] by fastforce
    next
      case dir: None
      show ?thesis
      proof (cases "sharp_png env (trace w @ [RequireSharp, EnsureDir (temp_dir (projectRoot w))]) p")
        case (Inl e)
        have "convertImageForGoogleDocs env p ct w
           = (Inr p, w\<lparr>trace := trace w @ [RequireSharp, EnsureDir (temp_dir (projectRoot w)),
                SharpToFile p (png_path (projectRoot w) p)] @ [Warn (conversion_failed_warning env e)]\<rparr>)"
          using convert_sharp_throws[OF svg sharp dir Inl] by simp
        then show ?thesis using failed[OF svg sharp] by fastforce
      next
        case (Inr out)
        show ?thesis
        proof (cases out)
          case (Some png)
          then show ?thesis
            using converted[OF svg sharp] convert_success[OF svg sharp dir] Inr by blast
        next
          case None
          show ?thesis
          proof (cases "disk w (png_path (projectRoot w) p)")
            case (Some old)
            then show ?thesis
              using found[OF svg sharp] convert_found[OF svg sharp dir _ Some] Inr None by simp
          next
            case nofile: None
            have "convertImageForGoogleDocs env p ct w
               = (Inr p, w\<lparr>trace := trace w @ [RequireSharp, EnsureDir (temp_dir (projectRoot w)),
                    SharpToFile p (png_path (projectRoot w) p), PathExists (png_path (projectRoot w) p)]
                    @ [Warn (conversion_failed_warning env (Error ''PNG conversion failed''))]\<rparr>)"
              using convert_no_file[OF svg sharp dir _ nofile] Inr None by simp
            then show ?thesis using failed[OF svg sharp] by fastforce
          qed
        qed
      qed
    qed
  qed
qed

lemma convert_result:
  "fst (convertImageForGoogleDocs env p ct w) = Inr p
   \<or> fst (convertImageForGoogleDocs env p ct w) = Inr (png_path (projectRoot w) p)"
  by (rule convert_cases[where p=p and ct=ct and env=env and w=w]) simp_all

lemma convert_unavailable:
  assumes "\<not> sharp_installed env \<or> (\<forall>tr src. \<exists>e. sharp_png env tr src = Inl e)"
  shows "fst (convertImageForGoogleDocs env p ct w) = Inr p"
proof (cases "is_svg p ct")
  case False
  then show ?thesis by (simp add: convert_not_svg)
next
  case svg: True
  show ?thesis
  proof (cases "sharp_installed env")
    case False
    then show ?thesis using svg by (simp add: convert_sharp_missing)
  next
    case sharp: True
    show ?thesis
    proof (cases "fs_error env (trace w @ [RequireSharp]) (EnsureDir (temp_dir (projectRoot w)))")
      case (Some e)
      then show ?thesis using svg sharp by (simp add: convert_ensureDir_throws)
    next
      case None
      obtain e where
        "sharp_png env (trace w @ [RequireSharp, EnsureDir (temp_dir (projectRoot w))]) p = Inl e"
        using assms sharp by blast
      then show ?thesis using svg sharp None by (simp add: convert_sharp_throws)
    qed
  qed
qed

lemma convert_cache [simp]:
  "uploadedImages (snd (convertImageForGoogleDocs env p ct w)) = uploadedImages w"
  by (rule convert_cases[where p=p and ct=ct and env=env and w=w]) simp_all

lemma convert_persisted [simp]:
  "persisted (snd (convertImageForGoogleDocs env p ct w)) = persisted w"
  by (rule convert_cases[where p=p and ct=ct and env=env and w=w]) simp_all

lemma convert_folder [simp]:
  "imageFolderId (snd (convertImageForGoogleDocs env p ct w)) = imageFolderId w"
  by (rule convert_cases[where p=p and ct=ct and env=env and w=w]) simp_all

lemma convert_root [simp]:
  "projectRoot (snd (convertImageForGoogleDocs env p ct w)) = projectRoot w"
  by (rule convert_cases[where p=p and ct=ct and env=env and w=w]) simp_all

lemma convert_trace:
  "trace (snd (convertImageForGoogleDocs env p ct w))
     = trace w @ new_events w (snd (convertImageForGoogleDocs env p ct w))"
  by (rule convert_cases[where p=p and ct=ct and env=env and w=w]) (simp_all add: new_events_def)

lemma convert_local:
  "filter is_backend_call (new_events w (snd (convertImageForGoogleDocs env p ct w))) = []"
  by (rule convert_cases[where p=p and ct=ct and env=env and w=w]) (simp_all add: new_events_def)

lemma written_append [simp]: "written (xs @ ys) = written xs @ written ys"
  by (induction xs rule: written.induct) simp_all

lemma convert_written:
  "written (new_events w (snd (convertImageForGoogleDocs env p ct w))) = []"
  by (rule convert_cases[where p=p and ct=ct and env=env and w=w]) (simp_all add: new_events_def)

lemma convert_disk:
  "x \<noteq> png_path (projectRoot w) p \<Longrightarrow> disk (snd (convertImageForGoogleDocs env p ct w)) x = disk w x"
  by (rule convert_cases[where p=p and ct=ct and env=env and w=w]) simp_all

subsection \<open>The hash and the check of the persistent state\<close>

lemma image_hash_given:
  "i = Some h \<Longrightarrow> h \<noteq> [] \<Longrightarrow> image_hash env q i w = (Inr h, w)"
  by (simp add: image_hash_def ret_def)

lemma image_hash_computed:
  "i = None \<or> i = Some [] \<Longrightarrow>
   image_hash env q i w =
     ((case fs_error env (trace w) (ReadFile q) of
         Some e \<Rightarrow> Inl e
       | None \<Rightarrow> (case disk w q of None \<Rightarrow> Inl (Error ''ENOENT'') | Some b \<Rightarrow> Inr (sha256 env b))),
      w\<lparr>trace := trace w @ [ReadFile q]\<rparr>)"
  by (auto simp: image_hash_def io_defs split: option.splits)

lemma image_hash_cases [case_names given computed]:
  obtains
    (given) h where "i = Some h" "h \<noteq> []" "image_hash env q i w = (Inr h, w)"
  | (computed) r where "i = None \<or> i = Some []"
      "image_hash env q i w = (r, w\<lparr>trace := trace w @ [ReadFile q]\<rparr>)"
proof (cases "i = None \<or> i = Some []")
  case True
  then show ?thesis using computed image_hash_computed by blast
next
  case False
  then obtain h where "i = Some h" "h \<noteq> []" by (cases i) auto
  then show ?thesis using given image_hash_given by blast
qed

lemma image_hash_cache [simp]:
  "uploadedImages (snd (image_hash env q i w)) = uploadedImages w"
  by (rule image_hash_cases[where i=i and env=env and q=q and w=w]) simp_all

lemma image_hash_persisted [simp]:
  "persisted (snd (image_hash env q i w)) = persisted w"
  by (rule image_hash_cases[where i=i and env=env and q=q and w=w]) simp_all

lemma image_hash_folder [simp]:
  "imageFolderId (snd (image_hash env q i w)) = imageFolderId w"
  by (rule image_hash_cases[where i=i and env=env and q=q and w=w]) simp_all

lemma image_hash_disk [simp]:
  "disk (snd (image_hash env q i w)) = disk w"
  by (rule image_hash_cases[where i=i and env=env and q=q and w=w]) simp_all

lemma image_hash_trace:
  "trace (snd (image_hash env q i w)) = trace w @ new_events w (snd (image_hash env q i w))"
  by (rule image_hash_cases[where i=i and env=env and q=q and w=w]) (simp_all add: new_events_def)

lemma image_hash_local:
  "filter is_backend_call (new_events w (snd (image_hash env q i w))) = []"
  by (rule image_hash_cases[where i=i and env=env and q=q and w=w]) (simp_all add: new_events_def)

text \<open>The check of the persistent state, made in a world \<open>w\<close>.\<close>

lemma adopt_none:
  "state_uploadedImage st h = None \<Longrightarrow> adopt_recorded env h st w = (Inr None, w)"
  by (simp add: adopt_recorded_def ret_def)

lemma adopt_live:
  "state_uploadedImage st h = Some u \<Longrightarrow> files_get env (trace w) (fileId u) = Inr False \<Longrightarrow>
   adopt_recorded env h st w
     = (Inr (Some \<lparr>result = u, cached = True\<rparr>),
        w\<lparr>trace := trace w @ [FilesGet (fileId u)], uploadedImages := (uploadedImages w)(h \<mapsto> u)\<rparr>)"
  by (simp add: adopt_recorded_def io_defs)

lemma adopt_stale:
  "state_uploadedImage st h = Some u \<Longrightarrow> files_get env (trace w) (fileId u) \<noteq> Inr False \<Longrightarrow>
   adopt_recorded env h st w = (Inr None, w\<lparr>trace := trace w @ [FilesGet (fileId u)]\<rparr>)"
  by (cases "files_get env (trace w) (fileId u)") (simp_all add: adopt_recorded_def io_defs)

subsection \<open>The runs of uploadImage\<close>

lemma image_hash_root [simp]:
  "projectRoot (snd (image_hash env q i w)) = projectRoot w"
  by (rule image_hash_cases[where i=i and env=env and q=q and w=w]) simp_all

lemma uploadImage_no_key:
  assumes "convertImageForGoogleDocs env p None w = (Inr q, wa)"
    and "image_hash env q i wa = (Inl e, wb)"
  shows "uploadImage env p i w = (Inl e, wb)"
  using assms by (simp add: uploadImage_def bindE_def)

lemma uploadImage_hit:
  assumes "convertImageForGoogleDocs env p None w = (Inr q, wa)"
    and "image_hash env q i wa = (Inr h, wb)"
    and "uploadedImages wb h = Some c"
  shows "uploadImage env p i w = (Inr \<lparr>result = c, cached = True\<rparr>, wb)"
  using assms by (simp add: uploadImage_def bindE_def gets_def ret_def)

lemma uploadImage_adopted:
  assumes "convertImageForGoogleDocs env p None w = (Inr q, wa)"
    and "image_hash env q i wa = (Inr h, wb)"
    and "uploadedImages wb h = None"
    and "adopt_recorded env h (persisted wb) (wb\<lparr>trace := trace wb @ [LoadState]\<rparr>) = (Inr (Some r), wc)"
  shows "uploadImage env p i w = (Inr r, wc)"
  using assms by (simp add: uploadImage_def bindE_def gets_def ret_def loadState_def emit_def)

lemma uploadImage_tail:
  assumes "convertImageForGoogleDocs env p None w = (Inr q, wa)"
    and "image_hash env q i wa = (Inr h, wb)"
    and "uploadedImages wb h = None"
    and "adopt_recorded env h (persisted wb) (wb\<lparr>trace := trace wb @ [LoadState]\<rparr>) = (Inr None, wc)"
    and "rq = local_request h q (imageFolderId wc)"
  shows "uploadImage env p i w =
     (case files_create env (trace wc) rq of
        Inl e \<Rightarrow> (Inl e, wc\<lparr>trace := trace wc @ [FilesCreate rq]\<rparr>)
      | Inr f \<Rightarrow>
          (case permissions_create env (trace wc @ [FilesCreate rq]) (df_id f) of
             Some e \<Rightarrow>
               (Inl e, wc\<lparr>trace := trace wc @ [FilesCreate rq,
                                 PermissionsCreate (df_id f) ''reader'' ''anyone'']\<rparr>)
           | None \<Rightarrow>
               (let r = \<lparr>url = public_url (df_id f), fileId = df_id f,
                         fileName = substring0 8 h @ ''-'' @ basename q, originalUrl = None,
                         size_field = df_size f, hash = h, webViewLink = df_webViewLink f,
                         uploadedAt = date_iso env (trace wc @ [FilesCreate rq,
                                 PermissionsCreate (df_id f) ''reader'' ''anyone''])\<rparr>;
                    partial = upload_record (persisted wc) (imageFolderId wc) h r
                in (Inr \<lparr>result = r, cached = False\<rparr>,
                    wc\<lparr>trace := trace wc @ [FilesCreate rq,
                                 PermissionsCreate (df_id f) ''reader'' ''anyone'',
                                 LoadState, UpdateState partial],
                       uploadedImages := (uploadedImages wc)(h \<mapsto> r),
                       persisted := Some (deep_merge (persisted wc) partial)\<rparr>))))"
  using assms
  by (simp add: uploadImage_def io_defs local_request_def upload_record_def Let_def
      split: sum.splits option.splits)


text \<open>The local steps before the cache is consulted: conversion and hashing.\<close>

lemma upload_prefix:
  obtains q wa rh wb pre where
    "convertImageForGoogleDocs env p None w = (Inr q, wa)"
    "image_hash env q i wa = (rh, wb)"
    "trace wb = trace w @ pre" "filter is_backend_call pre = []"
    "uploadedImages wb = uploadedImages w" "persisted wb = persisted w"
    "imageFolderId wb = imageFolderId w" "projectRoot wb = projectRoot w"
proof -
  obtain q wa where conv: "convertImageForGoogleDocs env p None w = (Inr q, wa)"
    using convert_result[of env p None w] by (metis prod.collapse)
  obtain rh wb where hsh: "image_hash env q i wa = (rh, wb)"
    by fastforce
  have wa: "wa = snd (convertImageForGoogleDocs env p None w)" using conv by simp
  have wb: "wb = snd (image_hash env q i wa)" using hsh by simp
  have t1: "trace wa = trace w @ new_events w wa" and l1: "filter is_backend_call (new_events w wa) = []"
    unfolding wa by (rule convert_trace, rule convert_local)
  have t2: "trace wb = trace wa @ new_events wa wb" and l2: "filter is_backend_call (new_events wa wb) = []"
    unfolding wb by (rule image_hash_trace, rule image_hash_local)
  have "trace wb = trace w @ (new_events w wa @ new_events wa wb)"
    using t1 t2 by simp
  moreover have "filter is_backend_call (new_events w wa @ new_events wa wb) = []"
    using l1 l2 by simp
  moreover have "uploadedImages wb = uploadedImages w" "persisted wb = persisted w"
    "imageFolderId wb = imageFolderId w" "projectRoot wb = projectRoot w"
    unfolding wb wa by simp_all
  ultimately show ?thesis using that conv hsh by blast
qed


lemma uploadImage_cases [consumes 1, case_names no_key hit adopted create_error permission_error fresh]:
  assumes run: "uploadImage env p i w = (res, w')"
  obtains
    (no_key) e pre where
      "upload_key env p i w = None" "res = Inl e"
      "trace w' = trace w @ pre" "filter is_backend_call pre = []"
      "uploadedImages w' = uploadedImages w" "persisted w' = persisted w"
      "imageFolderId w' = imageFolderId w"
  | (hit) h c pre where
      "upload_key env p i w = Some h" "uploadedImages w h = Some c"
      "res = Inr \<lparr>result = c, cached = True\<rparr>"
      "trace w' = trace w @ pre" "filter is_backend_call pre = []"
      "uploadedImages w' = uploadedImages w" "persisted w' = persisted w"
      "imageFolderId w' = imageFolderId w"
  | (adopted) h u pre where
      "upload_key env p i w = Some h" "uploadedImages w h = None"
      "state_uploadedImage (persisted w) h = Some u"
      "files_get env (trace w @ pre @ [LoadState]) (fileId u) = Inr False"
      "res = Inr \<lparr>result = u, cached = True\<rparr>"
      "trace w' = trace w @ pre @ [LoadState, FilesGet (fileId u)]"
      "filter is_backend_call pre = []"
      "uploadedImages w' = (uploadedImages w)(h \<mapsto> u)" "persisted w' = persisted w"
      "imageFolderId w' = imageFolderId w"
  | (create_error) h e pre chk q where
      "upload_key env p i w = Some h" "uploadedImages w h = None"
      "(state_uploadedImage (persisted w) h = None \<and> chk = [])
       \<or> (\<exists>u. state_uploadedImage (persisted w) h = Some u \<and> chk = [FilesGet (fileId u)]
              \<and> files_get env (trace w @ pre @ [LoadState]) (fileId u) \<noteq> Inr False)"
      "fst (convertImageForGoogleDocs env p None w) = Inr q"
      "files_create env (trace w @ pre @ LoadState # chk)
         (local_request h q (imageFolderId w)) = Inl e"
      "res = Inl e"
      "trace w' = trace w @ pre @ LoadState # chk
                    @ [FilesCreate (local_request h q (imageFolderId w))]"
      "filter is_backend_call pre = []"
      "uploadedImages w' = uploadedImages w" "persisted w' = persisted w"
      "imageFolderId w' = imageFolderId w"
  | (permission_error) h e pre chk q f where
      "upload_key env p i w = Some h" "uploadedImages w h = None"
      "(state_uploadedImage (persisted w) h = None \<and> chk = [])
       \<or> (\<exists>u. state_uploadedImage (persisted w) h = Some u \<and> chk = [FilesGet (fileId u)]
              \<and> files_get env (trace w @ pre @ [LoadState]) (fileId u) \<noteq> Inr False)"
      "fst (convertImageForGoogleDocs env p None w) = Inr q"
      "files_create env (trace w @ pre @ LoadState # chk)
         (local_request h q (imageFolderId w)) = Inr f"
      "permissions_create env
         (trace w @ pre @ LoadState # chk @ [FilesCreate (local_request h q (imageFolderId w))])
         (df_id f) = Some e"
      "res = Inl e"
      "trace w' = trace w @ pre @ LoadState # chk
                    @ [FilesCreate (local_request h q (imageFolderId w)),
                       PermissionsCreate (df_id f) ''reader'' ''anyone'']"
      "filter is_backend_call pre = []"
      "uploadedImages w' = uploadedImages w" "persisted w' = persisted w"
      "imageFolderId w' = imageFolderId w"
  | (fresh) h pre chk q f r partial where
      "upload_key env p i w = Some h" "uploadedImages w h = None"
      "(state_uploadedImage (persisted w) h = None \<and> chk = [])
       \<or> (\<exists>u. state_uploadedImage (persisted w) h = Some u \<and> chk = [FilesGet (fileId u)]
              \<and> files_get env (trace w @ pre @ [LoadState]) (fileId u) \<noteq> Inr False)"
      "fst (convertImageForGoogleDocs env p None w) = Inr q"
      "files_create env (trace w @ pre @ LoadState # chk)
         (local_request h q (imageFolderId w)) = Inr f"
      "res = Inr \<lparr>result = r, cached = False\<rparr>"
      "fileId r = df_id f" "url r = public_url (df_id f)" "hash r = h" "originalUrl r = None"
      "partial = upload_record (persisted w) (imageFolderId w) h r"
      "trace w' = trace w @ pre @ LoadState # chk
                    @ [FilesCreate (local_request h q (imageFolderId w)),
                       PermissionsCreate (df_id f) ''reader'' ''anyone'',
                       LoadState, UpdateState partial]"
      "filter is_backend_call pre = []"
      "uploadedImages w' = (uploadedImages w)(h \<mapsto> r)"
      "persisted w' = Some (deep_merge (persisted w) partial)"
      "imageFolderId w' = imageFolderId w"
      "permissions_create env
         (trace w @ pre @ LoadState # chk @ [FilesCreate (local_request h q (imageFolderId w))])
         (df_id f) = None"
proof -
  obtain q wa rh wb pre where
    conv: "convertImageForGoogleDocs env p None w = (Inr q, wa)" and
    hsh: "image_hash env q i wa = (rh, wb)" and
    tr: "trace wb = trace w @ pre" and loc: "filter is_backend_call pre = []" and
    same: "uploadedImages wb = uploadedImages w" "persisted wb = persisted w"
      "imageFolderId wb = imageFolderId w"
    by (rule upload_prefix[of env p w i]) blast
  have q: "fst (convertImageForGoogleDocs env p None w) = Inr q" using conv by simp
  show ?thesis
  proof (cases rh)
    case (Inl e)
    have "uploadImage env p i w = (Inl e, wb)"
      using conv hsh Inl by (simp add: uploadImage_no_key)
    with run have "res = Inl e" "w' = wb" by simp_all
    moreover have "upload_key env p i w = None"
      using conv hsh Inl by (simp add: upload_key_def)
    ultimately show ?thesis using no_key tr loc same by blast
  next
    case (Inr h)
    have key: "upload_key env p i w = Some h"
      using conv hsh Inr by (simp add: upload_key_def)
    show ?thesis
    proof (cases "uploadedImages w h")
      case (Some c)
      have "uploadImage env p i w = (Inr \<lparr>result = c, cached = True\<rparr>, wb)"
        using conv hsh Inr Some same by (simp add: uploadImage_hit)
      with run have "res = Inr \<lparr>result = c, cached = True\<rparr>" "w' = wb" by simp_all
      then show ?thesis using hit key Some tr loc same by blast
    next
      case miss: None
      then have miss': "uploadedImages wb h = None" using same by simp
      let ?wl = "wb\<lparr>trace := trace wb @ [LoadState]\<rparr>"
      have "\<exists>chk wc. adopt_recorded env h (persisted wb) ?wl = (Inr None, wc)
              \<and> ((state_uploadedImage (persisted w) h = None \<and> chk = [])
                 \<or> (\<exists>u. state_uploadedImage (persisted w) h = Some u \<and> chk = [FilesGet (fileId u)]
                      \<and> files_get env (trace w @ pre @ [LoadState]) (fileId u) \<noteq> Inr False))
              \<and> trace wc = trace w @ pre @ LoadState # chk
              \<and> uploadedImages wc = uploadedImages w \<and> persisted wc = persisted w
              \<and> imageFolderId wc = imageFolderId w
           \<or> (\<exists>u. state_uploadedImage (persisted w) h = Some u
                \<and> files_get env (trace w @ pre @ [LoadState]) (fileId u) = Inr False)"
      proof (cases "state_uploadedImage (persisted w) h")
        case None
        then have "adopt_recorded env h (persisted wb) ?wl = (Inr None, ?wl)"
          using same by (simp add: adopt_none)
        then show ?thesis using None tr same by auto
      next
        case (Some u)
        show ?thesis
        proof (cases "files_get env (trace w @ pre @ [LoadState]) (fileId u) = Inr False")
          case True
          then show ?thesis using Some by blast
        next
          case False
          then have "adopt_recorded env h (persisted wb) ?wl
                       = (Inr None, ?wl\<lparr>trace := trace ?wl @ [FilesGet (fileId u)]\<rparr>)"
            using Some same tr by (simp add: adopt_stale)
          then show ?thesis using Some False tr same by auto
        qed
      qed
      then consider
        (live) u where "state_uploadedImage (persisted w) h = Some u"
          "files_get env (trace w @ pre @ [LoadState]) (fileId u) = Inr False"
      | (upload) chk wc where
          "adopt_recorded env h (persisted wb) ?wl = (Inr None, wc)"
          "(state_uploadedImage (persisted w) h = None \<and> chk = [])
             \<or> (\<exists>u. state_uploadedImage (persisted w) h = Some u \<and> chk = [FilesGet (fileId u)]
                  \<and> files_get env (trace w @ pre @ [LoadState]) (fileId u) \<noteq> Inr False)"
          "trace wc = trace w @ pre @ LoadState # chk"
          "uploadedImages wc = uploadedImages w" "persisted wc = persisted w"
          "imageFolderId wc = imageFolderId w"
        by blast
      then show ?thesis
      proof cases
        case live
        have "adopt_recorded env h (persisted wb) ?wl
                = (Inr (Some \<lparr>result = u, cached = True\<rparr>),
                   ?wl\<lparr>trace := trace ?wl @ [FilesGet (fileId u)],
                        uploadedImages := (uploadedImages ?wl)(h \<mapsto> u)\<rparr>)"
          using live same tr by (simp add: adopt_live)
        then have "uploadImage env p i w
                = (Inr \<lparr>result = u, cached = True\<rparr>,
                   ?wl\<lparr>trace := trace ?wl @ [FilesGet (fileId u)],
                        uploadedImages := (uploadedImages ?wl)(h \<mapsto> u)\<rparr>)"
          using conv hsh Inr miss' by (simp add: uploadImage_adopted)
        with run have "res = Inr \<lparr>result = u, cached = True\<rparr>"
          "w' = ?wl\<lparr>trace := trace ?wl @ [FilesGet (fileId u)],
                        uploadedImages := (uploadedImages ?wl)(h \<mapsto> u)\<rparr>"
          by simp_all
        then show ?thesis using adopted[OF key miss live] tr loc same by simp
      next
        case upload
        let ?rq = "local_request h q (imageFolderId w)"
        note tail = uploadImage_tail[OF conv hsh[unfolded Inr] miss' upload(1), of ?rq]
        show ?thesis
        proof (cases "files_create env (trace wc) ?rq")
          case (Inl e)
          then have "uploadImage env p i w = (Inl e, wc\<lparr>trace := trace wc @ [FilesCreate ?rq]\<rparr>)"
            using tail upload by simp
          with run have "res = Inl e" "w' = wc\<lparr>trace := trace wc @ [FilesCreate ?rq]\<rparr>"
            by simp_all
          then show ?thesis
            using create_error[OF key miss upload(2) q, of e] Inl upload loc by simp
        next
          case (Inr f)
          show ?thesis
          proof (cases "permissions_create env (trace wc @ [FilesCreate ?rq]) (df_id f)")
            case (Some e)
            then have "uploadImage env p i w
                = (Inl e, wc\<lparr>trace := trace wc @ [FilesCreate ?rq,
                                 PermissionsCreate (df_id f) ''reader'' ''anyone'']\<rparr>)"
              using tail upload Inr by simp
            with run have "res = Inl e"
              "w' = wc\<lparr>trace := trace wc @ [FilesCreate ?rq,
                                 PermissionsCreate (df_id f) ''reader'' ''anyone'']\<rparr>"
              by simp_all
            then show ?thesis
              using permission_error[OF key miss upload(2) q, of f e] Inr Some upload loc by simp
          next
            case None
            define r where "r = \<lparr>url = public_url (df_id f), fileId = df_id f,
                         fileName = substring0 8 h @ ''-'' @ basename q, originalUrl = None,
                         size_field = df_size f, hash = h, webViewLink = df_webViewLink f,
                         uploadedAt = date_iso env (trace wc @ [FilesCreate ?rq,
                                 PermissionsCreate (df_id f) ''reader'' ''anyone''])\<rparr>"
            define partial where "partial = upload_record (persisted w) (imageFolderId w) h r"
            have "uploadImage env p i w
                = (Inr \<lparr>result = r, cached = False\<rparr>,
                    wc\<lparr>trace := trace wc @ [FilesCreate ?rq,
                                 PermissionsCreate (df_id f) ''reader'' ''anyone'',
                                 LoadState, UpdateState partial],
                       uploadedImages := (uploadedImages wc)(h \<mapsto> r),
                       persisted := Some (deep_merge (persisted wc) partial)\<rparr>)"
              using tail upload Inr None by (simp add: r_def partial_def Let_def)
            with run have "res = Inr \<lparr>result = r, cached = False\<rparr>"
              "w' = wc\<lparr>trace := trace wc @ [FilesCreate ?rq,
                                 PermissionsCreate (df_id f) ''reader'' ''anyone'',
                                 LoadState, UpdateState partial],
                       uploadedImages := (uploadedImages wc)(h \<mapsto> r),
                       persisted := Some (deep_merge (persisted wc) partial)\<rparr>"
              by simp_all
            moreover have "fileId r = df_id f" "url r = public_url (df_id f)" "hash r = h"
              "originalUrl r = None"
              by (simp_all add: r_def)
            ultimately show ?thesis
              using fresh[OF key miss upload(2) q, of f r partial] Inr None upload loc partial_def
              by simp
          qed
        qed
      qed
    qed
  qed
qed

subsection \<open>The runs of uploadRemoteImage\<close>

lemma extension_truthy: "truthy (getExtensionFromMimeType ct)"
  by (auto simp: getExtensionFromMimeType_def js_get_def truthy_def Let_def extensions_def
      split: option.splits if_splits)

lemma remote_extension_value:
  "remote_extension env u ct w = (Inr (getExtensionFromMimeType ct), w)"
  by (simp add: remote_extension_def Let_def extension_truthy ret_def)

lemma cleanup_result: "fst (cleanup_temp env tp pp w) = Inr ()"
  by (simp add: cleanup_temp_def io_defs split: option.splits)

lemma cleanup_cache [simp]: "uploadedImages (snd (cleanup_temp env tp pp w)) = uploadedImages w"
  by (simp add: cleanup_temp_def io_defs split: option.splits)

lemma cleanup_persisted [simp]: "persisted (snd (cleanup_temp env tp pp w)) = persisted w"
  by (simp add: cleanup_temp_def io_defs split: option.splits)

lemma cleanup_folder [simp]: "imageFolderId (snd (cleanup_temp env tp pp w)) = imageFolderId w"
  by (simp add: cleanup_temp_def io_defs split: option.splits)

lemma cleanup_trace:
  "trace (snd (cleanup_temp env tp pp w)) = trace w @ new_events w (snd (cleanup_temp env tp pp w))"
  by (simp add: cleanup_temp_def io_defs new_events_def split: option.splits)

lemma cleanup_local:
  "filter is_backend_call (new_events w (snd (cleanup_temp env tp pp w))) = []"
  by (simp add: cleanup_temp_def io_defs new_events_def split: option.splits)

lemma cleanup_removes:
  "\<forall>tr x. fs_error env tr (Remove x) = None \<Longrightarrow>
   disk (snd (cleanup_temp env tp pp w)) tp = None \<and> disk (snd (cleanup_temp env tp pp w)) pp = None"
  by (simp add: cleanup_temp_def io_defs split: option.splits)


lemma bind_cleanup:
  "bindE (cleanup_temp env tp pp) f = (\<lambda>w. f () (snd (cleanup_temp env tp pp w)))"
proof
  fix w
  obtain r w2 where eq: "cleanup_temp env tp pp w = (r, w2)"
    by fastforce
  moreover have "r = Inr ()"
    using cleanup_result[of env tp pp w] eq by simp
  ultimately show "bindE (cleanup_temp env tp pp) f w = f () (snd (cleanup_temp env tp pp w))"
    by (simp add: bindE_def)
qed

lemma uploadRemote_hit:
  "uploadedImages w (sha256 env u) = Some c \<Longrightarrow>
   uploadRemoteImage env u w = (Inr \<lparr>result = c, cached = True\<rparr>, w)"
  by (simp add: uploadRemoteImage_def Let_def bindE_def gets_def ret_def)

lemma uploadRemote_adopted:
  assumes "uploadedImages w (sha256 env u) = None"
    and "adopt_recorded env (sha256 env u) (persisted w) (w\<lparr>trace := trace w @ [LoadState]\<rparr>)
           = (Inr (Some r), wc)"
  shows "uploadRemoteImage env u w = (Inr r, wc)"
  using assms
  by (simp add: uploadRemoteImage_def Let_def bindE_def gets_def ret_def loadState_def emit_def)

lemma uploadRemote_ensureDir_throws:
  assumes "uploadedImages w (sha256 env u) = None"
    and "adopt_recorded env (sha256 env u) (persisted w) (w\<lparr>trace := trace w @ [LoadState]\<rparr>)
           = (Inr None, wc)"
    and "fs_error env (trace wc) (EnsureDir (temp_dir (projectRoot wc))) = Some e"
  shows "uploadRemoteImage env u w = (Inl e, wc\<lparr>trace := trace wc @ [EnsureDir (temp_dir (projectRoot wc))]\<rparr>)"
  using assms
  by (simp add: uploadRemoteImage_def Let_def bindE_def gets_def ret_def loadState_def emit_def
      fs_ensureDir_def)

lemma uploadRemote_download_throws:
  assumes "uploadedImages w (sha256 env u) = None"
    and "adopt_recorded env (sha256 env u) (persisted w) (w\<lparr>trace := trace w @ [LoadState]\<rparr>)
           = (Inr None, wc)"
    and "fs_error env (trace wc) (EnsureDir (temp_dir (projectRoot wc))) = None"
    and "http_get env (trace wc @ [EnsureDir (temp_dir (projectRoot wc))]) u = Inl e"
  shows "uploadRemoteImage env u w
           = (Inl e, wc\<lparr>trace := trace wc @ [EnsureDir (temp_dir (projectRoot wc)), AxiosGet u]\<rparr>)"
  using assms
  by (simp add: uploadRemoteImage_def Let_def bindE_def gets_def ret_def loadState_def emit_def
      fs_ensureDir_def axios_get_def)

lemma uploadRemote_write_throws:
  assumes "uploadedImages w (sha256 env u) = None"
    and "adopt_recorded env (sha256 env u) (persisted w) (w\<lparr>trace := trace w @ [LoadState]\<rparr>)
           = (Inr None, wc)"
    and "fs_error env (trace wc) (EnsureDir (temp_dir (projectRoot wc))) = None"
    and "http_get env (trace wc @ [EnsureDir (temp_dir (projectRoot wc))]) u = Inr response"
    and "tp = temp_file_path (projectRoot wc) (sha256 env u) (getExtensionFromMimeType (content_type response))"
    and "fs_error env (trace wc @ [EnsureDir (temp_dir (projectRoot wc)), AxiosGet u]) (WriteFile tp) = Some e"
  shows "uploadRemoteImage env u w
           = (Inl e, wc\<lparr>trace := trace wc @ [EnsureDir (temp_dir (projectRoot wc)), AxiosGet u, WriteFile tp]\<rparr>)"
  using assms
  by (simp add: uploadRemoteImage_def Let_def bindE_def gets_def ret_def loadState_def emit_def
      fs_ensureDir_def axios_get_def remote_extension_value fs_writeFile_def)

lemma uploadRemote_bad_url:
  assumes "uploadedImages w (sha256 env u) = None"
    and "adopt_recorded env (sha256 env u) (persisted w) (w\<lparr>trace := trace w @ [LoadState]\<rparr>)
           = (Inr None, wc)"
    and "fs_error env (trace wc) (EnsureDir (temp_dir (projectRoot wc))) = None"
    and "http_get env (trace wc @ [EnsureDir (temp_dir (projectRoot wc))]) u = Inr response"
    and "tp = temp_file_path (projectRoot wc) (sha256 env u) (getExtensionFromMimeType (content_type response))"
    and "fs_error env (trace wc @ [EnsureDir (temp_dir (projectRoot wc)), AxiosGet u]) (WriteFile tp) = None"
    and "url_pathname env u = None"
  shows "uploadRemoteImage env u w
           = (Inl (Error ''Invalid URL''),
              wc\<lparr>trace := trace wc @ [EnsureDir (temp_dir (projectRoot wc)), AxiosGet u, WriteFile tp],
                 disk := (disk wc)(tp \<mapsto> body response)\<rparr>)"
  using assms
  by (simp add: uploadRemoteImage_def Let_def bindE_def gets_def ret_def loadState_def emit_def
      fs_ensureDir_def axios_get_def remote_extension_value fs_writeFile_def throw_def)

lemma uploadRemote_tail:
  assumes "uploadedImages w (sha256 env u) = None"
    and "adopt_recorded env (sha256 env u) (persisted w) (w\<lparr>trace := trace w @ [LoadState]\<rparr>)
           = (Inr None, wc)"
    and "fs_error env (trace wc) (EnsureDir (temp_dir (projectRoot wc))) = None"
    and "http_get env (trace wc @ [EnsureDir (temp_dir (projectRoot wc))]) u = Inr response"
    and "tp = temp_file_path (projectRoot wc) (sha256 env u) (getExtensionFromMimeType (content_type response))"
    and "fs_error env (trace wc @ [EnsureDir (temp_dir (projectRoot wc)), AxiosGet u]) (WriteFile tp) = None"
    and "url_pathname env u = Some pathname"
    and "wd = wc\<lparr>trace := trace wc @ [EnsureDir (temp_dir (projectRoot wc)), AxiosGet u, WriteFile tp],
                 disk := (disk wc)(tp \<mapsto> body response)\<rparr>"
    and "convertImageForGoogleDocs env tp (conversion_type (toLowerCase pathname) (getExtensionFromMimeType (content_type response)) (content_type response)) wd
           = (Inr pp, we)"
    and "rq = remote_request (sha256 env u) pp (imageFolderId we)"
  shows "uploadRemoteImage env u w =
     (case files_create env (trace we) rq of
        Inl e \<Rightarrow> (Inl e, we\<lparr>trace := trace we @ [FilesCreate rq]\<rparr>)
      | Inr f \<Rightarrow>
          (case permissions_create env (trace we @ [FilesCreate rq]) (df_id f) of
             Some e \<Rightarrow>
               (Inl e, we\<lparr>trace := trace we @ [FilesCreate rq,
                                 PermissionsCreate (df_id f) ''reader'' ''anyone'']\<rparr>)
           | None \<Rightarrow>
               (let wf = we\<lparr>trace := trace we @ [FilesCreate rq,
                                 PermissionsCreate (df_id f) ''reader'' ''anyone'']\<rparr>;
                    r = \<lparr>url = public_url (df_id f), fileId = df_id f,
                         fileName = ''remote-'' @ substring0 8 (sha256 env u) @ extname pp,
                         originalUrl = Some u,
                         size_field = df_size f, hash = sha256 env u,
                         webViewLink = df_webViewLink f,
                         uploadedAt = date_iso env (trace wf)\<rparr>;
                    wg = snd (cleanup_temp env tp pp wf);
                    partial = upload_record (persisted wg) (imageFolderId wg) (sha256 env u) r
                in (Inr \<lparr>result = r, cached = False\<rparr>,
                    wg\<lparr>trace := trace wg @ [LoadState, UpdateState partial],
                       uploadedImages := (uploadedImages wg)(sha256 env u \<mapsto> r),
                       persisted := Some (deep_merge (persisted wg) partial)\<rparr>))))"
  unfolding uploadRemoteImage_def Let_def
  using assms
  by (simp add: bind_cleanup bindE_def gets_def ret_def loadState_def emit_def modify_def
      updateState_def fs_ensureDir_def axios_get_def remote_extension_value fs_writeFile_def
      drive_files_create_def drive_permissions_create_def remote_request_def
      split: sum.splits option.splits)

lemma cleanup_written: "written (new_events w (snd (cleanup_temp env tp pp w))) = []"
  by (simp add: cleanup_temp_def io_defs new_events_def split: option.splits)

lemma cleanup_root [simp]: "projectRoot (snd (cleanup_temp env tp pp w)) = projectRoot w"
  by (simp add: cleanup_temp_def io_defs split: option.splits)

lemma uploadRemote_cases
  [consumes 1, case_names hit adopted download_error create_error permission_error fresh]:
  assumes run: "uploadRemoteImage env u w = (res, w')"
  obtains
    (hit) c where
      "uploadedImages w (sha256 env u) = Some c"
      "res = Inr \<lparr>result = c, cached = True\<rparr>" "w' = w"
  | (adopted) r where
      "uploadedImages w (sha256 env u) = None"
      "state_uploadedImage (persisted w) (sha256 env u) = Some r"
      "files_get env (trace w @ [LoadState]) (fileId r) = Inr False"
      "res = Inr \<lparr>result = r, cached = True\<rparr>"
      "trace w' = trace w @ [LoadState, FilesGet (fileId r)]"
      "uploadedImages w' = (uploadedImages w)(sha256 env u \<mapsto> r)"
      "persisted w' = persisted w" "imageFolderId w' = imageFolderId w" "disk w' = disk w"
  | (download_error) e chk mid where
      "uploadedImages w (sha256 env u) = None"
      "(state_uploadedImage (persisted w) (sha256 env u) = None \<and> chk = [])
       \<or> (\<exists>r. state_uploadedImage (persisted w) (sha256 env u) = Some r
              \<and> chk = [FilesGet (fileId r)]
              \<and> files_get env (trace w @ [LoadState]) (fileId r) \<noteq> Inr False)"
      "(mid = [EnsureDir (temp_dir (projectRoot w))]
          \<and> fs_error env (trace w @ LoadState # chk) (EnsureDir (temp_dir (projectRoot w))) = Some e)
       \<or> (mid = [EnsureDir (temp_dir (projectRoot w)), AxiosGet u]
          \<and> http_get env (trace w @ LoadState # chk @ [EnsureDir (temp_dir (projectRoot w))]) u
              = Inl e)
       \<or> (\<exists>tp. mid = [EnsureDir (temp_dir (projectRoot w)), AxiosGet u, WriteFile tp]
          \<and> (fs_error env
                (trace w @ LoadState # chk @ [EnsureDir (temp_dir (projectRoot w)), AxiosGet u])
                (WriteFile tp) = Some e
             \<or> url_pathname env u = None \<and> e = Error ''Invalid URL''))"
      "res = Inl e"
      "trace w' = trace w @ LoadState # chk @ mid"
      "filter is_files_create mid = []"
      "uploadedImages w' = uploadedImages w" "persisted w' = persisted w"
      "imageFolderId w' = imageFolderId w"
  | (create_error) e chk tp cv pp where
      "uploadedImages w (sha256 env u) = None"
      "(state_uploadedImage (persisted w) (sha256 env u) = None \<and> chk = [])
       \<or> (\<exists>r. state_uploadedImage (persisted w) (sha256 env u) = Some r
              \<and> chk = [FilesGet (fileId r)]
              \<and> files_get env (trace w @ [LoadState]) (fileId r) \<noteq> Inr False)"
      "files_create env
         (trace w @ LoadState # chk
            @ [EnsureDir (temp_dir (projectRoot w)), AxiosGet u, WriteFile tp] @ cv)
         (remote_request (sha256 env u) pp (imageFolderId w)) = Inl e"
      "res = Inl e"
      "trace w' = trace w @ LoadState # chk
                    @ [EnsureDir (temp_dir (projectRoot w)), AxiosGet u, WriteFile tp] @ cv
                    @ [FilesCreate (remote_request (sha256 env u) pp (imageFolderId w))]"
      "filter is_backend_call cv = []" "written cv = []"
      "uploadedImages w' = uploadedImages w" "persisted w' = persisted w"
      "imageFolderId w' = imageFolderId w"
      "pp = tp \<or> pp = png_path (projectRoot w) tp"
      "\<not> sharp_installed env \<or> (\<forall>tr src. \<exists>e. sharp_png env tr src = Inl e) \<longrightarrow> pp = tp"
      "\<exists>response.
         http_get env (trace w @ LoadState # chk @ [EnsureDir (temp_dir (projectRoot w))]) u
           = Inr response
         \<and> tp = temp_file_path (projectRoot w) (sha256 env u)
                  (getExtensionFromMimeType (content_type response))"
  | (permission_error) e chk tp cv pp f where
      "uploadedImages w (sha256 env u) = None"
      "(state_uploadedImage (persisted w) (sha256 env u) = None \<and> chk = [])
       \<or> (\<exists>r. state_uploadedImage (persisted w) (sha256 env u) = Some r
              \<and> chk = [FilesGet (fileId r)]
              \<and> files_get env (trace w @ [LoadState]) (fileId r) \<noteq> Inr False)"
      "files_create env
         (trace w @ LoadState # chk
            @ [EnsureDir (temp_dir (projectRoot w)), AxiosGet u, WriteFile tp] @ cv)
         (remote_request (sha256 env u) pp (imageFolderId w)) = Inr f"
      "permissions_create env
         (trace w @ LoadState # chk
            @ [EnsureDir (temp_dir (projectRoot w)), AxiosGet u, WriteFile tp] @ cv
            @ [FilesCreate (remote_request (sha256 env u) pp (imageFolderId w))])
         (df_id f) = Some e"
      "res = Inl e"
      "trace w' = trace w @ LoadState # chk
                    @ [EnsureDir (temp_dir (projectRoot w)), AxiosGet u, WriteFile tp] @ cv
                    @ [FilesCreate (remote_request (sha256 env u) pp (imageFolderId w)),
                       PermissionsCreate (df_id f) ''reader'' ''anyone'']"
      "filter is_backend_call cv = []" "written cv = []"
      "uploadedImages w' = uploadedImages w" "persisted w' = persisted w"
      "imageFolderId w' = imageFolderId w"
      "pp = tp \<or> pp = png_path (projectRoot w) tp"
      "\<not> sharp_installed env \<or> (\<forall>tr src. \<exists>e. sharp_png env tr src = Inl e) \<longrightarrow> pp = tp"
      "\<exists>response.
         http_get env (trace w @ LoadState # chk @ [EnsureDir (temp_dir (projectRoot w))]) u
           = Inr response
         \<and> tp = temp_file_path (projectRoot w) (sha256 env u)
                  (getExtensionFromMimeType (content_type response))"
  | (fresh) chk tp cv pp f r cl partial where
      "uploadedImages w (sha256 env u) = None"
      "(state_uploadedImage (persisted w) (sha256 env u) = None \<and> chk = [])
       \<or> (\<exists>r. state_uploadedImage (persisted w) (sha256 env u) = Some r
              \<and> chk = [FilesGet (fileId r)]
              \<and> files_get env (trace w @ [LoadState]) (fileId r) \<noteq> Inr False)"
      "files_create env
         (trace w @ LoadState # chk
            @ [EnsureDir (temp_dir (projectRoot w)), AxiosGet u, WriteFile tp] @ cv)
         (remote_request (sha256 env u) pp (imageFolderId w)) = Inr f"
      "res = Inr \<lparr>result = r, cached = False\<rparr>"
      "fileId r = df_id f" "url r = public_url (df_id f)" "hash r = sha256 env u"
      "originalUrl r = Some u"
      "partial = upload_record (persisted w) (imageFolderId w) (sha256 env u) r"
      "trace w' = trace w @ LoadState # chk
                    @ [EnsureDir (temp_dir (projectRoot w)), AxiosGet u, WriteFile tp] @ cv
                    @ [FilesCreate (remote_request (sha256 env u) pp (imageFolderId w)),
                       PermissionsCreate (df_id f) ''reader'' ''anyone'']
                    @ cl @ [LoadState, UpdateState partial]"
      "filter is_backend_call cv = []" "written cv = []"
      "filter is_backend_call cl = []" "written cl = []"
      "uploadedImages w' = (uploadedImages w)(sha256 env u \<mapsto> r)"
      "persisted w' = Some (deep_merge (persisted w) partial)"
      "imageFolderId w' = imageFolderId w"
      "(\<forall>tr x. fs_error env tr (Remove x) = None) \<longrightarrow> disk w' tp = None \<and> disk w' pp = None"
      "pp = tp \<or> pp = png_path (projectRoot w) tp"
      "\<not> sharp_installed env \<or> (\<forall>tr src. \<exists>e. sharp_png env tr src = Inl e) \<longrightarrow> pp = tp"
      "\<exists>response.
         http_get env (trace w @ LoadState # chk @ [EnsureDir (temp_dir (projectRoot w))]) u
           = Inr response
         \<and> tp = temp_file_path (projectRoot w) (sha256 env u)
                  (getExtensionFromMimeType (content_type response))"
      "permissions_create env
         (trace w @ LoadState # chk
            @ [EnsureDir (temp_dir (projectRoot w)), AxiosGet u, WriteFile tp] @ cv
            @ [FilesCreate (remote_request (sha256 env u) pp (imageFolderId w))])
         (df_id f) = None"
proof (cases "uploadedImages w (sha256 env u)")
  case (Some c)
  then have "uploadRemoteImage env u w = (Inr \<lparr>result = c, cached = True\<rparr>, w)"
    by (rule uploadRemote_hit)
  with run have "res = Inr \<lparr>result = c, cached = True\<rparr>" "w' = w" by simp_all
  then show ?thesis using hit Some by blast
next
  case miss: None
  let ?h = "sha256 env u"
  let ?wl = "w\<lparr>trace := trace w @ [LoadState]\<rparr>"
  let ?check = "\<lambda>chk. (state_uploadedImage (persisted w) ?h = None \<and> chk = [])
       \<or> (\<exists>r. state_uploadedImage (persisted w) ?h = Some r \<and> chk = [FilesGet (fileId r)]
              \<and> files_get env (trace w @ [LoadState]) (fileId r) \<noteq> Inr False)"
  have "(\<exists>chk wc. adopt_recorded env ?h (persisted w) ?wl = (Inr None, wc) \<and> ?check chk
              \<and> wc = w\<lparr>trace := trace w @ LoadState # chk\<rparr>)
           \<or> (\<exists>r. state_uploadedImage (persisted w) ?h = Some r
                \<and> files_get env (trace w @ [LoadState]) (fileId r) = Inr False)"
  proof (cases "state_uploadedImage (persisted w) ?h")
    case None
    then have "adopt_recorded env ?h (persisted w) ?wl = (Inr None, ?wl)"
      by (simp add: adopt_none)
    then show ?thesis using None by auto
  next
    case (Some r)
    show ?thesis
    proof (cases "files_get env (trace w @ [LoadState]) (fileId r) = Inr False")
      case True
      then show ?thesis using Some by blast
    next
      case False
      then have "adopt_recorded env ?h (persisted w) ?wl
                   = (Inr None, ?wl\<lparr>trace := trace ?wl @ [FilesGet (fileId r)]\<rparr>)"
        using Some by (simp add: adopt_stale)
      then show ?thesis using Some False by auto
    qed
  qed
  then consider
    (live) r where "state_uploadedImage (persisted w) ?h = Some r"
      "files_get env (trace w @ [LoadState]) (fileId r) = Inr False"
  | (upload) chk wc where
      "adopt_recorded env ?h (persisted w) ?wl = (Inr None, wc)" "?check chk"
      "wc = w\<lparr>trace := trace w @ LoadState # chk\<rparr>"
    by blast
  then show ?thesis
  proof cases
    case live
    have "adopt_recorded env ?h (persisted w) ?wl
            = (Inr (Some \<lparr>result = r, cached = True\<rparr>),
               ?wl\<lparr>trace := trace ?wl @ [FilesGet (fileId r)],
                    uploadedImages := (uploadedImages ?wl)(?h \<mapsto> r)\<rparr>)"
      using live by (simp add: adopt_live)
    then have "uploadRemoteImage env u w
            = (Inr \<lparr>result = r, cached = True\<rparr>,
               ?wl\<lparr>trace := trace ?wl @ [FilesGet (fileId r)],
                    uploadedImages := (uploadedImages ?wl)(?h \<mapsto> r)\<rparr>)"
      using miss by (simp add: uploadRemote_adopted)
    with run have "res = Inr \<lparr>result = r, cached = True\<rparr>"
      "w' = ?wl\<lparr>trace := trace ?wl @ [FilesGet (fileId r)],
                    uploadedImages := (uploadedImages ?wl)(?h \<mapsto> r)\<rparr>"
      by simp_all
    then show ?thesis using adopted[OF miss live] by simp
  next
    case upload
    let ?d = "temp_dir (projectRoot w)"
    have wc: "trace wc = trace w @ LoadState # chk" "projectRoot wc = projectRoot w"
      "uploadedImages wc = uploadedImages w" "persisted wc = persisted w"
      "imageFolderId wc = imageFolderId w" "disk wc = disk w"
      using upload(3) by simp_all
    show ?thesis
    proof (cases "fs_error env (trace wc) (EnsureDir ?d)")
      case (Some e)
      then have "uploadRemoteImage env u w = (Inl e, wc\<lparr>trace := trace wc @ [EnsureDir ?d]\<rparr>)"
        using uploadRemote_ensureDir_throws[OF miss upload(1)] wc by simp
      with run have "res = Inl e" "w' = wc\<lparr>trace := trace wc @ [EnsureDir ?d]\<rparr>" by simp_all
      moreover have "fs_error env (trace w @ LoadState # chk) (EnsureDir ?d) = Some e"
        using Some wc by simp
      ultimately show ?thesis using download_error[OF miss upload(2), of "[EnsureDir ?d]" e] wc by simp
    next
      case dir: None
      then have dir': "fs_error env (trace wc) (EnsureDir (temp_dir (projectRoot wc))) = None"
        using wc by simp
      show ?thesis
      proof (cases "http_get env (trace wc @ [EnsureDir ?d]) u")
        case (Inl e)
        then have "uploadRemoteImage env u w
                     = (Inl e, wc\<lparr>trace := trace wc @ [EnsureDir ?d, AxiosGet u]\<rparr>)"
          using uploadRemote_download_throws[OF miss upload(1) dir'] wc by simp
        with run have "res = Inl e" "w' = wc\<lparr>trace := trace wc @ [EnsureDir ?d, AxiosGet u]\<rparr>"
          by simp_all
        moreover have "http_get env (trace w @ LoadState # chk @ [EnsureDir ?d]) u = Inl e"
          using Inl wc by simp
        ultimately show ?thesis
          using download_error[OF miss upload(2), of "[EnsureDir ?d, AxiosGet u]" e] wc by simp
      next
        case (Inr response)
        then have get: "http_get env (trace wc @ [EnsureDir (temp_dir (projectRoot wc))]) u = Inr response"
          using wc by simp
        define tp where "tp = temp_file_path (projectRoot wc) ?h
                                (getExtensionFromMimeType (content_type response))"
        let ?mid = "[EnsureDir ?d, AxiosGet u, WriteFile tp]"
        show ?thesis
        proof (cases "fs_error env (trace wc @ [EnsureDir ?d, AxiosGet u]) (WriteFile tp)")
          case (Some e)
          then have "uploadRemoteImage env u w = (Inl e, wc\<lparr>trace := trace wc @ ?mid\<rparr>)"
            using uploadRemote_write_throws[OF miss upload(1) dir' get tp_def] wc by simp
          with run have "res = Inl e" "w' = wc\<lparr>trace := trace wc @ ?mid\<rparr>" by simp_all
          moreover have "fs_error env (trace w @ LoadState # chk @ [EnsureDir ?d, AxiosGet u])
                           (WriteFile tp) = Some e"
            using Some wc by simp
          ultimately show ?thesis using download_error[OF miss upload(2), of ?mid e] wc by simp
        next
          case wr: None
          then have wr': "fs_error env (trace wc @ [EnsureDir (temp_dir (projectRoot wc)), AxiosGet u])
                            (WriteFile tp) = None"
            using wc by simp
          define wd where "wd = wc\<lparr>trace := trace wc @ [EnsureDir (temp_dir (projectRoot wc)),
                                      AxiosGet u, WriteFile tp],
                                   disk := (disk wc)(tp \<mapsto> body response)\<rparr>"
          show ?thesis
          proof (cases "url_pathname env u")
            case None
            then have "uploadRemoteImage env u w = (Inl (Error ''Invalid URL''), wd)"
              using uploadRemote_bad_url[OF miss upload(1) dir' get tp_def wr'] wd_def by simp
            with run have "res = Inl (Error ''Invalid URL'')" "w' = wd" by simp_all
            then show ?thesis
              using download_error[OF miss upload(2), of ?mid "Error ''Invalid URL''"] wc wd_def None
              by simp
          next
            case (Some pathname)
            let ?ct = "conversion_type (toLowerCase pathname)
                         (getExtensionFromMimeType (content_type response)) (content_type response)"
            obtain pp we where conv: "convertImageForGoogleDocs env tp ?ct wd = (Inr pp, we)"
              using convert_result[of env tp ?ct wd] by (metis prod.collapse)
            have we: "we = snd (convertImageForGoogleDocs env tp ?ct wd)" using conv by simp
            define cv where "cv = new_events wd we"
            have cv: "trace we = trace wd @ cv" "filter is_backend_call cv = []" "written cv = []"
              unfolding cv_def we by (rule convert_trace, rule convert_local, rule convert_written)
            have same: "uploadedImages we = uploadedImages w" "persisted we = persisted w"
              "imageFolderId we = imageFolderId w" "projectRoot we = projectRoot w"
              unfolding we by (simp_all add: wd_def wc)
            have tr: "trace we = trace w @ LoadState # chk @ ?mid @ cv"
              using cv(1) wd_def wc by simp
            have pp: "pp = tp \<or> pp = png_path (projectRoot w) tp"
              using convert_result[of env tp ?ct wd] conv by (simp add: wd_def wc)
            have orig: "\<not> sharp_installed env \<or> (\<forall>tr src. \<exists>e. sharp_png env tr src = Inl e)
                          \<longrightarrow> pp = tp"
              using convert_unavailable[of env tp ?ct wd] conv by simp
            have tpf: "\<exists>response.
                http_get env (trace w @ LoadState # chk @ [EnsureDir (temp_dir (projectRoot w))]) u
                  = Inr response
                \<and> tp = temp_file_path (projectRoot w) (sha256 env u)
                         (getExtensionFromMimeType (content_type response))"
              using get tp_def wc by auto
            let ?rq = "remote_request ?h pp (imageFolderId w)"
            note tail = uploadRemote_tail[OF miss upload(1) dir' get tp_def wr' Some wd_def conv,
                of ?rq]
            show ?thesis
            proof (cases "files_create env (trace we) ?rq")
              case (Inl e)
              then have "uploadRemoteImage env u w
                           = (Inl e, we\<lparr>trace := trace we @ [FilesCreate ?rq]\<rparr>)"
                using tail same by simp
              with run have "res = Inl e" "w' = we\<lparr>trace := trace we @ [FilesCreate ?rq]\<rparr>"
                by simp_all
              then show ?thesis
                using create_error[OF miss upload(2), of tp cv pp e] Inl tr cv same pp orig tpf by simp
            next
              case (Inr f)
              show ?thesis
              proof (cases "permissions_create env (trace we @ [FilesCreate ?rq]) (df_id f)")
                case (Some e)
                then have "uploadRemoteImage env u w
                    = (Inl e, we\<lparr>trace := trace we @ [FilesCreate ?rq,
                                     PermissionsCreate (df_id f) ''reader'' ''anyone'']\<rparr>)"
                  using tail same Inr by simp
                with run have "res = Inl e"
                  "w' = we\<lparr>trace := trace we @ [FilesCreate ?rq,
                                     PermissionsCreate (df_id f) ''reader'' ''anyone'']\<rparr>"
                  by simp_all
                then show ?thesis
                  using permission_error[OF miss upload(2), of tp cv pp f e] Inr Some tr cv same
                    pp orig tpf
                  by simp
              next
                case None
                define wf where "wf = we\<lparr>trace := trace we @ [FilesCreate ?rq,
                                 PermissionsCreate (df_id f) ''reader'' ''anyone'']\<rparr>"
                define r where "r = \<lparr>url = public_url (df_id f), fileId = df_id f,
                         fileName = ''remote-'' @ substring0 8 ?h @ extname pp,
                         originalUrl = Some u,
                         size_field = df_size f, hash = ?h,
                         webViewLink = df_webViewLink f,
                         uploadedAt = date_iso env (trace wf)\<rparr>"
                define wg where "wg = snd (cleanup_temp env tp pp wf)"
                define cl where "cl = new_events wf wg"
                define partial where "partial = upload_record (persisted w) (imageFolderId w) ?h r"
                have wg: "trace wg = trace wf @ cl" "filter is_backend_call cl = []" "written cl = []"
                  "uploadedImages wg = uploadedImages w" "persisted wg = persisted w"
                  "imageFolderId wg = imageFolderId w"
                  unfolding cl_def wg_def
                  by (rule cleanup_trace, rule cleanup_local, rule cleanup_written)
                     (simp_all add: wf_def same)
                have gone: "(\<forall>tr x. fs_error env tr (Remove x) = None)
                              \<longrightarrow> disk wg tp = None \<and> disk wg pp = None"
                  unfolding wg_def using cleanup_removes by blast
                have "uploadRemoteImage env u w
                    = (Inr \<lparr>result = r, cached = False\<rparr>,
                       wg\<lparr>trace := trace wg @ [LoadState, UpdateState partial],
                          uploadedImages := (uploadedImages wg)(?h \<mapsto> r),
                          persisted := Some (deep_merge (persisted wg) partial)\<rparr>)"
                  using tail same Inr None wg(4-6)
                  by (simp add: r_def partial_def wg_def wf_def Let_def)
                with run have "res = Inr \<lparr>result = r, cached = False\<rparr>"
                  "w' = wg\<lparr>trace := trace wg @ [LoadState, UpdateState partial],
                          uploadedImages := (uploadedImages wg)(?h \<mapsto> r),
                          persisted := Some (deep_merge (persisted wg) partial)\<rparr>"
                  by simp_all
                moreover have "fileId r = df_id f" "url r = public_url (df_id f)" "hash r = ?h"
                  "originalUrl r = Some u"
                  by (simp_all add: r_def)
                ultimately show ?thesis
                  using fresh[OF miss upload(2), of tp cv pp f r partial cl] Inr None tr cv wg gone
                    partial_def wf_def pp orig tpf
                  by simp
              qed
            qed
          qed
        qed
      qed
    qed
  qed
qed

subsection \<open>The runs of ensureImageFolder\<close>

lemma ensure_live:
  assumes "state_imageFolderId (persisted w) = Some fid" "fid \<noteq> []"
    and "files_get env (trace w @ [LoadState]) fid = Inr False"
  shows "ensureImageFolder env w
           = (Inr fid, w\<lparr>trace := trace w @ [LoadState, FilesGet fid], imageFolderId := Some fid\<rparr>)"
  using assms by (simp add: ensureImageFolder_def io_defs)

lemma ensure_absent:
  assumes "state_imageFolderId (persisted w) = None \<or> state_imageFolderId (persisted w) = Some []"
  shows "ensureImageFolder env w
           = create_folder_run env w
               (w\<lparr>trace := trace w @ [LoadState], imageFolderId := state_imageFolderId (persisted w)\<rparr>)"
  using assms
  by (auto simp: ensureImageFolder_def io_defs folder_name_def create_folder_run_def Let_def
      split: sum.splits option.splits)

lemma ensure_stale:
  assumes "state_imageFolderId (persisted w) = Some fid" "fid \<noteq> []"
    and "files_get env (trace w @ [LoadState]) fid \<noteq> Inr False"
  shows "ensureImageFolder env w
           = create_folder_run env w
               (w\<lparr>trace := trace w @ [LoadState, FilesGet fid], imageFolderId := None\<rparr>)"
proof (cases "files_get env (trace w @ [LoadState]) fid")
  case (Inl e)
  with assms show ?thesis
    by (simp add: ensureImageFolder_def io_defs folder_name_def create_folder_run_def Let_def
        split: sum.splits option.splits)
next
  case (Inr t)
  with assms have "t" by simp
  with Inr assms show ?thesis
    by (simp add: ensureImageFolder_def io_defs folder_name_def create_folder_run_def Let_def
        split: sum.splits option.splits)
qed

lemma ensure_cases [consumes 1, case_names live create_error permission_error created]:
  assumes run: "ensureImageFolder env w = (res, w')"
  obtains
    (live) fid where
      "state_imageFolderId (persisted w) = Some fid" "fid \<noteq> []"
      "files_get env (trace w @ [LoadState]) fid = Inr False"
      "res = Inr fid" "trace w' = trace w @ [LoadState, FilesGet fid]"
      "persisted w' = persisted w" "imageFolderId w' = Some fid"
  | (create_error) e chk where
      "((state_imageFolderId (persisted w) = None \<or> state_imageFolderId (persisted w) = Some [])
          \<and> chk = [])
       \<or> (\<exists>fid. state_imageFolderId (persisted w) = Some fid \<and> fid \<noteq> []
              \<and> chk = [FilesGet fid]
              \<and> files_get env (trace w @ [LoadState]) fid \<noteq> Inr False)"
      "files_create env (trace w @ LoadState # chk)
         (folder_request (folder_name env (trace w @ LoadState # chk))) = Inl e"
      "res = Inl e"
      "trace w' = trace w @ LoadState # chk
                    @ [FilesCreate (folder_request (folder_name env (trace w @ LoadState # chk)))]"
      "persisted w' = persisted w"
  | (permission_error) e chk folder where
      "((state_imageFolderId (persisted w) = None \<or> state_imageFolderId (persisted w) = Some [])
          \<and> chk = [])
       \<or> (\<exists>fid. state_imageFolderId (persisted w) = Some fid \<and> fid \<noteq> []
              \<and> chk = [FilesGet fid]
              \<and> files_get env (trace w @ [LoadState]) fid \<noteq> Inr False)"
      "files_create env (trace w @ LoadState # chk)
         (folder_request (folder_name env (trace w @ LoadState # chk))) = Inr folder"
      "res = Inl e"
      "trace w' = trace w @ LoadState # chk
                    @ [FilesCreate (folder_request (folder_name env (trace w @ LoadState # chk))),
                       PermissionsCreate (df_id folder) ''reader'' ''anyone'']"
      "persisted w' = persisted w"
  | (created) chk folder partial where
      "((state_imageFolderId (persisted w) = None \<or> state_imageFolderId (persisted w) = Some [])
          \<and> chk = [])
       \<or> (\<exists>fid. state_imageFolderId (persisted w) = Some fid \<and> fid \<noteq> []
              \<and> chk = [FilesGet fid]
              \<and> files_get env (trace w @ [LoadState]) fid \<noteq> Inr False)"
      "files_create env (trace w @ LoadState # chk)
         (folder_request (folder_name env (trace w @ LoadState # chk))) = Inr folder"
      "res = Inr (df_id folder)"
      "gd_imageFolderId partial = Some (df_id folder)"
      "trace w' = trace w @ LoadState # chk
                    @ [FilesCreate (folder_request (folder_name env (trace w @ LoadState # chk))),
                       PermissionsCreate (df_id folder) ''reader'' ''anyone'',
                       LoadState, UpdateState partial]"
      "persisted w' = Some (deep_merge (persisted w) partial)"
      "imageFolderId w' = Some (df_id folder)"
proof -
  let ?rec = "state_imageFolderId (persisted w)"
  let ?check = "\<lambda>chk. ((?rec = None \<or> ?rec = Some []) \<and> chk = [])
       \<or> (\<exists>fid. ?rec = Some fid \<and> fid \<noteq> [] \<and> chk = [FilesGet fid]
              \<and> files_get env (trace w @ [LoadState]) fid \<noteq> Inr False)"
  have "(\<exists>fid. ?rec = Some fid \<and> fid \<noteq> [] \<and> files_get env (trace w @ [LoadState]) fid = Inr False)
        \<or> (\<exists>chk wc. ?check chk \<and> ensureImageFolder env w = create_folder_run env w wc
              \<and> trace wc = trace w @ LoadState # chk \<and> persisted wc = persisted w)"
  proof (cases "?rec = None \<or> ?rec = Some []")
    case True
    let ?wc = "w\<lparr>trace := trace w @ [LoadState], imageFolderId := ?rec\<rparr>"
    have "?check [] \<and> ensureImageFolder env w = create_folder_run env w ?wc
              \<and> trace ?wc = trace w @ LoadState # [] \<and> persisted ?wc = persisted w"
      using True ensure_absent[OF True, of env] by simp
    then show ?thesis by (intro disjI2 exI)
  next
    case False
    then obtain fid where fid: "?rec = Some fid" "fid \<noteq> []" by (cases ?rec) auto
    show ?thesis
    proof (cases "files_get env (trace w @ [LoadState]) fid = Inr False")
      case True
      then show ?thesis using fid by blast
    next
      case stale: False
      let ?wc = "w\<lparr>trace := trace w @ [LoadState, FilesGet fid], imageFolderId := None\<rparr>"
      have "?check [FilesGet fid] \<and> ensureImageFolder env w = create_folder_run env w ?wc
              \<and> trace ?wc = trace w @ LoadState # [FilesGet fid] \<and> persisted ?wc = persisted w"
        using fid stale ensure_stale[OF fid stale] by simp
      then show ?thesis by (intro disjI2 exI)
    qed
  qed
  then consider
    (ok) fid where "?rec = Some fid" "fid \<noteq> []"
      "files_get env (trace w @ [LoadState]) fid = Inr False"
  | (new) chk wc where "?check chk" "ensureImageFolder env w = create_folder_run env w wc"
      "trace wc = trace w @ LoadState # chk" "persisted wc = persisted w"
    by blast
  then show ?thesis
  proof cases
    case ok
    then have "res = Inr fid"
      "w' = w\<lparr>trace := trace w @ [LoadState, FilesGet fid], imageFolderId := Some fid\<rparr>"
      using run ensure_live[OF ok, of] by simp_all
    then show ?thesis using live[OF ok] by simp
  next
    case new
    let ?tr = "trace w @ LoadState # chk"
    let ?rq = "folder_request (folder_name env ?tr)"
    have run': "create_folder_run env w wc = (res, w')" using run new(2) by simp
    show ?thesis
    proof (cases "files_create env ?tr ?rq")
      case (Inl e)
      then have "res = Inl e" "w' = wc\<lparr>trace := ?tr @ [FilesCreate ?rq]\<rparr>"
        using run' new(3) by (simp_all add: create_folder_run_def Let_def)
      then show ?thesis using create_error[OF new(1) Inl] new(4) by simp
    next
      case (Inr folder)
      show ?thesis
      proof (cases "permissions_create env (?tr @ [FilesCreate ?rq]) (df_id folder)")
        case (Some e)
        then have "res = Inl e"
          "w' = wc\<lparr>trace := ?tr @ [FilesCreate ?rq,
                                 PermissionsCreate (df_id folder) ''reader'' ''anyone''],
                         imageFolderId := Some (df_id folder)\<rparr>"
          using run' new(3) Inr by (simp_all add: create_folder_run_def Let_def)
        then show ?thesis using permission_error[OF new(1) Inr] new(4) by simp
      next
        case None
        define partial where "partial = folder_record (persisted w) (df_id folder)
            (folder_name env ?tr)
            (date_iso env (?tr @ [FilesCreate ?rq,
                                 PermissionsCreate (df_id folder) ''reader'' ''anyone'', LoadState]))"
        have "res = Inr (df_id folder)"
          "w' = wc\<lparr>trace := ?tr @ [FilesCreate ?rq,
                                 PermissionsCreate (df_id folder) ''reader'' ''anyone'',
                                 LoadState, UpdateState partial],
                      imageFolderId := Some (df_id folder),
                      persisted := Some (deep_merge (persisted w) partial)\<rparr>"
          using run' new(3) Inr None by (simp_all add: create_folder_run_def Let_def partial_def)
        moreover have "gd_imageFolderId partial = Some (df_id folder)"
          by (simp add: partial_def folder_record_def)
        ultimately show ?thesis using created[OF new(1) Inr, of partial] by simp
      qed
    qed
  qed
qed

text \<open>Reading a trace that starts with local calls.\<close>

lemma files_create_backend: "is_files_create e \<Longrightarrow> is_backend_call e"
  by (cases e) simp_all

lemma backend_free_create: "filter is_backend_call xs = [] \<Longrightarrow> filter is_files_create xs = []"
  using files_create_backend by (auto simp: filter_empty_conv)

lemma created_ids_local:
  "filter is_backend_call xs = [] \<Longrightarrow> created_ids env tr (xs @ ys) = created_ids env (tr @ xs) ys"
  by (induction env tr xs rule: created_ids.induct) (simp_all split: if_splits)

lemma created_ids_local_only:
  "filter is_backend_call xs = [] \<Longrightarrow> created_ids env tr xs = []"
  using created_ids_local[of xs env tr "[]"] by simp

lemma files_get_answers_local:
  "filter is_backend_call xs = [] \<Longrightarrow>
   files_get_answers env tr (xs @ ys) = files_get_answers env (tr @ xs) ys"
  by (induction env tr xs rule: files_get_answers.induct) (simp_all split: if_splits)

lemma files_get_answers_local_only:
  "filter is_backend_call xs = [] \<Longrightarrow> files_get_answers env tr xs = []"
  using files_get_answers_local[of xs env tr "[]"] by simp

lemma uploaded_paths_append [simp]:
  "uploaded_paths (xs @ ys) = uploaded_paths xs @ uploaded_paths ys"
  by (induction xs rule: uploaded_paths.induct) simp_all

lemma uploaded_paths_local: "filter is_backend_call xs = [] \<Longrightarrow> uploaded_paths xs = []"
  by (induction xs rule: uploaded_paths.induct) (simp_all split: if_splits)

lemma new_events_append [simp]: "trace w' = trace w @ evs \<Longrightarrow> new_events w w' = evs"
  by (simp add: new_events_def)

lemma created_ids_skip:
  "filter is_files_create xs = [] \<Longrightarrow> created_ids env tr (xs @ ys) = created_ids env (tr @ xs) ys"
  by (induction env tr xs rule: created_ids.induct) (simp_all split: if_splits)

lemma filter_create_local [simp]:
  "filter is_backend_call xs = [] \<Longrightarrow> filter is_files_create (xs @ ys) = filter is_files_create ys"
  by (simp add: backend_free_create)

text \<open>The paths of the concrete world.\<close>

lemma demo_temp_dir: "temp_dir ''/site'' = ''/site/.docusaurus/temp''"
  by (simp add: temp_dir_def path_join_def path_normalize_def)

lemma demo_temp_file_a:
  "temp_file_path ''/site'' ''8c399ffff145311d0430bd5c51f091c7ccf90f20241c6851adec1c9bfd6c6604''
     (JStr ''.png'') = ''/site/.docusaurus/temp/remote-8c399fff.png''"
  by (simp add: temp_file_path_def demo_temp_dir substring0_def js_to_string_def path_join_def
      path_normalize_def)

lemma demo_temp_file_b:
  "temp_file_path ''/site'' ''65ea1f4b7b5a9a20e5a9aa4be90da1dff0395762eb31b7a418701c1d0dcd5863''
     (JStr ''.png'') = ''/site/.docusaurus/temp/remote-65ea1f4b.png''"
  by (simp add: temp_file_path_def demo_temp_dir substring0_def js_to_string_def path_join_def
      path_normalize_def)

lemma demo_temp_file_svg:
  "temp_file_path ''/site'' ''8c399ffff145311d0430bd5c51f091c7ccf90f20241c6851adec1c9bfd6c6604''
     (JStr ''.svg'') = ''/site/.docusaurus/temp/remote-8c399fff.svg''"
  by (simp add: temp_file_path_def demo_temp_dir substring0_def js_to_string_def path_join_def
      path_normalize_def)

lemma demo_png_path:
  "png_path ''/site'' ''/site/img/diagram.svg'' = ''/site/.docusaurus/temp/diagram.png''"
  by (simp add: png_path_def demo_temp_dir basename_ext_def last_component_def extname_def
      toLowerCase_def lower_char_fixed path_join_def path_normalize_def)

text \<open>Everything that must be unfolded to run a method in the concrete world.\<close>

lemmas eval_defs = io_defs uploadImage_def uploadRemoteImage_def
  convertImageForGoogleDocs_def image_hash_def adopt_recorded_def cleanup_temp_def
  remote_extension_def ensureImageFolder_def upload_key_def
  state_uploadedImage_def state_imageFolderId_def spread_def empty_google_drive_def
  file_request_def folder_request_def upload_record_def folder_record_def
  demo_temp_dir demo_temp_file_a demo_temp_file_b demo_png_path conversion_type_def public_url_def
  deep_merge_def merge_field_def merge_result_def
  extname_def last_component_def basename_def basename_ext_def toLowerCase_def lower_char_def
  endsWith_def substring0_def getMimeType_def getMimeType_value_def getExtensionFromMimeType_def
  js_get_def js_to_string_def truthy_def mimeTypes_def extensions_def object_prototype_keys_def
  new_events_def Let_def
  warning_sign_def sharp_missing_warning_def conversion_failed_warning_def
  cleanup_failed_warning_def
  demo_env_def demo_world_def demo_state_def demo_sha256_def url_a_def url_b_def digest_a_def
  digest_b_def digest_png_def logo_path_def recorded_def cached_world_def recorded_world_def
  svg_path_def no_dir_env_def bad_svg_env_def no_output_env_def quota_env_def
  first_remote_def second_remote_def

text \<open>What a completed upload created, for both methods.\<close>

lemma local_run_creates:
  assumes run: "uploadImage env p i w = (Inr r, w')"
  shows "(cached r \<longleftrightarrow> filter is_files_create (new_events w w') = [])
          \<and> (\<not> cached r \<longleftrightarrow> created_ids env (trace w) (new_events w w') = [fileId (result r)])"
  using run
proof (cases rule: uploadImage_cases)
  case (hit h c pre)
  then show ?thesis by (simp add: backend_free_create created_ids_local_only)
next
  case (adopted h u pre)
  then show ?thesis by (simp add: created_ids_local backend_free_create)
next
  case (fresh h pre chk q f r' partial)
  then show ?thesis by (auto simp: created_ids_local backend_free_create)
qed simp_all

lemma remote_run_creates:
  assumes run: "uploadRemoteImage env u v = (Inr s, v')"
  shows "(cached s \<longleftrightarrow> filter is_files_create (new_events v v') = [])
          \<and> (\<not> cached s \<longleftrightarrow> created_ids env (trace v) (new_events v v') = [fileId (result s)])"
  using run
proof (cases rule: uploadRemote_cases)
  case (hit c)
  then show ?thesis by (simp add: new_events_def)
next
  case (adopted r)
  then show ?thesis by simp
next
  case (fresh chk tp cv pp f r cl partial)
  then show ?thesis by (auto simp: created_ids_local backend_free_create)
qed simp_all

subsection \<open>The session cache\<close>

text \<open>
  Claim C5. When the key of an upload is in the session cache, \<open>uploadImage\<close> returns the
  cached result marked \<^verbatim>\<open>cached\<close>, and between its start and its end it calls no
  backend: no \<^verbatim>\<open>files.get\<close>, \<^verbatim>\<open>files.create\<close>, \<^verbatim>\<open>permissions.create\<close>,
  \<^verbatim>\<open>loadState\<close>, \<^verbatim>\<open>updateState\<close> and no download (its only calls are the local ones of
  the conversion and of hashing the file); the persistent state and the cache stay as they
  are. \<open>uploadRemoteImage\<close> returns the cached result in an unchanged world: it makes no
  call at all.
\<close>

theorem session_cache_hit:
  "(upload_key env p i w = Some h \<and> uploadedImages w h = Some c
      \<and> uploadImage env p i w = (res, w')
      \<longrightarrow> res = Inr \<lparr>result = c, cached = True\<rparr>
          \<and> filter is_backend_call (new_events w w') = []
          \<and> persisted w' = persisted w \<and> uploadedImages w' = uploadedImages w)
   \<and> (uploadedImages w (sha256 env u) = Some c
      \<longrightarrow> uploadRemoteImage env u w = (Inr \<lparr>result = c, cached = True\<rparr>, w))"
proof (rule conjI; rule impI)
  assume a: "upload_key env p i w = Some h \<and> uploadedImages w h = Some c
      \<and> uploadImage env p i w = (res, w')"
  then have run: "uploadImage env p i w = (res, w')" by simp
  from run show "res = Inr \<lparr>result = c, cached = True\<rparr>
          \<and> filter is_backend_call (new_events w w') = []
          \<and> persisted w' = persisted w \<and> uploadedImages w' = uploadedImages w"
    by (cases rule: uploadImage_cases) (use a in simp_all)
next
  assume "uploadedImages w (sha256 env u) = Some c"
  then show "uploadRemoteImage env u w = (Inr \<lparr>result = c, cached = True\<rparr>, w)"
    by (rule uploadRemote_hit)
qed

theorem session_cache_hit_witness:
  "upload_key demo_env logo_path None (cached_world ''id-1'') = Some digest_png
   \<and> uploadedImages (cached_world ''id-1'') digest_png = Some (recorded ''id-1'')
   \<and> fst (uploadImage demo_env logo_path None (cached_world ''id-1''))
       = Inr \<lparr>result = recorded ''id-1'', cached = True\<rparr>
   \<and> filter is_backend_call
        (new_events (cached_world ''id-1'')
           (snd (uploadImage demo_env logo_path None (cached_world ''id-1'')))) = []
   \<and> uploadedImages (cached_world ''id-1'') (sha256 demo_env url_a) = Some (recorded ''id-1'')
   \<and> uploadRemoteImage demo_env url_a (cached_world ''id-1'')
       = (Inr \<lparr>result = recorded ''id-1'', cached = True\<rparr>, cached_world ''id-1'')"
proof -
  let ?w = "cached_world ''id-1''"
  have k: "upload_key demo_env logo_path None ?w = Some digest_png"
    by (simp add: eval_defs)
  have c: "uploadedImages ?w digest_png = Some (recorded ''id-1'')"
    by (simp add: cached_world_def digest_png_def digest_a_def)
  have r: "uploadImage demo_env logo_path None ?w
             = (fst (uploadImage demo_env logo_path None ?w),
                snd (uploadImage demo_env logo_path None ?w))"
    by simp
  have c': "uploadedImages ?w (sha256 demo_env url_a) = Some (recorded ''id-1'')"
    by (simp add: cached_world_def demo_env_def demo_sha256_def)
  note local = session_cache_hit[THEN conjunct1, THEN mp, OF conjI[OF k conjI[OF c r]]]
  note remote = session_cache_hit[THEN conjunct2, THEN mp, OF c']
  from k c c' local remote show ?thesis by simp
qed

subsection \<open>The cached flag\<close>

text \<open>
  Claim C10. When \<open>uploadImage\<close> or \<open>uploadRemoteImage\<close> completes, the \<^verbatim>\<open>cached\<close>
  field of what it returns is true exactly when the invocation made no \<^verbatim>\<open>files.create\<close>
  call, and false exactly when the Drive created one file in the invocation, the file whose
  id is returned.
\<close>

theorem cached_flag:
  "(uploadImage env p i w = (Inr r, w')
      \<longrightarrow> (cached r \<longleftrightarrow> filter is_files_create (new_events w w') = [])
          \<and> (\<not> cached r \<longleftrightarrow> created_ids env (trace w) (new_events w w') = [fileId (result r)]))
   \<and> (uploadRemoteImage env u v = (Inr s, v')
      \<longrightarrow> (cached s \<longleftrightarrow> filter is_files_create (new_events v v') = [])
          \<and> (\<not> cached s \<longleftrightarrow> created_ids env (trace v) (new_events v v') = [fileId (result s)]))"
  using local_run_creates[of env p i w r w'] remote_run_creates[of env u v s v'] by blast

theorem cached_flag_witness:
  "(\<exists>r. uploadImage demo_env logo_path None demo_world
           = (Inr r, snd (uploadImage demo_env logo_path None demo_world))
        \<and> \<not> cached r
        \<and> filter is_files_create
             (new_events demo_world (snd (uploadImage demo_env logo_path None demo_world))) \<noteq> []
        \<and> created_ids demo_env (trace demo_world)
             (new_events demo_world (snd (uploadImage demo_env logo_path None demo_world)))
           = [fileId (result r)])
   \<and> (\<exists>s. uploadRemoteImage demo_env url_a (recorded_world ''id-1'')
           = (Inr s, snd (uploadRemoteImage demo_env url_a (recorded_world ''id-1'')))
        \<and> cached s
        \<and> filter is_files_create
             (new_events (recorded_world ''id-1'')
                (snd (uploadRemoteImage demo_env url_a (recorded_world ''id-1'')))) = [])"
proof -
  let ?run = "uploadImage demo_env logo_path None demo_world"
  let ?rem = "uploadRemoteImage demo_env url_a (recorded_world ''id-1'')"
  have "\<exists>r. fst ?run = Inr r \<and> \<not> cached r"
    by (simp add: eval_defs)
  then obtain r where r: "?run = (Inr r, snd ?run)" "\<not> cached r"
    by (metis prod.collapse)
  have "\<exists>s. fst ?rem = Inr s \<and> cached s"
    by (simp add: eval_defs)
  then obtain s where s: "?rem = (Inr s, snd ?rem)" "cached s"
    by (metis prod.collapse)
  note local = cached_flag[THEN conjunct1, THEN mp, OF r(1)]
  note remote = cached_flag[THEN conjunct2, THEN mp, OF s(1)]
  from r local have "?run = (Inr r, snd ?run) \<and> \<not> cached r
        \<and> filter is_files_create (new_events demo_world (snd ?run)) \<noteq> []
        \<and> created_ids demo_env (trace demo_world) (new_events demo_world (snd ?run))
           = [fileId (result r)]"
    by blast
  moreover from s remote have "?rem = (Inr s, snd ?rem) \<and> cached s
        \<and> filter is_files_create (new_events (recorded_world ''id-1'') (snd ?rem)) = []"
    by blast
  ultimately show ?thesis by blast
qed

subsection \<open>A new file is made public\<close>

lemma fileId_merge_result [simp]: "fileId (merge_result old r) = fileId r"
  by (simp add: merge_result_def split: option.splits)

lemma state_after_upload:
  "map_option fileId
     (state_uploadedImage (Some (deep_merge old (upload_record cur folder h r))) h)
   = Some (fileId r)"
  by (simp add: state_uploadedImage_def deep_merge_def upload_record_def)

lemma partial_upload [simp]: "gd_uploadedImages (upload_record cur folder h r) h = Some r"
  by (simp add: upload_record_def)

text \<open>
  Claim C8. An upload that creates a file (the result is not marked \<^verbatim>\<open>cached\<close>) follows
  the \<^verbatim>\<open>files.create\<close> call at once by \<^verbatim>\<open>permissions.create\<close> for the new file with
  role \<^verbatim>\<open>reader\<close> and type \<^verbatim>\<open>anyone\<close>, before it returns, and the Drive accepted that
  call: its answer at that moment was not an error. The returned id is the id the Drive gave
  the new file, and the returned URL is
  \<^verbatim>\<open>https://drive.google.com/uc?export=download&id=\<close> followed by that id.
\<close>

theorem fresh_upload_is_public:
  "(uploadImage env p i w = (Inr r, w') \<and> \<not> cached r
      \<longrightarrow> url (result r) = ''https://drive.google.com/uc?export=download&id='' @ fileId (result r)
          \<and> created_ids env (trace w) (new_events w w') = [fileId (result r)]
          \<and> (\<exists>before rq after. new_events w w'
                = before @ [FilesCreate rq, PermissionsCreate (fileId (result r)) ''reader'' ''anyone'']
                    @ after
              \<and> permissions_create env (trace w @ before @ [FilesCreate rq]) (fileId (result r))
                  = None))
   \<and> (uploadRemoteImage env u v = (Inr s, v') \<and> \<not> cached s
      \<longrightarrow> url (result s) = ''https://drive.google.com/uc?export=download&id='' @ fileId (result s)
          \<and> created_ids env (trace v) (new_events v v') = [fileId (result s)]
          \<and> (\<exists>before rq after. new_events v v'
                = before @ [FilesCreate rq, PermissionsCreate (fileId (result s)) ''reader'' ''anyone'']
                    @ after
              \<and> permissions_create env (trace v @ before @ [FilesCreate rq]) (fileId (result s))
                  = None))"
proof (rule conjI; rule impI)
  assume a: "uploadImage env p i w = (Inr r, w') \<and> \<not> cached r"
  then have run: "uploadImage env p i w = (Inr r, w')" by simp
  from run show "url (result r) = ''https://drive.google.com/uc?export=download&id='' @ fileId (result r)
          \<and> created_ids env (trace w) (new_events w w') = [fileId (result r)]
          \<and> (\<exists>before rq after. new_events w w'
                = before @ [FilesCreate rq, PermissionsCreate (fileId (result r)) ''reader'' ''anyone'']
                    @ after
              \<and> permissions_create env (trace w @ before @ [FilesCreate rq]) (fileId (result r))
                  = None)"
  proof (cases rule: uploadImage_cases)
    case (fresh h pre chk q f r' partial)
    let ?rq = "local_request h q (imageFolderId w)"
    have "new_events w w' = (pre @ LoadState # chk)
            @ [FilesCreate ?rq, PermissionsCreate (fileId (result r)) ''reader'' ''anyone'']
            @ [LoadState, UpdateState partial]"
      using fresh by simp
    moreover have "permissions_create env (trace w @ (pre @ LoadState # chk) @ [FilesCreate ?rq])
                     (fileId (result r)) = None"
      using fresh by simp
    ultimately have "\<exists>before rq after. new_events w w'
                = before @ [FilesCreate rq, PermissionsCreate (fileId (result r)) ''reader'' ''anyone'']
                    @ after
              \<and> permissions_create env (trace w @ before @ [FilesCreate rq]) (fileId (result r))
                  = None"
      by blast
    moreover have "created_ids env (trace w) (new_events w w') = [fileId (result r)]"
      using local_run_creates[OF run] a by simp
    moreover have "url (result r) = ''https://drive.google.com/uc?export=download&id='' @ fileId (result r)"
      using fresh by (simp add: public_url_def)
    ultimately show ?thesis by blast
  qed (use a in simp_all)
next
  assume a: "uploadRemoteImage env u v = (Inr s, v') \<and> \<not> cached s"
  then have run: "uploadRemoteImage env u v = (Inr s, v')" by simp
  from run show "url (result s) = ''https://drive.google.com/uc?export=download&id='' @ fileId (result s)
          \<and> created_ids env (trace v) (new_events v v') = [fileId (result s)]
          \<and> (\<exists>before rq after. new_events v v'
                = before @ [FilesCreate rq, PermissionsCreate (fileId (result s)) ''reader'' ''anyone'']
                    @ after
              \<and> permissions_create env (trace v @ before @ [FilesCreate rq]) (fileId (result s))
                  = None)"
  proof (cases rule: uploadRemote_cases)
    case (fresh chk tp cv pp f r' cl partial)
    let ?rq = "remote_request (sha256 env u) pp (imageFolderId v)"
    have "new_events v v' = (LoadState # chk
            @ [EnsureDir (temp_dir (projectRoot v)), AxiosGet u, WriteFile tp] @ cv)
            @ [FilesCreate ?rq, PermissionsCreate (fileId (result s)) ''reader'' ''anyone'']
            @ (cl @ [LoadState, UpdateState partial])"
      using fresh by simp
    moreover have "permissions_create env
                     (trace v @ (LoadState # chk
                        @ [EnsureDir (temp_dir (projectRoot v)), AxiosGet u, WriteFile tp] @ cv)
                        @ [FilesCreate ?rq])
                     (fileId (result s)) = None"
      using fresh by simp
    ultimately have "\<exists>before rq after. new_events v v'
                = before @ [FilesCreate rq, PermissionsCreate (fileId (result s)) ''reader'' ''anyone'']
                    @ after
              \<and> permissions_create env (trace v @ before @ [FilesCreate rq]) (fileId (result s))
                  = None"
      by blast
    moreover have "created_ids env (trace v) (new_events v v') = [fileId (result s)]"
      using remote_run_creates[OF run] a by simp
    moreover have "url (result s) = ''https://drive.google.com/uc?export=download&id='' @ fileId (result s)"
      using fresh by (simp add: public_url_def)
    ultimately show ?thesis by blast
  qed (use a in simp_all)
qed

theorem fresh_upload_is_public_witness:
  "(\<exists>r. uploadImage demo_env logo_path None demo_world
           = (Inr r, snd (uploadImage demo_env logo_path None demo_world))
        \<and> \<not> cached r
        \<and> fileId (result r) = ''id-of-79612083-logo.png''
        \<and> url (result r) = ''https://drive.google.com/uc?export=download&id='' @ fileId (result r)
        \<and> (\<exists>before rq after.
              new_events demo_world (snd (uploadImage demo_env logo_path None demo_world))
                = before @ [FilesCreate rq, PermissionsCreate (fileId (result r)) ''reader'' ''anyone'']
                    @ after
              \<and> permissions_create demo_env (trace demo_world @ before @ [FilesCreate rq])
                    (fileId (result r)) = None))
   \<and> (\<exists>s. uploadRemoteImage demo_env url_a demo_world
           = (Inr s, snd (uploadRemoteImage demo_env url_a demo_world))
        \<and> \<not> cached s
        \<and> fileId (result s) = ''id-of-remote-8c399fff.png''
        \<and> url (result s) = ''https://drive.google.com/uc?export=download&id='' @ fileId (result s)
        \<and> (\<exists>before rq after.
              new_events demo_world (snd (uploadRemoteImage demo_env url_a demo_world))
                = before @ [FilesCreate rq, PermissionsCreate (fileId (result s)) ''reader'' ''anyone'']
                    @ after
              \<and> permissions_create demo_env (trace demo_world @ before @ [FilesCreate rq])
                    (fileId (result s)) = None))"
proof -
  let ?run = "uploadImage demo_env logo_path None demo_world"
  let ?rem = "uploadRemoteImage demo_env url_a demo_world"
  have "\<exists>r. fst ?run = Inr r \<and> \<not> cached r \<and> fileId (result r) = ''id-of-79612083-logo.png''"
    by (simp add: eval_defs)
  then obtain r where r: "?run = (Inr r, snd ?run)" "\<not> cached r"
      "fileId (result r) = ''id-of-79612083-logo.png''"
    by (metis prod.collapse)
  have "\<exists>s. fst ?rem = Inr s \<and> \<not> cached s \<and> fileId (result s) = ''id-of-remote-8c399fff.png''"
    by (simp add: eval_defs)
  then obtain s where s: "?rem = (Inr s, snd ?rem)" "\<not> cached s"
      "fileId (result s) = ''id-of-remote-8c399fff.png''"
    by (metis prod.collapse)
  note local = fresh_upload_is_public[THEN conjunct1, THEN mp, OF conjI[OF r(1) r(2)]]
  note remote = fresh_upload_is_public[THEN conjunct2, THEN mp, OF conjI[OF s(1) s(2)]]
  have "?run = (Inr r, snd ?run) \<and> \<not> cached r
        \<and> fileId (result r) = ''id-of-79612083-logo.png''
        \<and> url (result r) = ''https://drive.google.com/uc?export=download&id='' @ fileId (result r)
        \<and> (\<exists>before rq after. new_events demo_world (snd ?run)
                = before @ [FilesCreate rq, PermissionsCreate (fileId (result r)) ''reader'' ''anyone'']
                    @ after
              \<and> permissions_create demo_env (trace demo_world @ before @ [FilesCreate rq])
                    (fileId (result r)) = None)"
    using r local by blast
  moreover have "?rem = (Inr s, snd ?rem) \<and> \<not> cached s
        \<and> fileId (result s) = ''id-of-remote-8c399fff.png''
        \<and> url (result s) = ''https://drive.google.com/uc?export=download&id='' @ fileId (result s)
        \<and> (\<exists>before rq after. new_events demo_world (snd ?rem)
                = before @ [FilesCreate rq, PermissionsCreate (fileId (result s)) ''reader'' ''anyone'']
                    @ after
              \<and> permissions_create demo_env (trace demo_world @ before @ [FilesCreate rq])
                    (fileId (result s)) = None)"
    using s remote by blast
  ultimately show ?thesis by blast
qed

subsection \<open>Every creation is recorded\<close>

lemma state_after_folder:
  "gd_imageFolderId partial = Some fid \<Longrightarrow>
   state_imageFolderId (Some (deep_merge old partial)) = Some fid"
  by (simp add: state_imageFolderId_def deep_merge_def merge_field_def)

lemma ensure_run_creates:
  assumes run: "ensureImageFolder env w = (Inr fid, w')"
    and "filter is_files_create (new_events w w') \<noteq> []"
  shows "created_ids env (trace w) (new_events w w') = [fid]
        \<and> (\<exists>partial. last (new_events w w') = UpdateState partial
              \<and> gd_imageFolderId partial = Some fid)
        \<and> state_imageFolderId (persisted w') = Some fid \<and> imageFolderId w' = Some fid"
  using run
proof (cases rule: ensure_cases)
  case (live fid')
  then show ?thesis using assms(2) by simp
next
  case (created chk folder partial)
  then show ?thesis by (auto simp: state_after_folder)
qed simp_all

text \<open>
  Claim C4. Each of the three operations that create a remote resource, when it returns
  after a \<^verbatim>\<open>files.create\<close> call, has called \<^verbatim>\<open>updateState\<close> with the id of the
  created resource as its last call, so that the snapshot holds the id when the operation
  returns: the folder id under \<^verbatim>\<open>imageFolderId\<close>, the file id in the entry of
  \<^verbatim>\<open>uploadedImages\<close> under the hash of the returned result.
\<close>

theorem creation_is_recorded:
  "(ensureImageFolder env w = (Inr fid, w') \<and> filter is_files_create (new_events w w') \<noteq> []
      \<longrightarrow> created_ids env (trace w) (new_events w w') = [fid]
          \<and> (\<exists>partial. last (new_events w w') = UpdateState partial
                \<and> gd_imageFolderId partial = Some fid)
          \<and> state_imageFolderId (persisted w') = Some fid)
   \<and> (uploadImage env p i x = (Inr r, x') \<and> filter is_files_create (new_events x x') \<noteq> []
      \<longrightarrow> created_ids env (trace x) (new_events x x') = [fileId (result r)]
          \<and> (\<exists>partial. last (new_events x x') = UpdateState partial
                \<and> gd_uploadedImages partial (hash (result r)) = Some (result r))
          \<and> map_option fileId (state_uploadedImage (persisted x') (hash (result r)))
              = Some (fileId (result r)))
   \<and> (uploadRemoteImage env u v = (Inr s, v') \<and> filter is_files_create (new_events v v') \<noteq> []
      \<longrightarrow> created_ids env (trace v) (new_events v v') = [fileId (result s)]
          \<and> (\<exists>partial. last (new_events v v') = UpdateState partial
                \<and> gd_uploadedImages partial (hash (result s)) = Some (result s))
          \<and> map_option fileId (state_uploadedImage (persisted v') (hash (result s)))
              = Some (fileId (result s)))"
proof (intro conjI; rule impI)
  assume "ensureImageFolder env w = (Inr fid, w') \<and> filter is_files_create (new_events w w') \<noteq> []"
  then show "created_ids env (trace w) (new_events w w') = [fid]
          \<and> (\<exists>partial. last (new_events w w') = UpdateState partial
                \<and> gd_imageFolderId partial = Some fid)
          \<and> state_imageFolderId (persisted w') = Some fid"
    using ensure_run_creates[of env w fid w'] by blast
next
  assume a: "uploadImage env p i x = (Inr r, x') \<and> filter is_files_create (new_events x x') \<noteq> []"
  then have run: "uploadImage env p i x = (Inr r, x')" by simp
  from run show "created_ids env (trace x) (new_events x x') = [fileId (result r)]
          \<and> (\<exists>partial. last (new_events x x') = UpdateState partial
                \<and> gd_uploadedImages partial (hash (result r)) = Some (result r))
          \<and> map_option fileId (state_uploadedImage (persisted x') (hash (result r)))
              = Some (fileId (result r))"
  proof (cases rule: uploadImage_cases)
    case (fresh h pre chk q f r' partial)
    then show ?thesis
      using local_run_creates[OF run] by (simp add: state_after_upload)
  qed (use a in \<open>simp_all add: backend_free_create\<close>)
next
  assume a: "uploadRemoteImage env u v = (Inr s, v') \<and> filter is_files_create (new_events v v') \<noteq> []"
  then have run: "uploadRemoteImage env u v = (Inr s, v')" by simp
  from run show "created_ids env (trace v) (new_events v v') = [fileId (result s)]
          \<and> (\<exists>partial. last (new_events v v') = UpdateState partial
                \<and> gd_uploadedImages partial (hash (result s)) = Some (result s))
          \<and> map_option fileId (state_uploadedImage (persisted v') (hash (result s)))
              = Some (fileId (result s))"
  proof (cases rule: uploadRemote_cases)
    case (fresh chk tp cv pp f r' cl partial)
    then show ?thesis
      using remote_run_creates[OF run] by (simp add: state_after_upload)
  qed (use a in \<open>simp_all add: new_events_def\<close>)
qed

theorem creation_is_recorded_witness:
  "(\<exists>fid. ensureImageFolder demo_env (demo_world\<lparr>persisted := None\<rparr>)
           = (Inr fid, snd (ensureImageFolder demo_env (demo_world\<lparr>persisted := None\<rparr>)))
        \<and> filter is_files_create
             (new_events (demo_world\<lparr>persisted := None\<rparr>)
                (snd (ensureImageFolder demo_env (demo_world\<lparr>persisted := None\<rparr>)))) \<noteq> []
        \<and> fid = ''id-of-docflu-files-1700000000000''
        \<and> state_imageFolderId
             (persisted (snd (ensureImageFolder demo_env (demo_world\<lparr>persisted := None\<rparr>))))
           = Some fid)
   \<and> (\<exists>r. uploadImage demo_env logo_path None demo_world
           = (Inr r, snd (uploadImage demo_env logo_path None demo_world))
        \<and> filter is_files_create
             (new_events demo_world (snd (uploadImage demo_env logo_path None demo_world))) \<noteq> []
        \<and> map_option fileId
             (state_uploadedImage
                (persisted (snd (uploadImage demo_env logo_path None demo_world)))
                (hash (result r)))
           = Some (fileId (result r)))
   \<and> (\<exists>s. uploadRemoteImage demo_env url_a demo_world
           = (Inr s, snd (uploadRemoteImage demo_env url_a demo_world))
        \<and> filter is_files_create
             (new_events demo_world (snd (uploadRemoteImage demo_env url_a demo_world))) \<noteq> []
        \<and> map_option fileId
             (state_uploadedImage
                (persisted (snd (uploadRemoteImage demo_env url_a demo_world)))
                (hash (result s)))
           = Some (fileId (result s)))"
proof -
  let ?w0 = "demo_world\<lparr>persisted := None\<rparr>"
  let ?ens = "ensureImageFolder demo_env ?w0"
  let ?run = "uploadImage demo_env logo_path None demo_world"
  let ?rem = "uploadRemoteImage demo_env url_a demo_world"
  have "fst ?ens = Inr ''id-of-docflu-files-1700000000000''"
    by (simp add: eval_defs)
  then have e: "?ens = (Inr ''id-of-docflu-files-1700000000000'', snd ?ens)"
    by (metis prod.collapse)
  have e': "filter is_files_create (new_events ?w0 (snd ?ens)) \<noteq> []"
    by (simp add: eval_defs)
  have "\<exists>r. fst ?run = Inr r"
    by (simp add: eval_defs)
  then obtain r where r: "?run = (Inr r, snd ?run)"
    by (metis prod.collapse)
  have r': "filter is_files_create (new_events demo_world (snd ?run)) \<noteq> []"
    by (simp add: eval_defs)
  have "\<exists>s. fst ?rem = Inr s"
    by (simp add: eval_defs)
  then obtain s where s: "?rem = (Inr s, snd ?rem)"
    by (metis prod.collapse)
  have s': "filter is_files_create (new_events demo_world (snd ?rem)) \<noteq> []"
    by (simp add: eval_defs)
  note folder = creation_is_recorded[THEN conjunct1, THEN mp, OF conjI[OF e e']]
  note local = creation_is_recorded[THEN conjunct2, THEN conjunct1, THEN mp, OF conjI[OF r r']]
  note remote = creation_is_recorded[THEN conjunct2, THEN conjunct2, THEN mp, OF conjI[OF s s']]
  have "?ens = (Inr ''id-of-docflu-files-1700000000000'', snd ?ens)
        \<and> filter is_files_create (new_events ?w0 (snd ?ens)) \<noteq> []
        \<and> ''id-of-docflu-files-1700000000000'' = ''id-of-docflu-files-1700000000000''
        \<and> state_imageFolderId (persisted (snd ?ens)) = Some ''id-of-docflu-files-1700000000000''"
    using e e' folder by blast
  moreover have "?run = (Inr r, snd ?run)
        \<and> filter is_files_create (new_events demo_world (snd ?run)) \<noteq> []
        \<and> map_option fileId (state_uploadedImage (persisted (snd ?run)) (hash (result r)))
           = Some (fileId (result r))"
    using r r' local by blast
  moreover have "?rem = (Inr s, snd ?rem)
        \<and> filter is_files_create (new_events demo_world (snd ?rem)) \<noteq> []
        \<and> map_option fileId (state_uploadedImage (persisted (snd ?rem)) (hash (result s)))
           = Some (fileId (result s))"
    using s s' remote by blast
  ultimately show ?thesis by blast
qed

subsection \<open>The media folder\<close>

lemma ensure_attempts_create:
  assumes run: "ensureImageFolder env w = (res, w')"
  shows "filter is_files_create (new_events w w') \<noteq> []
     \<longleftrightarrow> \<not> (\<exists>fid. state_imageFolderId (persisted w) = Some fid \<and> fid \<noteq> []
              \<and> files_get env (trace w @ [LoadState]) fid = Inr False)"
  using run by (cases rule: ensure_cases) auto

text \<open>
  Claim C6. When the persistent state records a folder id (a non-empty string, as
  \<^verbatim>\<open>if (this.imageFolderId)\<close> tests it) and \<^verbatim>\<open>files.get\<close> reports the folder as not
  trashed, \<open>ensureImageFolder\<close> loads the state, makes that one check and returns the
  recorded id; it creates nothing and writes no state. It makes a \<^verbatim>\<open>files.create\<close> call
  exactly when there is no such live recorded folder (none recorded, or the recorded one is
  trashed or cannot be fetched), and when it then returns, the id it returns is the id of
  the folder the Drive created, recorded in the state and in the client.
\<close>

theorem ensure_image_folder:
  "(state_imageFolderId (persisted w) = Some fid \<and> fid \<noteq> []
      \<and> files_get env (trace w @ [LoadState]) fid = Inr False
      \<longrightarrow> ensureImageFolder env w
            = (Inr fid, w\<lparr>trace := trace w @ [LoadState, FilesGet fid], imageFolderId := Some fid\<rparr>))
   \<and> (ensureImageFolder env x = (res, x')
      \<longrightarrow> (filter is_files_create (new_events x x') \<noteq> []
            \<longleftrightarrow> \<not> (\<exists>fid. state_imageFolderId (persisted x) = Some fid \<and> fid \<noteq> []
                     \<and> files_get env (trace x @ [LoadState]) fid = Inr False)))
   \<and> (ensureImageFolder env y = (Inr new, y') \<and> filter is_files_create (new_events y y') \<noteq> []
      \<longrightarrow> created_ids env (trace y) (new_events y y') = [new]
          \<and> state_imageFolderId (persisted y') = Some new \<and> imageFolderId y' = Some new)"
proof (intro conjI; rule impI)
  assume "state_imageFolderId (persisted w) = Some fid \<and> fid \<noteq> []
      \<and> files_get env (trace w @ [LoadState]) fid = Inr False"
  then show "ensureImageFolder env w
            = (Inr fid, w\<lparr>trace := trace w @ [LoadState, FilesGet fid], imageFolderId := Some fid\<rparr>)"
    using ensure_live by blast
next
  assume "ensureImageFolder env x = (res, x')"
  then show "filter is_files_create (new_events x x') \<noteq> []
            \<longleftrightarrow> \<not> (\<exists>fid. state_imageFolderId (persisted x) = Some fid \<and> fid \<noteq> []
                     \<and> files_get env (trace x @ [LoadState]) fid = Inr False)"
    by (rule ensure_attempts_create)
next
  assume "ensureImageFolder env y = (Inr new, y') \<and> filter is_files_create (new_events y y') \<noteq> []"
  then show "created_ids env (trace y) (new_events y y') = [new]
          \<and> state_imageFolderId (persisted y') = Some new \<and> imageFolderId y' = Some new"
    using ensure_run_creates[of env y new y'] by blast
qed

theorem ensure_image_folder_witness:
  "state_imageFolderId (persisted demo_world) = Some ''folder-1''
   \<and> files_get demo_env (trace demo_world @ [LoadState]) ''folder-1'' = Inr False
   \<and> ensureImageFolder demo_env demo_world
       = (Inr ''folder-1'',
          demo_world\<lparr>trace := trace demo_world @ [LoadState, FilesGet ''folder-1''],
                      imageFolderId := Some ''folder-1''\<rparr>)
   \<and> filter is_files_create
        (new_events demo_world (snd (ensureImageFolder demo_env demo_world))) = []
   \<and> state_imageFolderId (persisted (demo_world\<lparr>persisted := Some (demo_state\<lparr>gd_imageFolderId := Some ''trashed-id''\<rparr>)\<rparr>))
       = Some ''trashed-id''
   \<and> fst (ensureImageFolder demo_env
             (demo_world\<lparr>persisted := Some (demo_state\<lparr>gd_imageFolderId := Some ''trashed-id''\<rparr>)\<rparr>))
       = Inr ''id-of-docflu-files-1700000000000''
   \<and> state_imageFolderId
        (persisted (snd (ensureImageFolder demo_env
             (demo_world\<lparr>persisted := Some (demo_state\<lparr>gd_imageFolderId := Some ''trashed-id''\<rparr>)\<rparr>))))
       = Some ''id-of-docflu-files-1700000000000''"
proof -
  let ?wt = "demo_world\<lparr>persisted := Some (demo_state\<lparr>gd_imageFolderId := Some ''trashed-id''\<rparr>)\<rparr>"
  let ?ens = "ensureImageFolder demo_env ?wt"
  have h1: "state_imageFolderId (persisted demo_world) = Some ''folder-1'' \<and> ''folder-1'' \<noteq> []
      \<and> files_get demo_env (trace demo_world @ [LoadState]) ''folder-1'' = Inr False"
    by (simp add: eval_defs)
  note live = ensure_image_folder[THEN conjunct1, THEN mp, OF h1]
  have r1: "ensureImageFolder demo_env demo_world
      = (fst (ensureImageFolder demo_env demo_world), snd (ensureImageFolder demo_env demo_world))"
    by simp
  note iff = ensure_image_folder[THEN conjunct2, THEN conjunct1, THEN mp, OF r1]
  have none: "filter is_files_create
        (new_events demo_world (snd (ensureImageFolder demo_env demo_world))) = []"
    using iff h1 by blast
  have f: "fst ?ens = Inr ''id-of-docflu-files-1700000000000''"
    by (simp add: eval_defs)
  then have e: "?ens = (Inr ''id-of-docflu-files-1700000000000'', snd ?ens)"
    by (metis prod.collapse)
  have e': "filter is_files_create (new_events ?wt (snd ?ens)) \<noteq> []"
    by (simp add: eval_defs)
  note new = ensure_image_folder[THEN conjunct2, THEN conjunct2, THEN mp, OF conjI[OF e e']]
  have t: "state_imageFolderId (persisted ?wt) = Some ''trashed-id''"
    by (simp add: eval_defs)
  from h1 live none t f new show ?thesis by simp
qed

subsection \<open>Conversion never aborts an upload\<close>

lemma local_not_create: "filter is_backend_call xs = [] \<Longrightarrow> FilesCreate rq \<notin> set xs"
  by (auto simp: filter_empty_conv)

lemma check_not_create:
  "chk = [] \<or> (\<exists>fid. chk = [FilesGet fid]) \<Longrightarrow> FilesCreate rq \<notin> set chk"
  by auto

lemma media_local_request: "rq_media (local_request h q folder) = Some (getMimeType q, q)"
  by (simp add: local_request_def file_request_def)

lemma upload_uses_converted:
  assumes run: "uploadImage env p i x = (res, x')"
    and rq: "FilesCreate rq \<in> set (new_events x x')"
  shows "\<exists>q. fst (convertImageForGoogleDocs env p None x) = Inr q
            \<and> rq_media rq = Some (getMimeType q, q)"
  using run
proof (cases rule: uploadImage_cases)
  case (no_key e pre)
  then show ?thesis using rq local_not_create[of pre rq] by simp
next
  case (hit h c pre)
  then show ?thesis using rq local_not_create[of pre rq] by simp
next
  case (adopted h u pre)
  then show ?thesis using rq local_not_create[of pre rq] by simp
next
  case (create_error h e pre chk q)
  have "FilesCreate rq \<notin> set chk" using create_error(3) by (intro check_not_create) blast
  then have "rq = local_request h q (imageFolderId x)"
    using rq local_not_create[of pre rq] create_error(7,8) by simp
  then show ?thesis using create_error(4) media_local_request by blast
next
  case (permission_error h e pre chk q f)
  have "FilesCreate rq \<notin> set chk" using permission_error(3) by (intro check_not_create) blast
  then have "rq = local_request h q (imageFolderId x)"
    using rq local_not_create[of pre rq] permission_error(8,9) by simp
  then show ?thesis using permission_error(4) media_local_request by blast
next
  case (fresh h pre chk q f r partial)
  have "FilesCreate rq \<notin> set chk" using fresh(3) by (intro check_not_create) blast
  then have "rq = local_request h q (imageFolderId x)"
    using rq local_not_create[of pre rq] fresh(12,13) by simp
  then show ?thesis using fresh(4) media_local_request by blast
qed

lemma local_fresh_reaches_create:
  assumes run: "uploadImage env p i x = (res, x')"
    and key: "upload_key env p i x = Some h"
    and miss: "uploadedImages x h = None"
    and norec: "state_uploadedImage (persisted x) h = None"
  shows "(\<exists>q. fst (convertImageForGoogleDocs env p None x) = Inr q
            \<and> filter is_files_create (new_events x x')
                = [FilesCreate (local_request h q (imageFolderId x))])
      \<and> (\<forall>e. res = Inl e \<longrightarrow> (\<exists>tr rq. files_create env tr rq = Inl e)
                                \<or> (\<exists>tr fid. permissions_create env tr fid = Some e))"
  using run
proof (cases rule: uploadImage_cases)
  case (no_key e pre)
  then show ?thesis using key by simp
next
  case (hit h' c pre)
  then show ?thesis using key miss by simp
next
  case (adopted h' u pre)
  then show ?thesis using key norec by simp
next
  case (create_error h' e pre chk q)
  have h: "h' = h" using create_error(1) key by simp
  have chk: "chk = []" using create_error(3) norec unfolding h by auto
  have "filter is_files_create (new_events x x') = [FilesCreate (local_request h q (imageFolderId x))]"
    using create_error(7,8) unfolding h chk by (simp add: backend_free_create)
  moreover have "\<exists>tr rq. files_create env tr rq = Inl e" using create_error(5) by blast
  ultimately show ?thesis using create_error(4,6) by blast
next
  case (permission_error h' e pre chk q f)
  have h: "h' = h" using permission_error(1) key by simp
  have chk: "chk = []" using permission_error(3) norec unfolding h by auto
  have "filter is_files_create (new_events x x') = [FilesCreate (local_request h q (imageFolderId x))]"
    using permission_error(8,9) unfolding h chk by (simp add: backend_free_create)
  moreover have "\<exists>tr fid. permissions_create env tr fid = Some e" using permission_error(6) by blast
  ultimately show ?thesis using permission_error(4,7) by blast
next
  case (fresh h' pre chk q f r partial)
  have h: "h' = h" using fresh(1) key by simp
  have chk: "chk = []" using fresh(3) norec unfolding h by auto
  have "filter is_files_create (new_events x x') = [FilesCreate (local_request h q (imageFolderId x))]"
    using fresh(12,13) unfolding h chk by (simp add: backend_free_create)
  then show ?thesis using fresh(4,6) by blast
qed

lemma media_remote_request: "rq_media (remote_request h q folder) = Some (getMimeType q, q)"
  by (simp add: remote_request_def file_request_def)

lemma remote_fresh_reaches_create:
  assumes run: "uploadRemoteImage env u v = (out, v')"
    and miss: "uploadedImages v (sha256 env u) = None"
    and norec: "state_uploadedImage (persisted v) (sha256 env u) = None"
    and dir: "fs_error env (trace v @ [LoadState]) (EnsureDir (temp_dir (projectRoot v))) = None"
    and get: "http_get env (trace v @ [LoadState, EnsureDir (temp_dir (projectRoot v))]) u
                = Inr response"
    and wr: "\<forall>tp. fs_error env
                (trace v @ [LoadState, EnsureDir (temp_dir (projectRoot v)), AxiosGet u])
                (WriteFile tp) = None"
    and url: "url_pathname env u \<noteq> None"
  shows "(\<exists>tp pp. tp = temp_file_path (projectRoot v) (sha256 env u)
                       (getExtensionFromMimeType (content_type response))
            \<and> written (new_events v v') = [tp]
            \<and> (pp = tp \<or> pp = png_path (projectRoot v) tp)
            \<and> (\<not> sharp_installed env \<or> (\<forall>tr src. \<exists>e. sharp_png env tr src = Inl e)
                 \<longrightarrow> pp = tp)
            \<and> filter is_files_create (new_events v v')
                = [FilesCreate (remote_request (sha256 env u) pp (imageFolderId v))]
            \<and> rq_media (remote_request (sha256 env u) pp (imageFolderId v))
                = Some (getMimeType pp, pp))
      \<and> (\<forall>e. out = Inl e \<longrightarrow> (\<exists>tr rq. files_create env tr rq = Inl e)
                                \<or> (\<exists>tr fid. permissions_create env tr fid = Some e))"
  using run
proof (cases rule: uploadRemote_cases)
  case (hit c)
  then show ?thesis using miss by simp
next
  case (adopted r)
  then show ?thesis using norec by simp
next
  case (download_error e chk mid)
  have chk: "chk = []" using download_error(2) norec by auto
  have False using download_error(3) dir get wr url unfolding chk by auto
  then show ?thesis ..
next
  case (create_error e chk tp cv pp)
  have chk: "chk = []" using create_error(2) norec by auto
  have tp: "tp = temp_file_path (projectRoot v) (sha256 env u)
                   (getExtensionFromMimeType (content_type response))"
    using create_error(13) get unfolding chk by auto
  have "written (new_events v v') = [tp]"
    using create_error(5,7) unfolding chk by simp
  moreover have "filter is_files_create (new_events v v')
                = [FilesCreate (remote_request (sha256 env u) pp (imageFolderId v))]"
    using create_error(5,6) unfolding chk by (simp add: backend_free_create)
  moreover have "\<exists>tr rq. files_create env tr rq = Inl e" using create_error(3) by blast
  ultimately show ?thesis using create_error(4,11,12) tp media_remote_request by blast
next
  case (permission_error e chk tp cv pp f)
  have chk: "chk = []" using permission_error(2) norec by auto
  have tp: "tp = temp_file_path (projectRoot v) (sha256 env u)
                   (getExtensionFromMimeType (content_type response))"
    using permission_error(14) get unfolding chk by auto
  have "written (new_events v v') = [tp]"
    using permission_error(6,8) unfolding chk by simp
  moreover have "filter is_files_create (new_events v v')
                = [FilesCreate (remote_request (sha256 env u) pp (imageFolderId v))]"
    using permission_error(6,7) unfolding chk by (simp add: backend_free_create)
  moreover have "\<exists>tr fid. permissions_create env tr fid = Some e"
    using permission_error(4) by blast
  ultimately show ?thesis using permission_error(5,12,13) tp media_remote_request by blast
next
  case (fresh chk tp cv pp f r cl partial)
  have chk: "chk = []" using fresh(2) norec by auto
  have tp: "tp = temp_file_path (projectRoot v) (sha256 env u)
                   (getExtensionFromMimeType (content_type response))"
    using fresh(21) get unfolding chk by auto
  have "written (new_events v v') = [tp]"
    using fresh(10,12,14) unfolding chk by simp
  moreover have "filter is_files_create (new_events v v')
                = [FilesCreate (remote_request (sha256 env u) pp (imageFolderId v))]"
    using fresh(10,11,13) unfolding chk by (simp add: backend_free_create)
  ultimately show ?thesis using fresh(4,19,20) tp media_remote_request by blast
qed

text \<open>
  Claim C7. \<open>convertImageForGoogleDocs\<close> never throws: it returns the original path or the
  path of the PNG. For an SVG source it returns the original path after a warning when
  sharp cannot be loaded, when the temporary directory cannot be made, when sharp throws,
  and when no PNG file is there afterwards; whenever sharp is missing or always throws, the
  result is the original path. Both callers go on with the path the conversion returned.
  \<open>uploadImage\<close>: the file of every \<^verbatim>\<open>files.create\<close> call is that path; and when the
  key is known and neither cached nor recorded, the run makes exactly one
  \<^verbatim>\<open>files.create\<close> call, for that path, whatever the conversion did, and throws only an
  error of the Drive. \<open>uploadRemoteImage\<close>: when the URL is neither cached nor recorded
  and the download succeeds, the run writes the temporary file and makes exactly one
  \<^verbatim>\<open>files.create\<close> call, for the temporary file or its PNG (for the temporary file
  itself when sharp is missing or always throws), and throws only an error of the Drive.
\<close>

theorem conversion_falls_back:
  "(\<exists>q. fst (convertImageForGoogleDocs env p ct w) = Inr q
         \<and> (q = p \<or> q = png_path (projectRoot w) p))
   \<and> (is_svg p ct \<and> \<not> sharp_installed env
      \<longrightarrow> convertImageForGoogleDocs env p ct w
            = (Inr p, w\<lparr>trace := trace w @ [RequireSharp, Warn (sharp_missing_warning env)]\<rparr>))
   \<and> (is_svg p ct \<and> sharp_installed env
        \<and> fs_error env (trace w @ [RequireSharp]) (EnsureDir (temp_dir (projectRoot w))) = Some e
      \<longrightarrow> convertImageForGoogleDocs env p ct w
            = (Inr p, w\<lparr>trace := trace w @ [RequireSharp, EnsureDir (temp_dir (projectRoot w)),
                                             Warn (conversion_failed_warning env e)]\<rparr>))
   \<and> (is_svg p ct \<and> sharp_installed env
        \<and> fs_error env (trace w @ [RequireSharp]) (EnsureDir (temp_dir (projectRoot w))) = None
        \<and> sharp_png env (trace w @ [RequireSharp, EnsureDir (temp_dir (projectRoot w))]) p = Inl e
      \<longrightarrow> convertImageForGoogleDocs env p ct w
            = (Inr p, w\<lparr>trace := trace w @ [RequireSharp, EnsureDir (temp_dir (projectRoot w)),
                                             SharpToFile p (png_path (projectRoot w) p),
                                             Warn (conversion_failed_warning env e)]\<rparr>))
   \<and> (is_svg p ct \<and> sharp_installed env
        \<and> fs_error env (trace w @ [RequireSharp]) (EnsureDir (temp_dir (projectRoot w))) = None
        \<and> sharp_png env (trace w @ [RequireSharp, EnsureDir (temp_dir (projectRoot w))]) p = Inr None
        \<and> disk w (png_path (projectRoot w) p) = None
      \<longrightarrow> convertImageForGoogleDocs env p ct w
            = (Inr p, w\<lparr>trace := trace w @ [RequireSharp, EnsureDir (temp_dir (projectRoot w)),
                                             SharpToFile p (png_path (projectRoot w) p),
                                             PathExists (png_path (projectRoot w) p),
                                             Warn (conversion_failed_warning env
                                                     (Error ''PNG conversion failed''))]\<rparr>))
   \<and> (uploadImage env p i x = (res, x') \<and> FilesCreate rq \<in> set (new_events x x')
      \<longrightarrow> (\<exists>q. fst (convertImageForGoogleDocs env p None x) = Inr q
                \<and> rq_media rq = Some (getMimeType q, q)))
   \<and> (\<not> sharp_installed env \<or> (\<forall>tr src. \<exists>e. sharp_png env tr src = Inl e)
      \<longrightarrow> fst (convertImageForGoogleDocs env p ct w) = Inr p)
   \<and> (uploadImage env p i x = (res, x') \<and> upload_key env p i x = Some h
        \<and> uploadedImages x h = None \<and> state_uploadedImage (persisted x) h = None
      \<longrightarrow> (\<exists>q. fst (convertImageForGoogleDocs env p None x) = Inr q
                \<and> filter is_files_create (new_events x x')
                    = [FilesCreate (local_request h q (imageFolderId x))])
          \<and> (\<forall>e. res = Inl e \<longrightarrow> (\<exists>tr rq. files_create env tr rq = Inl e)
                                    \<or> (\<exists>tr fid. permissions_create env tr fid = Some e)))
   \<and> (uploadRemoteImage env u v = (out, v')
        \<and> uploadedImages v (sha256 env u) = None
        \<and> state_uploadedImage (persisted v) (sha256 env u) = None
        \<and> fs_error env (trace v @ [LoadState]) (EnsureDir (temp_dir (projectRoot v))) = None
        \<and> http_get env (trace v @ [LoadState, EnsureDir (temp_dir (projectRoot v))]) u
            = Inr response
        \<and> (\<forall>tp. fs_error env
                   (trace v @ [LoadState, EnsureDir (temp_dir (projectRoot v)), AxiosGet u])
                   (WriteFile tp) = None)
        \<and> url_pathname env u \<noteq> None
      \<longrightarrow> (\<exists>tp pp. tp = temp_file_path (projectRoot v) (sha256 env u)
                           (getExtensionFromMimeType (content_type response))
                \<and> written (new_events v v') = [tp]
                \<and> (pp = tp \<or> pp = png_path (projectRoot v) tp)
                \<and> (\<not> sharp_installed env \<or> (\<forall>tr src. \<exists>e. sharp_png env tr src = Inl e)
                     \<longrightarrow> pp = tp)
                \<and> filter is_files_create (new_events v v')
                    = [FilesCreate (remote_request (sha256 env u) pp (imageFolderId v))]
                \<and> rq_media (remote_request (sha256 env u) pp (imageFolderId v))
                    = Some (getMimeType pp, pp))
          \<and> (\<forall>e. out = Inl e \<longrightarrow> (\<exists>tr rq. files_create env tr rq = Inl e)
                                    \<or> (\<exists>tr fid. permissions_create env tr fid = Some e)))"
proof (intro conjI; (rule impI)?)
  show "\<exists>q. fst (convertImageForGoogleDocs env p ct w) = Inr q
         \<and> (q = p \<or> q = png_path (projectRoot w) p)"
    using convert_result[of env p ct w] by blast
next
  assume "is_svg p ct \<and> \<not> sharp_installed env"
  then show "convertImageForGoogleDocs env p ct w
            = (Inr p, w\<lparr>trace := trace w @ [RequireSharp, Warn (sharp_missing_warning env)]\<rparr>)"
    by (simp add: convert_sharp_missing)
next
  assume "is_svg p ct \<and> sharp_installed env
        \<and> fs_error env (trace w @ [RequireSharp]) (EnsureDir (temp_dir (projectRoot w))) = Some e"
  then show "convertImageForGoogleDocs env p ct w
            = (Inr p, w\<lparr>trace := trace w @ [RequireSharp, EnsureDir (temp_dir (projectRoot w)),
                                             Warn (conversion_failed_warning env e)]\<rparr>)"
    by (simp add: convert_ensureDir_throws)
next
  assume "is_svg p ct \<and> sharp_installed env
        \<and> fs_error env (trace w @ [RequireSharp]) (EnsureDir (temp_dir (projectRoot w))) = None
        \<and> sharp_png env (trace w @ [RequireSharp, EnsureDir (temp_dir (projectRoot w))]) p = Inl e"
  then show "convertImageForGoogleDocs env p ct w
            = (Inr p, w\<lparr>trace := trace w @ [RequireSharp, EnsureDir (temp_dir (projectRoot w)),
                                             SharpToFile p (png_path (projectRoot w) p),
                                             Warn (conversion_failed_warning env e)]\<rparr>)"
    by (simp add: convert_sharp_throws)
next
  assume "is_svg p ct \<and> sharp_installed env
        \<and> fs_error env (trace w @ [RequireSharp]) (EnsureDir (temp_dir (projectRoot w))) = None
        \<and> sharp_png env (trace w @ [RequireSharp, EnsureDir (temp_dir (projectRoot w))]) p = Inr None
        \<and> disk w (png_path (projectRoot w) p) = None"
  then show "convertImageForGoogleDocs env p ct w
            = (Inr p, w\<lparr>trace := trace w @ [RequireSharp, EnsureDir (temp_dir (projectRoot w)),
                                             SharpToFile p (png_path (projectRoot w) p),
                                             PathExists (png_path (projectRoot w) p),
                                             Warn (conversion_failed_warning env
                                                     (Error ''PNG conversion failed''))]\<rparr>)"
    by (simp add: convert_no_file)
next
  assume "uploadImage env p i x = (res, x') \<and> FilesCreate rq \<in> set (new_events x x')"
  then show "\<exists>q. fst (convertImageForGoogleDocs env p None x) = Inr q
                \<and> rq_media rq = Some (getMimeType q, q)"
    using upload_uses_converted[of env p i x res x' rq] by blast
next
  assume "\<not> sharp_installed env \<or> (\<forall>tr src. \<exists>e. sharp_png env tr src = Inl e)"
  then show "fst (convertImageForGoogleDocs env p ct w) = Inr p"
    by (rule convert_unavailable)
next
  assume a: "uploadImage env p i x = (res, x') \<and> upload_key env p i x = Some h
        \<and> uploadedImages x h = None \<and> state_uploadedImage (persisted x) h = None"
  show "(\<exists>q. fst (convertImageForGoogleDocs env p None x) = Inr q
                \<and> filter is_files_create (new_events x x')
                    = [FilesCreate (local_request h q (imageFolderId x))])
          \<and> (\<forall>e. res = Inl e \<longrightarrow> (\<exists>tr rq. files_create env tr rq = Inl e)
                                    \<or> (\<exists>tr fid. permissions_create env tr fid = Some e))"
    by (rule local_fresh_reaches_create[where i=i]) (use a in simp_all)
next
  assume a: "uploadRemoteImage env u v = (out, v')
        \<and> uploadedImages v (sha256 env u) = None
        \<and> state_uploadedImage (persisted v) (sha256 env u) = None
        \<and> fs_error env (trace v @ [LoadState]) (EnsureDir (temp_dir (projectRoot v))) = None
        \<and> http_get env (trace v @ [LoadState, EnsureDir (temp_dir (projectRoot v))]) u
            = Inr response
        \<and> (\<forall>tp. fs_error env
                   (trace v @ [LoadState, EnsureDir (temp_dir (projectRoot v)), AxiosGet u])
                   (WriteFile tp) = None)
        \<and> url_pathname env u \<noteq> None"
  show "(\<exists>tp pp. tp = temp_file_path (projectRoot v) (sha256 env u)
                           (getExtensionFromMimeType (content_type response))
                \<and> written (new_events v v') = [tp]
                \<and> (pp = tp \<or> pp = png_path (projectRoot v) tp)
                \<and> (\<not> sharp_installed env \<or> (\<forall>tr src. \<exists>e. sharp_png env tr src = Inl e)
                     \<longrightarrow> pp = tp)
                \<and> filter is_files_create (new_events v v')
                    = [FilesCreate (remote_request (sha256 env u) pp (imageFolderId v))]
                \<and> rq_media (remote_request (sha256 env u) pp (imageFolderId v))
                    = Some (getMimeType pp, pp))
          \<and> (\<forall>e. out = Inl e \<longrightarrow> (\<exists>tr rq. files_create env tr rq = Inl e)
                                    \<or> (\<exists>tr fid. permissions_create env tr fid = Some e))"
    by (rule remote_fresh_reaches_create) (use a in simp_all)
qed

lemma svg_path_is_svg: "is_svg svg_path ct"
  by (simp add: is_svg_def svg_path_def extname_def last_component_def toLowerCase_def
      lower_char_fixed)

theorem conversion_falls_back_witness:
  "is_svg svg_path None \<and> \<not> sharp_installed demo_env
   \<and> convertImageForGoogleDocs demo_env svg_path None demo_world
       = (Inr svg_path,
          demo_world\<lparr>trace := trace demo_world @ [RequireSharp, Warn (sharp_missing_warning demo_env)]\<rparr>)
   \<and> convertImageForGoogleDocs no_dir_env svg_path None demo_world
       = (Inr svg_path,
          demo_world\<lparr>trace := trace demo_world
             @ [RequireSharp, EnsureDir (temp_dir (projectRoot demo_world)),
                Warn (conversion_failed_warning no_dir_env (Error ''EACCES: permission denied''))]\<rparr>)
   \<and> convertImageForGoogleDocs bad_svg_env svg_path None demo_world
       = (Inr svg_path,
          demo_world\<lparr>trace := trace demo_world
             @ [RequireSharp, EnsureDir (temp_dir (projectRoot demo_world)),
                SharpToFile svg_path (png_path (projectRoot demo_world) svg_path),
                Warn (conversion_failed_warning bad_svg_env (Error ''Input file is missing''))]\<rparr>)
   \<and> convertImageForGoogleDocs no_output_env svg_path None demo_world
       = (Inr svg_path,
          demo_world\<lparr>trace := trace demo_world
             @ [RequireSharp, EnsureDir (temp_dir (projectRoot demo_world)),
                SharpToFile svg_path (png_path (projectRoot demo_world) svg_path),
                PathExists (png_path (projectRoot demo_world) svg_path),
                Warn (conversion_failed_warning no_output_env (Error ''PNG conversion failed''))]\<rparr>)
   \<and> FilesCreate (local_request ''abc12345'' svg_path (Some ''folder-1''))
        \<in> set (new_events demo_world
                  (snd (uploadImage demo_env svg_path (Some ''abc12345'') demo_world)))
   \<and> (\<exists>q. fst (convertImageForGoogleDocs demo_env svg_path None demo_world) = Inr q
          \<and> rq_media (local_request ''abc12345'' svg_path (Some ''folder-1''))
              = Some (getMimeType q, q))
   \<and> fst (convertImageForGoogleDocs bad_svg_env svg_path (Some ''image/svg+xml'') demo_world)
       = Inr svg_path
   \<and> upload_key demo_env svg_path (Some ''abc12345'') demo_world = Some ''abc12345''
   \<and> uploadedImages demo_world ''abc12345'' = None
   \<and> state_uploadedImage (persisted demo_world) ''abc12345'' = None
   \<and> filter is_files_create
        (new_events demo_world
           (snd (uploadImage demo_env svg_path (Some ''abc12345'') demo_world)))
       = [FilesCreate (local_request ''abc12345'' svg_path (Some ''folder-1''))]
   \<and> uploadedImages demo_world (sha256 svg_env url_a) = None
   \<and> state_uploadedImage (persisted demo_world) (sha256 svg_env url_a) = None
   \<and> url_pathname svg_env url_a \<noteq> None
   \<and> written (new_events demo_world (snd (uploadRemoteImage svg_env url_a demo_world)))
       = [''/site/.docusaurus/temp/remote-8c399fff.svg'']
   \<and> filter is_files_create
        (new_events demo_world (snd (uploadRemoteImage svg_env url_a demo_world)))
       = [FilesCreate (remote_request digest_a ''/site/.docusaurus/temp/remote-8c399fff.svg''
                         (Some ''folder-1''))]
   \<and> Warn (sharp_missing_warning svg_env)
        \<in> set (new_events demo_world (snd (uploadRemoteImage svg_env url_a demo_world)))"
proof -
  let ?run = "uploadImage demo_env svg_path (Some ''abc12345'') demo_world"
  let ?rem = "uploadRemoteImage svg_env url_a demo_world"
  let ?svg = "\<lparr>content_type = Some ''image/svg+xml'', body = ''<svg/>''\<rparr>"
  have h2: "is_svg svg_path None \<and> \<not> sharp_installed demo_env"
    by (simp add: svg_path_is_svg demo_env_def)
  have h3: "is_svg svg_path None \<and> sharp_installed no_dir_env
        \<and> fs_error no_dir_env (trace demo_world @ [RequireSharp])
             (EnsureDir (temp_dir (projectRoot demo_world)))
            = Some (Error ''EACCES: permission denied'')"
    by (simp add: svg_path_is_svg no_dir_env_def demo_env_def)
  have h4: "is_svg svg_path None \<and> sharp_installed bad_svg_env
        \<and> fs_error bad_svg_env (trace demo_world @ [RequireSharp])
             (EnsureDir (temp_dir (projectRoot demo_world))) = None
        \<and> sharp_png bad_svg_env
             (trace demo_world @ [RequireSharp, EnsureDir (temp_dir (projectRoot demo_world))])
             svg_path = Inl (Error ''Input file is missing'')"
    by (simp add: svg_path_is_svg bad_svg_env_def demo_env_def)
  have d: "disk demo_world (png_path (projectRoot demo_world) svg_path) = None"
    by (simp add: demo_world_def svg_path_def logo_path_def demo_png_path)
  have h5: "is_svg svg_path None \<and> sharp_installed no_output_env
        \<and> fs_error no_output_env (trace demo_world @ [RequireSharp])
             (EnsureDir (temp_dir (projectRoot demo_world))) = None
        \<and> sharp_png no_output_env
             (trace demo_world @ [RequireSharp, EnsureDir (temp_dir (projectRoot demo_world))])
             svg_path = Inr None
        \<and> disk demo_world (png_path (projectRoot demo_world) svg_path) = None"
    by (simp add: svg_path_is_svg no_output_env_def demo_env_def d)
  have ev: "FilesCreate (local_request ''abc12345'' svg_path (Some ''folder-1''))
        \<in> set (new_events demo_world (snd ?run))"
    by (simp add: eval_defs local_request_def)
  have h6: "?run = (fst ?run, snd ?run)
        \<and> FilesCreate (local_request ''abc12345'' svg_path (Some ''folder-1''))
             \<in> set (new_events demo_world (snd ?run))"
    using ev by simp
  have h7: "\<not> sharp_installed bad_svg_env
        \<or> (\<forall>tr src. \<exists>e. sharp_png bad_svg_env tr src = Inl e)"
    by (simp add: bad_svg_env_def demo_env_def)
  have k: "upload_key demo_env svg_path (Some ''abc12345'') demo_world = Some ''abc12345''"
    by (simp add: eval_defs)
  have m: "uploadedImages demo_world ''abc12345'' = None"
    "state_uploadedImage (persisted demo_world) ''abc12345'' = None"
    by (simp_all add: demo_world_def demo_state_def state_uploadedImage_def)
  have h8: "?run = (fst ?run, snd ?run)
        \<and> upload_key demo_env svg_path (Some ''abc12345'') demo_world = Some ''abc12345''
        \<and> uploadedImages demo_world ''abc12345'' = None
        \<and> state_uploadedImage (persisted demo_world) ''abc12345'' = None"
    using k m by simp
  have key: "sha256 svg_env url_a = digest_a"
    by (simp add: svg_env_def demo_env_def demo_sha256_def)
  have n: "uploadedImages demo_world (sha256 svg_env url_a) = None"
    "state_uploadedImage (persisted demo_world) (sha256 svg_env url_a) = None"
    "url_pathname svg_env url_a \<noteq> None"
    by (simp_all add: demo_world_def demo_state_def state_uploadedImage_def svg_env_def
        demo_env_def)
  have h9: "?rem = (fst ?rem, snd ?rem)
        \<and> uploadedImages demo_world (sha256 svg_env url_a) = None
        \<and> state_uploadedImage (persisted demo_world) (sha256 svg_env url_a) = None
        \<and> fs_error svg_env (trace demo_world @ [LoadState])
             (EnsureDir (temp_dir (projectRoot demo_world))) = None
        \<and> http_get svg_env
             (trace demo_world @ [LoadState, EnsureDir (temp_dir (projectRoot demo_world))]) url_a
            = Inr ?svg
        \<and> (\<forall>tp. fs_error svg_env
                   (trace demo_world
                      @ [LoadState, EnsureDir (temp_dir (projectRoot demo_world)), AxiosGet url_a])
                   (WriteFile tp) = None)
        \<and> url_pathname svg_env url_a \<noteq> None"
    using n by (simp add: svg_env_def demo_env_def)
  note c2 = conversion_falls_back[THEN conjunct2, THEN conjunct1, THEN mp, OF h2]
  note c3 = conversion_falls_back[THEN conjunct2, THEN conjunct2, THEN conjunct1, THEN mp, OF h3]
  note c4 = conversion_falls_back[THEN conjunct2, THEN conjunct2, THEN conjunct2, THEN conjunct1,
      THEN mp, OF h4]
  note c5 = conversion_falls_back[THEN conjunct2, THEN conjunct2, THEN conjunct2, THEN conjunct2,
      THEN conjunct1, THEN mp, OF h5]
  note c6 = conversion_falls_back[THEN conjunct2, THEN conjunct2, THEN conjunct2, THEN conjunct2,
      THEN conjunct2, THEN conjunct1, THEN mp, OF h6]
  note c7 = conversion_falls_back[THEN conjunct2, THEN conjunct2, THEN conjunct2, THEN conjunct2,
      THEN conjunct2, THEN conjunct2, THEN conjunct1, THEN mp, OF h7,
      of svg_path "Some ''image/svg+xml''" demo_world]
  note c8 = conversion_falls_back[THEN conjunct2, THEN conjunct2, THEN conjunct2, THEN conjunct2,
      THEN conjunct2, THEN conjunct2, THEN conjunct2, THEN conjunct1, THEN mp, OF h8]
  note c9 = conversion_falls_back[THEN conjunct2, THEN conjunct2, THEN conjunct2, THEN conjunct2,
      THEN conjunct2, THEN conjunct2, THEN conjunct2, THEN conjunct2, THEN mp, OF h9]
  have l: "filter is_files_create (new_events demo_world (snd ?run))
       = [FilesCreate (local_request ''abc12345'' svg_path (Some ''folder-1''))]"
    using c8 c2 by (simp add: demo_world_def)
  have tp: "temp_file_path (projectRoot demo_world) (sha256 svg_env url_a)
              (getExtensionFromMimeType (content_type ?svg))
            = ''/site/.docusaurus/temp/remote-8c399fff.svg''"
    unfolding key
    by (simp add: demo_world_def digest_a_def getExtensionFromMimeType_def js_get_def
        extensions_def truthy_def demo_temp_file_svg)
  have ns: "\<not> sharp_installed svg_env" by (simp add: svg_env_def demo_env_def)
  have folder: "imageFolderId demo_world = Some ''folder-1''" by (simp add: demo_world_def)
  from c9 obtain tq pq where
    o: "tq = temp_file_path (projectRoot demo_world) (sha256 svg_env url_a)
               (getExtensionFromMimeType (content_type ?svg))"
      "written (new_events demo_world (snd ?rem)) = [tq]"
      "\<not> sharp_installed svg_env \<or> (\<forall>tr src. \<exists>e. sharp_png svg_env tr src = Inl e)
         \<longrightarrow> pq = tq"
      "filter is_files_create (new_events demo_world (snd ?rem))
         = [FilesCreate (remote_request (sha256 svg_env url_a) pq (imageFolderId demo_world))]"
    by blast
  have tq: "tq = ''/site/.docusaurus/temp/remote-8c399fff.svg''" using o(1) tp by simp
  have pq: "pq = tq" using o(3) ns by blast
  have r: "written (new_events demo_world (snd ?rem))
             = [''/site/.docusaurus/temp/remote-8c399fff.svg'']
       \<and> filter is_files_create (new_events demo_world (snd ?rem))
           = [FilesCreate (remote_request digest_a ''/site/.docusaurus/temp/remote-8c399fff.svg''
                             (Some ''folder-1''))]"
    using o(2,4) unfolding pq tq key folder by simp
  have wn: "Warn (sharp_missing_warning svg_env) \<in> set (new_events demo_world (snd ?rem))"
    by (simp add: eval_defs svg_env_def demo_temp_file_svg)
  from h2 c2 c3 c4 c5 ev c6 c7 k m l n r wn show ?thesis by (intro conjI) simp_all
qed

subsection \<open>A recorded file that is gone\<close>

lemma files_get_answers_append:
  "files_get_answers env tr (xs @ ys)
     = files_get_answers env tr xs @ files_get_answers env (tr @ xs) ys"
  by (induction env tr xs rule: files_get_answers.induct) simp_all

lemma created_ids_append:
  "created_ids env tr (xs @ ys) = created_ids env tr xs @ created_ids env (tr @ xs) ys"
  by (induction env tr xs rule: created_ids.induct) simp_all

lemma local_stale_run:
  assumes key: "upload_key env p i w = Some h"
    and miss: "uploadedImages w h = None"
    and rec: "state_uploadedImage (persisted w) h = Some stale"
    and run: "uploadImage env p i w = (res, w')"
    and gone: "Inr False \<notin> set (files_get_answers env (trace w) (new_events w w'))"
  shows "FilesGet (fileId stale) \<in> set (new_events w w')
      \<and> filter is_files_create (new_events w w') \<noteq> []
      \<and> (\<forall>r. res = Inr r \<longrightarrow> \<not> cached r
            \<and> created_ids env (trace w) (new_events w w') = [fileId (result r)]
            \<and> map_option fileId (state_uploadedImage (persisted w') h) = Some (fileId (result r))
            \<and> uploadedImages w' h = Some (result r))
      \<and> (\<forall>e. res = Inl e \<longrightarrow> uploadedImages w' h = None \<and> persisted w' = persisted w)
      \<and> ((\<forall>tr rq. \<exists>f. files_create env tr rq = Inr f)
          \<and> (\<forall>tr fid. permissions_create env tr fid = None) \<longrightarrow> (\<exists>r. res = Inr r))"
  using run
proof (cases rule: uploadImage_cases)
  case (no_key e pre)
  then show ?thesis using key by simp
next
  case (hit h' c pre)
  then show ?thesis using key miss by simp
next
  case (adopted h' u pre)
  then have "files_get_answers env (trace w) (new_events w w') = [Inr False]"
    by (simp add: files_get_answers_local)
  then show ?thesis using gone by simp
next
  case (create_error h' e pre chk q)
  then have h: "h' = h" and chk: "chk = [FilesGet (fileId stale)]"
    using key rec by auto
  have "\<not> (\<forall>tr rq. \<exists>f. files_create env tr rq = Inr f)"
    using create_error(5) by (metis sum.distinct(1))
  then show ?thesis using create_error(6-) miss unfolding h chk
    by (auto simp: backend_free_create)
next
  case (permission_error h' e pre chk q f)
  then have h: "h' = h" and chk: "chk = [FilesGet (fileId stale)]"
    using key rec by auto
  have "\<not> (\<forall>tr fid. permissions_create env tr fid = None)"
    using permission_error(6) by (metis option.distinct(1))
  then show ?thesis using permission_error(7-) miss unfolding h chk
    by (auto simp: backend_free_create)
next
  case (fresh h' pre chk q f r partial)
  then have h: "h' = h" and chk: "chk = [FilesGet (fileId stale)]"
    using key rec by auto
  have "created_ids env (trace w) (new_events w w') = [fileId r]"
    using local_run_creates[of env p i w "\<lparr>result = r, cached = False\<rparr>" w'] run fresh(6)
    by simp
  then show ?thesis using fresh(5-) unfolding h chk
    by (simp add: backend_free_create state_after_upload)
qed

lemma remote_stale_run:
  assumes miss: "uploadedImages v (sha256 env u) = None"
    and rec: "state_uploadedImage (persisted v) (sha256 env u) = Some stale"
    and run: "uploadRemoteImage env u v = (res, v')"
    and gone: "Inr False \<notin> set (files_get_answers env (trace v) (new_events v v'))"
  shows "FilesGet (fileId stale) \<in> set (new_events v v')
      \<and> (\<forall>s. res = Inr s \<longrightarrow> \<not> cached s
            \<and> created_ids env (trace v) (new_events v v') = [fileId (result s)]
            \<and> map_option fileId (state_uploadedImage (persisted v') (sha256 env u))
                = Some (fileId (result s))
            \<and> uploadedImages v' (sha256 env u) = Some (result s))
      \<and> (\<forall>e. res = Inl e \<longrightarrow> uploadedImages v' (sha256 env u) = None
            \<and> persisted v' = persisted v)
      \<and> ((\<forall>tr ev. fs_error env tr ev = None) \<and> (\<forall>tr. \<exists>response. http_get env tr u = Inr response)
          \<and> url_pathname env u \<noteq> None
          \<and> (\<forall>tr rq. \<exists>f. files_create env tr rq = Inr f)
          \<and> (\<forall>tr fid. permissions_create env tr fid = None)
          \<longrightarrow> (\<exists>s. res = Inr s) \<and> filter is_files_create (new_events v v') \<noteq> [])"
  using run
proof (cases rule: uploadRemote_cases)
  case (hit c)
  then show ?thesis using miss by simp
next
  case (adopted r)
  then have "files_get_answers env (trace v) (new_events v v') = [Inr False]"
    by simp
  then show ?thesis using gone by simp
next
  case (download_error e chk mid)
  then have chk: "chk = [FilesGet (fileId stale)]"
    using rec by auto
  have "\<not> ((\<forall>tr ev. fs_error env tr ev = None) \<and> (\<forall>tr. \<exists>response. http_get env tr u = Inr response)
          \<and> url_pathname env u \<noteq> None)"
    using download_error(3) by (metis option.distinct(1) sum.distinct(1))
  then show ?thesis using download_error(4-) miss unfolding chk by auto
next
  case (create_error e chk tp cv pp)
  then have chk: "chk = [FilesGet (fileId stale)]"
    using rec by auto
  have "\<not> (\<forall>tr rq. \<exists>f. files_create env tr rq = Inr f)"
    using create_error(3) by (metis sum.distinct(1))
  then show ?thesis using create_error(4-) miss unfolding chk by auto
next
  case (permission_error e chk tp cv pp f)
  then have chk: "chk = [FilesGet (fileId stale)]"
    using rec by auto
  have "\<not> (\<forall>tr fid. permissions_create env tr fid = None)"
    using permission_error(4) by (metis option.distinct(1))
  then show ?thesis using permission_error(5-) miss unfolding chk by auto
next
  case (fresh chk tp cv pp f r cl partial)
  then have chk: "chk = [FilesGet (fileId stale)]"
    using rec by auto
  have "created_ids env (trace v) (new_events v v') = [fileId r]"
    using remote_run_creates[of env u v "\<lparr>result = r, cached = False\<rparr>" v'] run fresh(4)
    by simp
  then show ?thesis using fresh(4-) unfolding chk
    by (simp add: backend_free_create state_after_upload)
qed


text \<open>
  Claim C2. Take an upload whose key is not in the session cache and is recorded in the
  persistent state, and whose existence check does not report the recorded file as live
  (\<^verbatim>\<open>files.get\<close> reports it trashed, or throws). Then the recorded file was checked, and
  whenever the invocation returns, the result is not marked \<^verbatim>\<open>cached\<close>, its id is the id
  of the one file the Drive created in this invocation, and the state entry and the cache
  entry of the key hold that id. When the invocation throws instead, the stale entry has
  not been adopted into the cache. \<open>uploadImage\<close> always reaches its \<^verbatim>\<open>files.create\<close>
  call, and it returns when the Drive accepts the upload and the permission change;
  \<open>uploadRemoteImage\<close> returns, after a \<^verbatim>\<open>files.create\<close> call, when moreover the
  download, the file system and the URL parser do not fail.
\<close>

theorem stale_entry_is_replaced:
  "(upload_key env p i w = Some h \<and> uploadedImages w h = None
      \<and> state_uploadedImage (persisted w) h = Some stale
      \<and> uploadImage env p i w = (res, w')
      \<and> Inr False \<notin> set (files_get_answers env (trace w) (new_events w w'))
    \<longrightarrow> FilesGet (fileId stale) \<in> set (new_events w w')
      \<and> filter is_files_create (new_events w w') \<noteq> []
      \<and> (\<forall>r. res = Inr r \<longrightarrow> \<not> cached r
            \<and> created_ids env (trace w) (new_events w w') = [fileId (result r)]
            \<and> map_option fileId (state_uploadedImage (persisted w') h) = Some (fileId (result r))
            \<and> uploadedImages w' h = Some (result r))
      \<and> (\<forall>e. res = Inl e \<longrightarrow> uploadedImages w' h = None \<and> persisted w' = persisted w)
      \<and> ((\<forall>tr rq. \<exists>f. files_create env tr rq = Inr f)
          \<and> (\<forall>tr fid. permissions_create env tr fid = None) \<longrightarrow> (\<exists>r. res = Inr r)))
   \<and> (uploadedImages v (sha256 env u) = None
      \<and> state_uploadedImage (persisted v) (sha256 env u) = Some old
      \<and> uploadRemoteImage env u v = (out, v')
      \<and> Inr False \<notin> set (files_get_answers env (trace v) (new_events v v'))
    \<longrightarrow> FilesGet (fileId old) \<in> set (new_events v v')
      \<and> (\<forall>s. out = Inr s \<longrightarrow> \<not> cached s
            \<and> created_ids env (trace v) (new_events v v') = [fileId (result s)]
            \<and> map_option fileId (state_uploadedImage (persisted v') (sha256 env u))
                = Some (fileId (result s))
            \<and> uploadedImages v' (sha256 env u) = Some (result s))
      \<and> (\<forall>e. out = Inl e \<longrightarrow> uploadedImages v' (sha256 env u) = None
            \<and> persisted v' = persisted v)
      \<and> ((\<forall>tr ev. fs_error env tr ev = None) \<and> (\<forall>tr. \<exists>response. http_get env tr u = Inr response)
          \<and> url_pathname env u \<noteq> None
          \<and> (\<forall>tr rq. \<exists>f. files_create env tr rq = Inr f)
          \<and> (\<forall>tr fid. permissions_create env tr fid = None)
          \<longrightarrow> (\<exists>s. out = Inr s) \<and> filter is_files_create (new_events v v') \<noteq> []))"
  using local_stale_run[of env p i w h stale res w'] remote_stale_run[of v env u old out v']
  by blast

theorem stale_entry_is_replaced_witness:
  "upload_key demo_env logo_path None (recorded_world ''trashed-id'') = Some digest_png
   \<and> uploadedImages (recorded_world ''trashed-id'') digest_png = None
   \<and> state_uploadedImage (persisted (recorded_world ''trashed-id'')) digest_png
       = Some (recorded ''trashed-id'')
   \<and> files_get_answers demo_env (trace (recorded_world ''trashed-id''))
        (new_events (recorded_world ''trashed-id'')
           (snd (uploadImage demo_env logo_path None (recorded_world ''trashed-id''))))
       = [Inr True]
   \<and> (\<exists>r. fst (uploadImage demo_env logo_path None (recorded_world ''trashed-id'')) = Inr r
          \<and> \<not> cached r \<and> fileId (result r) = ''id-of-79612083-logo.png''
          \<and> map_option fileId
               (state_uploadedImage
                  (persisted (snd (uploadImage demo_env logo_path None (recorded_world ''trashed-id''))))
                  digest_png)
              = Some (fileId (result r)))
   \<and> uploadedImages (recorded_world ''deleted-id'') (sha256 demo_env url_a) = None
   \<and> state_uploadedImage (persisted (recorded_world ''deleted-id'')) (sha256 demo_env url_a)
       = Some (recorded ''deleted-id'')
   \<and> files_get_answers demo_env (trace (recorded_world ''deleted-id''))
        (new_events (recorded_world ''deleted-id'')
           (snd (uploadRemoteImage demo_env url_a (recorded_world ''deleted-id''))))
       = [Inl (Error ''File not found'')]
   \<and> (\<exists>s. fst (uploadRemoteImage demo_env url_a (recorded_world ''deleted-id'')) = Inr s
          \<and> \<not> cached s \<and> fileId (result s) = ''id-of-remote-8c399fff.png''
          \<and> map_option fileId
               (state_uploadedImage
                  (persisted (snd (uploadRemoteImage demo_env url_a (recorded_world ''deleted-id''))))
                  (sha256 demo_env url_a))
              = Some (fileId (result s)))"
proof -
  let ?w = "recorded_world ''trashed-id''"
  let ?run = "uploadImage demo_env logo_path None ?w"
  let ?v = "recorded_world ''deleted-id''"
  let ?rem = "uploadRemoteImage demo_env url_a ?v"
  have k: "upload_key demo_env logo_path None ?w = Some digest_png"
    by (simp add: eval_defs)
  have m: "uploadedImages ?w digest_png = None"
    by (simp add: recorded_world_def demo_world_def)
  have st: "state_uploadedImage (persisted ?w) digest_png = Some (recorded ''trashed-id'')"
    by (simp add: recorded_world_def demo_world_def state_uploadedImage_def demo_state_def
        digest_png_def digest_a_def)
  have a: "files_get_answers demo_env (trace ?w) (new_events ?w (snd ?run)) = [Inr True]"
    by (simp add: eval_defs)
  have id: "\<exists>r. fst ?run = Inr r \<and> fileId (result r) = ''id-of-79612083-logo.png''"
    by (simp add: eval_defs)
  have h1: "upload_key demo_env logo_path None ?w = Some digest_png
      \<and> uploadedImages ?w digest_png = None
      \<and> state_uploadedImage (persisted ?w) digest_png = Some (recorded ''trashed-id'')
      \<and> ?run = (fst ?run, snd ?run)
      \<and> Inr False \<notin> set (files_get_answers demo_env (trace ?w) (new_events ?w (snd ?run)))"
    using k m st a by simp
  note local = stale_entry_is_replaced[THEN conjunct1, THEN mp, OF h1]
  have l: "\<exists>r. fst ?run = Inr r \<and> \<not> cached r \<and> fileId (result r) = ''id-of-79612083-logo.png''
          \<and> map_option fileId (state_uploadedImage (persisted (snd ?run)) digest_png)
              = Some (fileId (result r))"
    using local id by blast
  have m': "uploadedImages ?v (sha256 demo_env url_a) = None"
    by (simp add: recorded_world_def demo_world_def)
  have st': "state_uploadedImage (persisted ?v) (sha256 demo_env url_a) = Some (recorded ''deleted-id'')"
    by (simp add: recorded_world_def demo_world_def state_uploadedImage_def demo_state_def
        demo_env_def demo_sha256_def digest_png_def digest_a_def)
  have a': "files_get_answers demo_env (trace ?v) (new_events ?v (snd ?rem))
              = [Inl (Error ''File not found'')]"
    by (simp add: eval_defs)
  have id': "\<exists>s. fst ?rem = Inr s \<and> fileId (result s) = ''id-of-remote-8c399fff.png''"
    by (simp add: eval_defs)
  have h2: "uploadedImages ?v (sha256 demo_env url_a) = None
      \<and> state_uploadedImage (persisted ?v) (sha256 demo_env url_a) = Some (recorded ''deleted-id'')
      \<and> ?rem = (fst ?rem, snd ?rem)
      \<and> Inr False \<notin> set (files_get_answers demo_env (trace ?v) (new_events ?v (snd ?rem)))"
    using m' st' a' by simp
  note remote = stale_entry_is_replaced[THEN conjunct2, THEN mp, OF h2]
  have r: "\<exists>s. fst ?rem = Inr s \<and> \<not> cached s \<and> fileId (result s) = ''id-of-remote-8c399fff.png''
          \<and> map_option fileId
               (state_uploadedImage (persisted (snd ?rem)) (sha256 demo_env url_a))
              = Some (fileId (result s))"
    using remote id' by blast
  from k m st a l m' st' a' r show ?thesis by (intro conjI)
qed

subsection \<open>One upload per key\<close>








lemma two_remote_runs:
  "case first_remote of (r1, w1) \<Rightarrow>
     (case uploadRemoteImage demo_env url_b w1 of (r2, w2) \<Rightarrow>
        \<not> isl r1 \<and> \<not> cached (projr r1) \<and> \<not> isl r2 \<and> \<not> cached (projr r2)
        \<and> fileId (result (projr r1)) = ''id-of-remote-8c399fff.png''
        \<and> fileId (result (projr r2)) = ''id-of-remote-65ea1f4b.png''
        \<and> http_get demo_env (trace w1 @ [LoadState, EnsureDir (temp_dir (projectRoot w1))]) url_b
            = Inr \<lparr>content_type = Some ''image/png'', body = ''PNG''\<rparr>
        \<and> written (new_events demo_world w1) = [''/site/.docusaurus/temp/remote-8c399fff.png'']
        \<and> disk w1 ''/site/.docusaurus/temp/remote-8c399fff.png'' = None
        \<and> uploaded_paths (new_events demo_world w2)
            = [''/site/.docusaurus/temp/remote-8c399fff.png'',
               ''/site/.docusaurus/temp/remote-65ea1f4b.png'']
        \<and> length (filter is_files_create (new_events demo_world w2)) = 2
        \<and> uploadedImages w2 digest_a = Some (result (projr r1))
        \<and> uploadedImages w2 digest_b = Some (result (projr r2)))"
  by (simp add: eval_defs)

lemma quota_run:
  "case uploadRemoteImage quota_env url_a demo_world of (r, w) \<Rightarrow>
     r = Inl (Error ''User rate limit exceeded'')
     \<and> written (new_events demo_world w) = [''/site/.docusaurus/temp/remote-8c399fff.png'']
     \<and> disk w ''/site/.docusaurus/temp/remote-8c399fff.png'' = Some ''PNG''"
  by (simp add: eval_defs)

lemma no_remove_run:
  "case uploadRemoteImage no_remove_env url_a demo_world of (r, w) \<Rightarrow>
     \<not> isl r
     \<and> written (new_events demo_world w) = [''/site/.docusaurus/temp/remote-8c399fff.png'']
     \<and> disk w ''/site/.docusaurus/temp/remote-8c399fff.png'' = Some ''PNG''
     \<and> Warn (cleanup_failed_warning no_remove_env (Error ''EPERM: operation not permitted''))
          \<in> set (new_events demo_world w)"
  by (simp add: eval_defs no_remove_env_def)



subsection \<open>The temporary files\<close>

lemma remote_success_removes:
  assumes run: "uploadRemoteImage env u v = (Inr s, v')"
    and rm: "\<forall>tr x. fs_error env tr (Remove x) = None"
  shows "(\<forall>x \<in> set (written (new_events v v') @ uploaded_paths (new_events v v')).
            disk v' x = None)
      \<and> (\<not> cached s \<longrightarrow> (\<exists>tp pp. written (new_events v v') = [tp]
                                \<and> uploaded_paths (new_events v v') = [pp]))"
  using run
proof (cases rule: uploadRemote_cases)
  case (hit c)
  then show ?thesis by (simp add: new_events_def)
next
  case (adopted r)
  then show ?thesis by simp
next
  case (fresh chk tp cv pp f r cl partial)
  have chk: "written chk = []" "uploaded_paths chk = []" using fresh(2) by auto
  have w: "written (new_events v v') = [tp]"
    using fresh(10,12,14) chk by simp
  have up: "uploaded_paths (new_events v v') = [pp]"
    using fresh(10,11,13) chk by (simp add: uploaded_paths_local media_remote_request)
  have "disk v' tp = None \<and> disk v' pp = None" using fresh(18) rm by blast
  then show ?thesis using w up by simp
qed simp_all

lemma remote_fresh_succeeds:
  assumes run: "uploadRemoteImage env u v = (out, v')"
    and miss: "uploadedImages v (sha256 env u) = None"
    and norec: "state_uploadedImage (persisted v) (sha256 env u) = None"
    and dir: "fs_error env (trace v @ [LoadState]) (EnsureDir (temp_dir (projectRoot v))) = None"
    and get: "http_get env (trace v @ [LoadState, EnsureDir (temp_dir (projectRoot v))]) u
                = Inr response"
    and wr: "\<forall>tp. fs_error env
                (trace v @ [LoadState, EnsureDir (temp_dir (projectRoot v)), AxiosGet u])
                (WriteFile tp) = None"
    and url: "url_pathname env u \<noteq> None"
    and create: "\<forall>tr rq. \<exists>f. files_create env tr rq = Inr f"
    and perm: "\<forall>tr fid. permissions_create env tr fid = None"
  shows "\<exists>s. out = Inr s \<and> \<not> cached s"
proof -
  note reach = remote_fresh_reaches_create[OF run miss norec dir get wr url]
  have "\<not> (\<exists>tr rq. files_create env tr rq = Inl e)" for e
    using create by (metis sum.distinct(1))
  moreover have "\<not> (\<exists>tr fid. permissions_create env tr fid = Some e)" for e
    using perm by simp
  ultimately have "out \<noteq> Inl e" for e using reach by blast
  then obtain s where s: "out = Inr s" by (cases out) auto
  have "filter is_files_create (new_events v v') \<noteq> []" using reach by auto
  then have "\<not> cached s" using remote_run_creates[of env u v s v'] run s by simp
  with s show ?thesis by blast
qed

text \<open>
  Claim C3, as amended. When \<open>uploadRemoteImage\<close> succeeds and no removal fails, every
  file the invocation wrote and every file it handed to the Drive (the temporary file and
  the PNG made of it) is absent when it returns; a fresh upload wrote one file and uploaded
  one. The removal is not allowed to abort the upload: when the URL is neither cached nor
  recorded, the download succeeds and the Drive accepts every call, the invocation
  succeeds with a fresh upload, whatever the removals do.
\<close>

theorem temp_files_removed:
  "(uploadRemoteImage env u v = (Inr s, v') \<and> (\<forall>tr x. fs_error env tr (Remove x) = None)
      \<longrightarrow> (\<forall>x \<in> set (written (new_events v v') @ uploaded_paths (new_events v v')).
              disk v' x = None)
          \<and> (\<not> cached s \<longrightarrow> (\<exists>tp pp. written (new_events v v') = [tp]
                                    \<and> uploaded_paths (new_events v v') = [pp])))
   \<and> (uploadRemoteImage env u v = (out, v')
        \<and> uploadedImages v (sha256 env u) = None
        \<and> state_uploadedImage (persisted v) (sha256 env u) = None
        \<and> fs_error env (trace v @ [LoadState]) (EnsureDir (temp_dir (projectRoot v))) = None
        \<and> http_get env (trace v @ [LoadState, EnsureDir (temp_dir (projectRoot v))]) u
            = Inr response
        \<and> (\<forall>tp. fs_error env
                   (trace v @ [LoadState, EnsureDir (temp_dir (projectRoot v)), AxiosGet u])
                   (WriteFile tp) = None)
        \<and> url_pathname env u \<noteq> None
        \<and> (\<forall>tr rq. \<exists>f. files_create env tr rq = Inr f)
        \<and> (\<forall>tr fid. permissions_create env tr fid = None)
      \<longrightarrow> (\<exists>s. out = Inr s \<and> \<not> cached s))"
proof (rule conjI; rule impI)
  assume a: "uploadRemoteImage env u v = (Inr s, v') \<and> (\<forall>tr x. fs_error env tr (Remove x) = None)"
  show "(\<forall>x \<in> set (written (new_events v v') @ uploaded_paths (new_events v v')).
              disk v' x = None)
          \<and> (\<not> cached s \<longrightarrow> (\<exists>tp pp. written (new_events v v') = [tp]
                                    \<and> uploaded_paths (new_events v v') = [pp]))"
    by (rule remote_success_removes[where env=env and u=u]) (use a in simp_all)
next
  assume a: "uploadRemoteImage env u v = (out, v')
        \<and> uploadedImages v (sha256 env u) = None
        \<and> state_uploadedImage (persisted v) (sha256 env u) = None
        \<and> fs_error env (trace v @ [LoadState]) (EnsureDir (temp_dir (projectRoot v))) = None
        \<and> http_get env (trace v @ [LoadState, EnsureDir (temp_dir (projectRoot v))]) u
            = Inr response
        \<and> (\<forall>tp. fs_error env
                   (trace v @ [LoadState, EnsureDir (temp_dir (projectRoot v)), AxiosGet u])
                   (WriteFile tp) = None)
        \<and> url_pathname env u \<noteq> None
        \<and> (\<forall>tr rq. \<exists>f. files_create env tr rq = Inr f)
        \<and> (\<forall>tr fid. permissions_create env tr fid = None)"
  show "\<exists>s. out = Inr s \<and> \<not> cached s"
    by (rule remote_fresh_succeeds[where env=env and u=u and v=v and v'=v'
          and response=response]) (use a in simp_all)
qed

theorem temp_files_removed_witness:
  "(\<exists>s. first_remote = (Inr s, snd first_remote) \<and> \<not> cached s)
   \<and> written (new_events demo_world (snd first_remote))
       = [''/site/.docusaurus/temp/remote-8c399fff.png'']
   \<and> disk (snd first_remote) ''/site/.docusaurus/temp/remote-8c399fff.png'' = None
   \<and> fs_error no_remove_env [] (Remove ''/site/.docusaurus/temp/remote-8c399fff.png'') \<noteq> None
   \<and> (\<exists>s. fst (uploadRemoteImage no_remove_env url_a demo_world) = Inr s \<and> \<not> cached s)"
proof -
  let ?bad = "uploadRemoteImage no_remove_env url_a demo_world"
  have f: "\<not> isl (fst first_remote) \<and> \<not> cached (projr (fst first_remote))
      \<and> written (new_events demo_world (snd first_remote))
          = [''/site/.docusaurus/temp/remote-8c399fff.png'']"
    using two_remote_runs[unfolded case_prod_unfold] by blast
  then obtain s where s: "first_remote = (Inr s, snd first_remote)" "\<not> cached s"
    by (metis prod.collapse sum.collapse(2) sum.disc(2) sum.sel(2))
  have h1: "uploadRemoteImage demo_env url_a demo_world = (Inr s, snd first_remote)
      \<and> (\<forall>tr x. fs_error demo_env tr (Remove x) = None)"
    using s(1) by (simp add: first_remote_def demo_env_def)
  note removed = temp_files_removed[THEN conjunct1, THEN mp, OF h1]
  have h2: "?bad = (fst ?bad, snd ?bad)
        \<and> uploadedImages demo_world (sha256 no_remove_env url_a) = None
        \<and> state_uploadedImage (persisted demo_world) (sha256 no_remove_env url_a) = None
        \<and> fs_error no_remove_env (trace demo_world @ [LoadState])
             (EnsureDir (temp_dir (projectRoot demo_world))) = None
        \<and> http_get no_remove_env
             (trace demo_world @ [LoadState, EnsureDir (temp_dir (projectRoot demo_world))]) url_a
            = Inr \<lparr>content_type = Some ''image/png'', body = ''PNG''\<rparr>
        \<and> (\<forall>tp. fs_error no_remove_env
                   (trace demo_world
                      @ [LoadState, EnsureDir (temp_dir (projectRoot demo_world)), AxiosGet url_a])
                   (WriteFile tp) = None)
        \<and> url_pathname no_remove_env url_a \<noteq> None
        \<and> (\<forall>tr rq. \<exists>f. files_create no_remove_env tr rq = Inr f)
        \<and> (\<forall>tr fid. permissions_create no_remove_env tr fid = None)"
    by (simp add: no_remove_env_def demo_env_def demo_world_def demo_state_def
        state_uploadedImage_def)
  note swallowed = temp_files_removed[THEN conjunct2, THEN mp, OF h2]
  have n: "fs_error no_remove_env [] (Remove ''/site/.docusaurus/temp/remote-8c399fff.png'')
             \<noteq> None"
    by (simp add: no_remove_env_def demo_env_def)
  have gone: "disk (snd first_remote) ''/site/.docusaurus/temp/remote-8c399fff.png'' = None"
    using removed f by simp
  from s f gone swallowed n show ?thesis
    unfolding first_remote_def by blast
qed

text \<open>
  Claim C3 as stated fails twice. When the Drive refuses the upload, the invocation throws
  after it wrote the temporary file, and the file is still there. When the removal fails,
  the invocation succeeds after a warning, and the file is still there.
\<close>

theorem temp_file_left_behind:
  "disk demo_world ''/site/.docusaurus/temp/remote-8c399fff.png'' = None
   \<and> fst (uploadRemoteImage quota_env url_a demo_world)
       = Inl (Error ''User rate limit exceeded'')
   \<and> written (new_events demo_world (snd (uploadRemoteImage quota_env url_a demo_world)))
       = [''/site/.docusaurus/temp/remote-8c399fff.png'']
   \<and> disk (snd (uploadRemoteImage quota_env url_a demo_world))
        ''/site/.docusaurus/temp/remote-8c399fff.png'' = Some ''PNG''
   \<and> \<not> isl (fst (uploadRemoteImage no_remove_env url_a demo_world))
   \<and> written (new_events demo_world (snd (uploadRemoteImage no_remove_env url_a demo_world)))
       = [''/site/.docusaurus/temp/remote-8c399fff.png'']
   \<and> disk (snd (uploadRemoteImage no_remove_env url_a demo_world))
        ''/site/.docusaurus/temp/remote-8c399fff.png'' = Some ''PNG''
   \<and> Warn (cleanup_failed_warning no_remove_env (Error ''EPERM: operation not permitted''))
        \<in> set (new_events demo_world (snd (uploadRemoteImage no_remove_env url_a demo_world)))"
proof -
  have d: "disk demo_world ''/site/.docusaurus/temp/remote-8c399fff.png'' = None"
    by (simp add: demo_world_def logo_path_def)
  show ?thesis
    using d quota_run[unfolded case_prod_unfold] no_remove_run[unfolded case_prod_unfold] by blast
qed

end
